theory Spec2Isabelle
  imports Main "HOL-Library.AList"
begin

section \<open>JavaScript values and string helpers\<close>

text \<open>
  The resolver works on whatever \<open>JSON.parse\<close> hands back, so parsed data is modelled
  dynamically.  \<open>JUndefined\<close> is never produced by \<open>JSON.parse\<close>; it is the value of a
  missing property.  JSON numbers are restricted to integers (the counts and versions the
  tools print are integers or strings).  Strings are byte strings; whitespace is ASCII
  whitespace.
\<close>

datatype jsval =
    JUndefined
  | JNull
  | JBool bool
  | JNum int
  | JStr string
  | JArr "jsval list"
  | JObj "(string \<times> jsval) list"

datatype js_error = TypeError | SyntaxError | CommandFailed | ReadFailed

definition ebind :: "js_error + 'a \<Rightarrow> ('a \<Rightarrow> js_error + 'b) \<Rightarrow> js_error + 'b" where
  "ebind m f = (case m of Inl e \<Rightarrow> Inl e | Inr x \<Rightarrow> f x)"

definition is_digit :: "char \<Rightarrow> bool" where
  "is_digit c = (c \<in> set ''0123456789'')"

definition is_space :: "char \<Rightarrow> bool" where
  "is_space c = (c \<in> set [CHR '' '', CHR 0x09, CHR 0x0A, CHR 0x0B, CHR 0x0C, CHR 0x0D])"

definition trim :: "string \<Rightarrow> string" where
  "trim s = rev (dropWhile is_space (rev (dropWhile is_space s)))"

text \<open>\<open>s.split(sep)\<close> for a string separator: pieces between non-overlapping occurrences,
  scanned left to right; the empty separator splits into single characters.\<close>

function split_from :: "string \<Rightarrow> string \<Rightarrow> string \<Rightarrow> string list" where
  "split_from sep acc [] = [acc]"
| "split_from sep acc (c # cs) =
     (if sep \<noteq> [] \<and> take (length sep) (c # cs) = sep
      then acc # split_from sep [] (drop (length sep) (c # cs))
      else split_from sep (acc @ [c]) cs)"
  by pat_completeness auto
termination
  by (relation "measure (\<lambda>(sep, acc, s). length s)") auto

definition js_split :: "string \<Rightarrow> string \<Rightarrow> string list" where
  "js_split sep s = (if sep = [] then map (\<lambda>c. [c]) s else split_from sep [] s)"

fun js_join :: "string \<Rightarrow> string list \<Rightarrow> string" where
  "js_join sep [] = []"
| "js_join sep [x] = x"
| "js_join sep (x # y # ys) = x @ sep @ js_join sep (y # ys)"

text \<open>\<open>xs[0]\<close>: \<open>None\<close> stands for \<open>undefined\<close>.\<close>

definition first_elem :: "'a list \<Rightarrow> 'a option" where
  "first_elem xs = (case xs of [] \<Rightarrow> None | x # _ \<Rightarrow> Some x)"

section \<open>Version comparator\<close>

text \<open>
  \<^verbatim>\<open>
  export function isMajorUpdate(current: string, latest: string): boolean {
    const curMajor = current.replace(/^[^0-9]*/, "").split(".")[0];
    const latMajor = latest.replace(/^[^0-9]*/, "").split(".")[0];
    return curMajor !== latMajor && curMajor !== "" && latMajor !== "";
  }
  \<close>
  \<open>replace(/^[^0-9]*/, "")\<close> removes the longest prefix of non-digits.
\<close>

definition strip_non_digits :: "string \<Rightarrow> string" where
  "strip_non_digits s = dropWhile (\<lambda>c. \<not> is_digit c) s"

definition major_token :: "string \<Rightarrow> string option" where
  "major_token v = first_elem (js_split ''.'' (strip_non_digits v))"

definition isMajorUpdate :: "string \<Rightarrow> string \<Rightarrow> bool" where
  "isMajorUpdate current latest =
     (let curMajor = major_token current;
          latMajor = major_token latest
      in curMajor \<noteq> latMajor \<and> curMajor \<noteq> Some '''' \<and> latMajor \<noteq> Some '''')"

text \<open>The comparator as the specification words it: strip leading non-digits, take the
  token before the first dot, compare as strings, false when either token is empty.\<close>

definition spec_major_token :: "string \<Rightarrow> string" where
  "spec_major_token v = takeWhile (\<lambda>c. c \<noteq> CHR ''.'') (dropWhile (\<lambda>c. \<not> is_digit c) v)"

definition spec_isMajorUpdate :: "string \<Rightarrow> string \<Rightarrow> bool" where
  "spec_isMajorUpdate current latest =
     (if spec_major_token current = [] \<or> spec_major_token latest = [] then False
      else spec_major_token current \<noteq> spec_major_token latest)"

section \<open>Dynamic JavaScript operations\<close>

text \<open>Truthiness, as \<open>||\<close>, \<open>&&\<close>, \<open>!\<close> and \<open>if\<close> see it.\<close>

fun truthy :: "jsval \<Rightarrow> bool" where
  "truthy JUndefined = False"
| "truthy JNull = False"
| "truthy (JBool b) = b"
| "truthy (JNum n) = (n \<noteq> 0)"
| "truthy (JStr s) = (s \<noteq> [])"
| "truthy (JArr xs) = True"
| "truthy (JObj kvs) = True"

text \<open>\<open>a || b\<close> for operands whose evaluation cannot throw.\<close>

definition js_or :: "jsval \<Rightarrow> jsval \<Rightarrow> jsval" where
  "js_or a b = (if truthy a then a else b)"

fun nullish :: "jsval \<Rightarrow> bool" where
  "nullish JUndefined = True"
| "nullish JNull = True"
| "nullish v = False"

text \<open>
  \<open>v.k\<close> for a \<open>v\<close> that is neither \<open>null\<close> nor \<open>undefined\<close> (on those the read throws a
  TypeError, which every use below checks first with \<open>nullish\<close>).  An object parsed from
  JSON has one value per key.  The property names the source reads are not defined on
  strings, numbers, booleans or arrays, so reading them there gives \<open>undefined\<close>.
\<close>

fun get_prop :: "jsval \<Rightarrow> string \<Rightarrow> jsval" where
  "get_prop (JObj kvs) k = (case map_of kvs k of None \<Rightarrow> JUndefined | Some v \<Rightarrow> v)"
| "get_prop v k = JUndefined"

definition js_get :: "jsval \<Rightarrow> string \<Rightarrow> js_error + jsval" where
  "js_get v k = (if nullish v then Inl TypeError else Inr (get_prop v k))"

text \<open>\<open>v?.k\<close>\<close>

definition opt_prop :: "jsval \<Rightarrow> string \<Rightarrow> jsval" where
  "opt_prop v k = (if nullish v then JUndefined else get_prop v k)"

text \<open>\<open>a !== b\<close> for two values read from different places of parsed JSON: primitives are
  compared by value, and two objects or arrays are different references.\<close>

fun is_primitive :: "jsval \<Rightarrow> bool" where
  "is_primitive (JArr xs) = False"
| "is_primitive (JObj kvs) = False"
| "is_primitive v = True"

definition strict_neq :: "jsval \<Rightarrow> jsval \<Rightarrow> bool" where
  "strict_neq a b = (if is_primitive a \<and> is_primitive b then a \<noteq> b else True)"

text \<open>Decimal digits of a number, for \<open>String(n)\<close>.\<close>

function digits_of :: "nat \<Rightarrow> string" where
  "digits_of n =
     (if n < 10 then [''0123456789'' ! n]
      else digits_of (n div 10) @ [''0123456789'' ! (n mod 10)])"
  by pat_completeness auto
termination
  by (relation "measure (\<lambda>n. n)") auto

definition show_int :: "int \<Rightarrow> string" where
  "show_int i = (if i < 0 then ''-'' @ digits_of (nat (- i)) else digits_of (nat i))"

text \<open>\<open>String(v)\<close>, which is also how a value becomes a property key and how a template
  literal prints it.  Inside an array, \<open>null\<close> and \<open>undefined\<close> print as the empty string.\<close>

fun js_to_string :: "jsval \<Rightarrow> string" where
  "js_to_string JUndefined = ''undefined''"
| "js_to_string JNull = ''null''"
| "js_to_string (JBool b) = (if b then ''true'' else ''false'')"
| "js_to_string (JNum n) = show_int n"
| "js_to_string (JStr s) = s"
| "js_to_string (JArr xs) =
     js_join '','' (map (\<lambda>x. if nullish x then [] else js_to_string x) xs)"
| "js_to_string (JObj kvs) = ''[object Object]''"

text \<open>
  Arithmetic.  A number is an integer or \<open>NaN\<close>; \<open>*\<close>, \<open>-\<close>, \<open>Math.min\<close> and \<open>Math.max\<close> give
  \<open>NaN\<close> as soon as one operand is \<open>NaN\<close>, and every comparison with \<open>NaN\<close> is false.
\<close>

datatype jsnum = Num int | NaN

definition num_op :: "(int \<Rightarrow> int \<Rightarrow> int) \<Rightarrow> jsnum \<Rightarrow> jsnum \<Rightarrow> jsnum" where
  "num_op f a b =
     (case a of NaN \<Rightarrow> NaN | Num x \<Rightarrow> (case b of NaN \<Rightarrow> NaN | Num y \<Rightarrow> Num (f x y)))"

definition num_le :: "jsnum \<Rightarrow> jsnum \<Rightarrow> bool" where
  "num_le a b = (case a of NaN \<Rightarrow> False | Num x \<Rightarrow> (case b of NaN \<Rightarrow> False | Num y \<Rightarrow> x \<le> y))"

definition num_less :: "jsnum \<Rightarrow> jsnum \<Rightarrow> bool" where
  "num_less a b = (case a of NaN \<Rightarrow> False | Num x \<Rightarrow> (case b of NaN \<Rightarrow> False | Num y \<Rightarrow> x < y))"

text \<open>
  \<open>a + b\<close>.  Each operand is first made primitive (an array or an object parsed from JSON
  becomes its \<open>String(v)\<close>); if either is then a string the two are concatenated as strings,
  otherwise they are added as numbers, with \<open>true\<close> as 1, \<open>false\<close> and \<open>null\<close> as 0 and
  \<open>undefined\<close> as \<open>NaN\<close>.  The sum is a number or a string.
\<close>

datatype jsprim = PNum jsnum | PStr string

fun operand :: "jsval \<Rightarrow> jsprim" where
  "operand JUndefined = PNum NaN"
| "operand JNull = PNum (Num 0)"
| "operand (JBool b) = PNum (Num (if b then 1 else 0))"
| "operand (JNum n) = PNum (Num n)"
| "operand (JStr s) = PStr s"
| "operand (JArr xs) = PStr (js_to_string (JArr xs))"
| "operand (JObj kvs) = PStr (js_to_string (JObj kvs))"

fun prim_string :: "jsprim \<Rightarrow> string" where
  "prim_string (PNum (Num n)) = show_int n"
| "prim_string (PNum NaN) = ''NaN''"
| "prim_string (PStr s) = s"

fun js_plus :: "jsprim \<Rightarrow> jsprim \<Rightarrow> jsprim" where
  "js_plus (PNum x) (PNum y) = PNum (num_op (+) x y)"
| "js_plus a b = PStr (prim_string a @ prim_string b)"

text \<open>\<open>obj[k] = v\<close> on a plain object: a new key goes last, an existing key keeps its
  place.  Assigning to \<open>__proto__\<close> goes to the prototype setter and adds no own property.
  (Own keys that look like array indices are listed first by JavaScript; nothing below
  depends on the order.)\<close>

type_synonym props = "(string \<times> jsval) list"

definition obj_set :: "props \<Rightarrow> string \<Rightarrow> jsval \<Rightarrow> props" where
  "obj_set kvs k v = (if k = ''__proto__'' then kvs else AList.update k v kvs)"

text \<open>\<open>for (const x of v)\<close>: arrays and strings are iterable, nothing else JSON can hold.\<close>

fun js_iterate :: "jsval \<Rightarrow> js_error + jsval list" where
  "js_iterate (JArr xs) = Inr xs"
| "js_iterate (JStr s) = Inr (map (\<lambda>c. JStr [c]) s)"
| "js_iterate v = Inl TypeError"

definition indexed :: "jsval list \<Rightarrow> (string \<times> jsval) list" where
  "indexed xs = map (\<lambda>i. (show_int (int i), xs ! i)) [0..<length xs]"

text \<open>\<open>Object.entries(v)\<close>; \<open>Object.keys(v)\<close> is its first components.\<close>

fun object_entries :: "jsval \<Rightarrow> js_error + (string \<times> jsval) list" where
  "object_entries JUndefined = Inl TypeError"
| "object_entries JNull = Inl TypeError"
| "object_entries (JBool b) = Inr []"
| "object_entries (JNum n) = Inr []"
| "object_entries (JStr s) = Inr (indexed (map (\<lambda>c. JStr [c]) s))"
| "object_entries (JArr xs) = Inr (indexed xs)"
| "object_entries (JObj kvs) = Inr kvs"

text \<open>The own properties \<open>{...v}\<close> copies.  Only named keys are ever looked up in a spread
  below, so the index keys of a string or an array are left out.\<close>

fun spread :: "jsval \<Rightarrow> (string \<times> jsval) list" where
  "spread (JObj kvs) = kvs"
| "spread v = []"

definition ends_with :: "string \<Rightarrow> string \<Rightarrow> bool" where
  "ends_with suffix s = (length suffix \<le> length s \<and> drop (length s - length suffix) s = suffix)"

definition starts_with :: "string \<Rightarrow> string \<Rightarrow> bool" where
  "starts_with pre s = (take (length pre) s = pre)"

text \<open>\<open>s.replace(pat, rep)\<close> for a string pattern: the first occurrence only.\<close>

fun replace_first :: "string \<Rightarrow> string \<Rightarrow> string \<Rightarrow> string" where
  "replace_first pat rep [] = (if pat = [] then rep else [])"
| "replace_first pat rep (c # cs) =
     (if take (length pat) (c # cs) = pat then rep @ drop (length pat) (c # cs)
      else c # replace_first pat rep cs)"

text \<open>\<open>s.replace(/pat/g, rep)\<close> for a literal pattern.\<close>

definition replace_all :: "string \<Rightarrow> string \<Rightarrow> string \<Rightarrow> string" where
  "replace_all pat rep s = js_join rep (js_split pat s)"

text \<open>\<open>xs.slice(-2)\<close>\<close>

definition last_two :: "'a list \<Rightarrow> 'a list" where
  "last_two xs = drop (length xs - 2) xs"

text \<open>Pieces of the regular expressions the source matches with: a longest run of
  non-whitespace (\<open>\S+\<close>), at least one whitespace (\<open>\s+\<close>), a literal, and the
  leftmost position at which an unanchored pattern matches.\<close>

definition take_token :: "string \<Rightarrow> (string \<times> string) option" where
  "take_token s =
     (if takeWhile (\<lambda>c. \<not> is_space c) s = [] then None
      else Some (takeWhile (\<lambda>c. \<not> is_space c) s, dropWhile (\<lambda>c. \<not> is_space c) s))"

definition skip_spaces1 :: "string \<Rightarrow> string option" where
  "skip_spaces1 s = (if takeWhile is_space s = [] then None else Some (dropWhile is_space s))"

definition expect :: "string \<Rightarrow> string \<Rightarrow> string option" where
  "expect lit s = (if take (length lit) s = lit then Some (drop (length lit) s) else None)"

fun first_match :: "(string \<Rightarrow> 'a option) \<Rightarrow> string \<Rightarrow> 'a option" where
  "first_match m [] = m []"
| "first_match m (c # cs) =
     (case m (c # cs) of Some r \<Rightarrow> Some r | None \<Rightarrow> first_match m cs)"

section \<open>The world outside the process\<close>

text \<open>
  The file system, the clock and the log of command lines handed to \<open>execSync\<close>.  A file
  has a content and a modification time (milliseconds); a directory has its entry names.
\<close>

datatype node = File string int | Dir "string list"

record world =
  fs :: "string \<Rightarrow> node option"
  clock :: int
  trace :: "string list"

record proc_result =
  exit_ok :: bool
  stdout :: string

text \<open>
  What the program does not decide: how \<open>/bin/sh\<close> answers a command line in a working
  directory (and what the command does to the world meanwhile), and the JavaScript
  built-ins \<open>JSON.parse\<close> (\<open>None\<close>: it throws a SyntaxError), \<open>JSON.stringify(v, null, 2)\<close>,
  \<open>Date.prototype.toISOString\<close>, \<open>os.homedir()\<close> and the conversion of a string to a number
  that arithmetic applies to a string operand.
\<close>

record env =
  spawn :: "string \<Rightarrow> string option \<Rightarrow> world \<Rightarrow> proc_result \<times> world"
  JSON_parse :: "string \<Rightarrow> jsval option"
  JSON_stringify :: "jsval \<Rightarrow> string"
  toISOString :: "int \<Rightarrow> string"
  homedir :: string
  StringToNumber :: "string \<Rightarrow> jsnum"

text \<open>\<open>ToNumber\<close> of a sum.\<close>

definition to_number :: "env \<Rightarrow> jsprim \<Rightarrow> jsnum" where
  "to_number E p = (case p of PNum x \<Rightarrow> x | PStr s \<Rightarrow> StringToNumber E s)"

definition execSync :: "env \<Rightarrow> string \<Rightarrow> string option \<Rightarrow> world \<Rightarrow> proc_result \<times> world" where
  "execSync E cmd cwd w =
     (let (r, w') = spawn E cmd cwd w in (r, w'\<lparr>trace := trace w @ [cmd]\<rparr>))"

text \<open>
  \<^verbatim>\<open>
  export function run(cmd: string, cwd: string): string {
    try { return execSync(cmd, { cwd, ... }); }
    catch (err: unknown) {
      if (err && typeof err === "object" && "stdout" in err) {
        const stdout = (err as { stdout: string }).stdout;
        if (stdout) return stdout;
      }
      ...
      throw new Error(`Command failed: ${cmd}\n${message}`);
    }
  }
  \<close>
\<close>

definition run :: "env \<Rightarrow> string \<Rightarrow> string \<Rightarrow> world \<Rightarrow> (js_error + string) \<times> world" where
  "run E cmd cwd w =
     (let (r, w') = execSync E cmd (Some cwd) w in
      (if exit_ok r then Inr (stdout r)
       else if stdout r \<noteq> [] then Inr (stdout r)
       else Inl CommandFailed, w'))"

definition cmdExists :: "env \<Rightarrow> string \<Rightarrow> world \<Rightarrow> bool \<times> world" where
  "cmdExists E cmd w = (let (r, w') = execSync E (''which '' @ cmd) None w in (exit_ok r, w'))"

definition existsSync :: "world \<Rightarrow> string \<Rightarrow> bool" where
  "existsSync w p = (fs w p \<noteq> None)"

definition readFileSync :: "world \<Rightarrow> string \<Rightarrow> js_error + string" where
  "readFileSync w p = (case fs w p of Some (File content mtime) \<Rightarrow> Inr content | _ \<Rightarrow> Inl ReadFailed)"

definition readdirSync :: "world \<Rightarrow> string \<Rightarrow> js_error + string list" where
  "readdirSync w p = (case fs w p of Some (Dir names) \<Rightarrow> Inr names | _ \<Rightarrow> Inl ReadFailed)"

text \<open>\<open>path.join(dir, f)\<close> for a normalised \<open>dir\<close> and a relative \<open>f\<close> without \<open>.\<close> or
  \<open>..\<close> segments, which is all the source joins.\<close>

definition path_join :: "string \<Rightarrow> string \<Rightarrow> string" where
  "path_join dir f =
     (if dir = [] then f else if last dir = CHR ''/'' then dir @ f else dir @ ''/'' @ f)"

definition json_parse :: "env \<Rightarrow> string \<Rightarrow> js_error + jsval" where
  "json_parse E s = (case JSON_parse E s of None \<Rightarrow> Inl SyntaxError | Some v \<Rightarrow> Inr v)"

text \<open>\<open>try { ... } catch { return {}; }\<close> around a body that ran in the world and either
  threw or returned.\<close>

definition catch_empty :: "(js_error + jsval) \<times> world \<Rightarrow> (js_error + jsval) \<times> world" where
  "catch_empty r = (case fst r of Inl e \<Rightarrow> (Inr (JObj []), snd r) | Inr v \<Rightarrow> (Inr v, snd r))"

text \<open>An outdated entry, the object literal \<open>{ current, wanted, latest }\<close>.\<close>

definition entry3 :: "jsval \<Rightarrow> jsval \<Rightarrow> jsval \<Rightarrow> jsval" where
  "entry3 c w l = JObj [(''current'', c), (''wanted'', w), (''latest'', l)]"

section \<open>Ecosystem registry\<close>

text \<open>\<open>LANGUAGE_MARKERS\<close> of constants.ts, in its declaration order (the order
  \<open>Object.entries\<close> walks it).  A language tag is a string at run time, so the registry is
  an association list looked up by \<open>map_of\<close>; a tag outside it gives \<open>None\<close>, the
  \<open>undefined\<close> the source guards against.  (Tags that name a member of
  \<open>Object.prototype\<close> are not \<open>Language\<close> values and are left aside.)\<close>

record LanguageMarker =
  files :: "string list"
  name :: string
  outdatedCmd :: string
  updateCmd :: string
  updateLatestCmd :: string
  installCmd :: string
  cleanCmd :: string
  auditCmd :: "string option"
  parseOutdated :: string

definition node_marker :: LanguageMarker where
  "node_marker = \<lparr> files = [''package.json''], name = ''Node.js'',
     outdatedCmd = ''{pm} outdated --json'', updateCmd = ''{pm} update'',
     updateLatestCmd = ''{pm} update --latest'', installCmd = ''{pm} install'',
     cleanCmd = ''rm -rf node_modules'', auditCmd = Some ''{pm} audit --json'',
     parseOutdated = ''npm'' \<rparr>"

definition python_marker :: LanguageMarker where
  "python_marker = \<lparr> files = [''requirements.txt'', ''pyproject.toml'', ''Pipfile'', ''setup.py''],
     name = ''Python'', outdatedCmd = ''pip list --outdated --format=json'',
     updateCmd = ''pip install --upgrade {packages}'',
     updateLatestCmd = ''pip install --upgrade {packages}'',
     installCmd = ''pip install -r requirements.txt'', cleanCmd = [],
     auditCmd = Some ''pip audit --format=json'', parseOutdated = ''pip'' \<rparr>"

definition rust_marker :: LanguageMarker where
  "rust_marker = \<lparr> files = [''Cargo.toml''], name = ''Rust'',
     outdatedCmd = ''cargo outdated --format json'', updateCmd = ''cargo update'',
     updateLatestCmd = ''cargo update'', installCmd = ''cargo build'',
     cleanCmd = ''cargo clean'', auditCmd = Some ''cargo audit --json'',
     parseOutdated = ''cargo'' \<rparr>"

definition go_marker :: LanguageMarker where
  "go_marker = \<lparr> files = [''go.mod''], name = ''Go'',
     outdatedCmd = ''go list -m -u -json all'', updateCmd = ''go get -u ./...'',
     updateLatestCmd = ''go get -u ./...'', installCmd = ''go mod download'',
     cleanCmd = ''go clean -modcache'', auditCmd = Some ''govulncheck -json ./...'',
     parseOutdated = ''go'' \<rparr>"

definition php_marker :: LanguageMarker where
  "php_marker = \<lparr> files = [''composer.json''], name = ''PHP'',
     outdatedCmd = ''composer outdated --format=json'', updateCmd = ''composer update'',
     updateLatestCmd = ''composer update --with-all-dependencies'',
     installCmd = ''composer install'', cleanCmd = ''rm -rf vendor'',
     auditCmd = Some ''composer audit --format=json'', parseOutdated = ''composer'' \<rparr>"

definition ruby_marker :: LanguageMarker where
  "ruby_marker = \<lparr> files = [''Gemfile''], name = ''Ruby'',
     outdatedCmd = ''bundle outdated --parseable'', updateCmd = ''bundle update'',
     updateLatestCmd = ''bundle update'', installCmd = ''bundle install'',
     cleanCmd = ''rm -rf vendor/bundle'', auditCmd = Some ''bundle-audit check --format json'',
     parseOutdated = ''gem'' \<rparr>"

definition dart_marker :: LanguageMarker where
  "dart_marker = \<lparr> files = [''pubspec.yaml''], name = ''Dart/Flutter'',
     outdatedCmd = ''dart pub outdated --json'', updateCmd = ''dart pub upgrade'',
     updateLatestCmd = ''dart pub upgrade --major-versions'', installCmd = ''dart pub get'',
     cleanCmd = ''rm -rf .dart_tool'', auditCmd = None, parseOutdated = ''pub'' \<rparr>"

definition swift_marker :: LanguageMarker where
  "swift_marker = \<lparr> files = [''Package.swift''], name = ''Swift'',
     outdatedCmd = ''swift package show-dependencies --format json'',
     updateCmd = ''swift package update'', updateLatestCmd = ''swift package update'',
     installCmd = ''swift package resolve'', cleanCmd = ''swift package clean'',
     auditCmd = None, parseOutdated = ''swift'' \<rparr>"

definition kotlin_marker :: LanguageMarker where
  "kotlin_marker = \<lparr> files = [''build.gradle.kts'', ''build.gradle''], name = ''Kotlin/Java'',
     outdatedCmd = ''./gradlew dependencyUpdates -Drevision=release --output-formatter json'',
     updateCmd = ''./gradlew dependencyUpdates'',
     updateLatestCmd = ''./gradlew dependencyUpdates -Drevision=release'',
     installCmd = ''./gradlew build'', cleanCmd = ''./gradlew clean'',
     auditCmd = None, parseOutdated = ''gradle'' \<rparr>"

definition LANGUAGE_MARKERS :: "(string \<times> LanguageMarker) list" where
  "LANGUAGE_MARKERS =
     [(''node'', node_marker), (''python'', python_marker), (''rust'', rust_marker),
      (''go'', go_marker), (''php'', php_marker), (''ruby'', ruby_marker),
      (''dart'', dart_marker), (''swift'', swift_marker), (''kotlin'', kotlin_marker)]"

definition marker_of :: "string \<Rightarrow> LanguageMarker option" where
  "marker_of lang = map_of LANGUAGE_MARKERS lang"

section \<open>Project records\<close>

text \<open>\<open>ProjectInfo\<close> of types.ts.  The fields filled from a parsed manifest hold whatever
  the manifest held, so they are \<open>jsval\<close>s; the tags the classifier computes are strings.\<close>

record ProjectInfo =
  name :: jsval
  path :: string
  language :: string
  framework :: string
  packageManager :: string
  nodeVersion :: jsval
  dependencies :: jsval
  devDependencies :: jsval

section \<open>Project classifier\<close>

definition has_marker :: "world \<Rightarrow> string \<Rightarrow> LanguageMarker \<Rightarrow> bool" where
  "has_marker w dir marker = list_ex (\<lambda>f. existsSync w (path_join dir f)) (files marker)"

text \<open>
  \<^verbatim>\<open>
  export function detectLanguage(dir: string): Language {
    for (const [lang, marker] of Object.entries(LANGUAGE_MARKERS)) {
      if (marker.files.some((f) => existsSync(join(dir, f)))) return lang as Language;
    }
    return "node"; // default
  }
  \<close>
\<close>

fun first_language :: "world \<Rightarrow> string \<Rightarrow> (string \<times> LanguageMarker) list \<Rightarrow> string option" where
  "first_language w dir [] = None"
| "first_language w dir ((lang, marker) # rest) =
     (if has_marker w dir marker then Some lang else first_language w dir rest)"

definition detectLanguage :: "world \<Rightarrow> string \<Rightarrow> string" where
  "detectLanguage w dir =
     (case first_language w dir LANGUAGE_MARKERS of Some lang \<Rightarrow> lang | None \<Rightarrow> ''node'')"

definition detectPackageManager :: "world \<Rightarrow> string \<Rightarrow> string" where
  "detectPackageManager w dir =
     (if existsSync w (path_join dir ''bun.lockb'') \<or> existsSync w (path_join dir ''bun.lock'')
      then ''bun''
      else if existsSync w (path_join dir ''pnpm-lock.yaml'') then ''pnpm''
      else if existsSync w (path_join dir ''yarn.lock'') then ''yarn''
      else ''npm'')"

definition FRAMEWORK_DETECTORS :: "(string \<times> string list) list" where
  "FRAMEWORK_DETECTORS =
     [(''SvelteKit'', [''svelte.config.js'', ''svelte.config.ts'']),
      (''Next.js'', [''next.config.js'', ''next.config.ts'', ''next.config.mjs'']),
      (''Nuxt'', [''nuxt.config.ts'', ''nuxt.config.js'']),
      (''Astro'', [''astro.config.mjs'', ''astro.config.ts'']),
      (''Remix'', [''remix.config.js'', ''remix.config.ts'']),
      (''SolidStart'', [''app.config.ts'', ''app.config.js'']),
      (''Django'', [''manage.py'']),
      (''Flask'', [''wsgi.py'']),
      (''Laravel'', [''artisan'']),
      (''Xcode/Swift'', [''*.xcodeproj'', ''*.xcworkspace'']),
      (''Android/Kotlin'', [''settings.gradle.kts'', ''settings.gradle''])]"

text \<open>One detector file: a pattern \<open>*.ext\<close> asks for a directory entry ending in \<open>.ext\<close>
  (a directory that cannot be listed has none), any other name for that file.\<close>

definition detector_hit :: "world \<Rightarrow> string \<Rightarrow> string \<Rightarrow> bool" where
  "detector_hit w dir f =
     (if starts_with ''*.'' f then
        (case readdirSync w dir of
           Inl e \<Rightarrow> False
         | Inr names \<Rightarrow> list_ex (\<lambda>entry. ends_with (drop 1 f) entry) names)
      else existsSync w (path_join dir f))"

fun first_framework :: "world \<Rightarrow> string \<Rightarrow> (string \<times> string list) list \<Rightarrow> string option" where
  "first_framework w dir [] = None"
| "first_framework w dir ((nm, fl) # rest) =
     (if list_ex (detector_hit w dir) fl then Some nm else first_framework w dir rest)"

text \<open>\<open>{ ...pkg.dependencies, ...pkg.devDependencies }[k]\<close>: the later spread wins.\<close>

definition merged_get :: "jsval \<Rightarrow> jsval \<Rightarrow> string \<Rightarrow> jsval" where
  "merged_get deps devDeps k =
     (case map_of (spread devDeps) k of
        Some v \<Rightarrow> v
      | None \<Rightarrow> (case map_of (spread deps) k of Some v \<Rightarrow> v | None \<Rightarrow> JUndefined))"

text \<open>The dependency sniffing of \<open>detectFramework\<close>, in the source's order; \<open>None\<close> when no
  key is present.\<close>

fun first_dep :: "jsval \<Rightarrow> jsval \<Rightarrow> (string \<times> string) list \<Rightarrow> string option" where
  "first_dep deps devDeps [] = None"
| "first_dep deps devDeps ((k, nm) # rest) =
     (if truthy (merged_get deps devDeps k) then Some nm else first_dep deps devDeps rest)"

definition node_frameworks :: "(string \<times> string) list" where
  "node_frameworks =
     [(''solid-start'', ''SolidStart''), (''solid-js'', ''Solid.js''),
      (''@sveltejs/kit'', ''SvelteKit''), (''svelte'', ''Svelte''), (''next'', ''Next.js''),
      (''react'', ''React''), (''vue'', ''Vue''), (''express'', ''Express''),
      (''fastify'', ''Fastify''), (''hono'', ''Hono'')]"

definition read_json :: "env \<Rightarrow> world \<Rightarrow> string \<Rightarrow> js_error + jsval" where
  "read_json E w p = ebind (readFileSync w p) (json_parse E)"

definition language_name :: "string \<Rightarrow> string" where
  "language_name lang =
     (case marker_of lang of
        None \<Rightarrow> ''Unknown''
      | Some marker \<Rightarrow> if LanguageMarker.name marker = [] then ''Unknown'' else LanguageMarker.name marker)"

definition detectFramework :: "env \<Rightarrow> world \<Rightarrow> string \<Rightarrow> string" where
  "detectFramework E w dir =
     (case first_framework w dir FRAMEWORK_DETECTORS of
        Some nm \<Rightarrow> nm
      | None \<Rightarrow>
          (let lang = detectLanguage w dir in
           if lang = ''node'' then
             (case ebind (read_json E w (path_join dir ''package.json'')) (\<lambda>pkg.
                     ebind (js_get pkg ''dependencies'') (\<lambda>deps.
                       Inr (first_dep deps (get_prop pkg ''devDependencies'') node_frameworks))) of
                Inr (Some nm) \<Rightarrow> nm
              | _ \<Rightarrow> language_name lang)
           else language_name lang))"

text \<open>\<open>path.basename(dir)\<close>: the last segment, trailing slashes aside.\<close>

definition basename :: "string \<Rightarrow> string" where
  "basename p =
     (case rev (js_split ''/'' (rev (dropWhile (\<lambda>c. c = CHR ''/'') (rev p)))) of
        [] \<Rightarrow> []
      | seg # _ \<Rightarrow> seg)"

text \<open>The manifest fields \<open>getProjectInfo\<close> fills in: name, dependencies, devDependencies,
  nodeVersion.  Each ecosystem's \<open>try\<close> block assigns nothing when it throws.\<close>

record manifest_fields =
  m_name :: jsval
  m_deps :: jsval
  m_devDeps :: jsval
  m_nodeVersion :: jsval

definition default_fields :: "string \<Rightarrow> manifest_fields" where
  "default_fields dir =
     \<lparr> m_name = JStr (basename dir), m_deps = JObj [], m_devDeps = JObj [],
       m_nodeVersion = JUndefined \<rparr>"

definition node_fields :: "env \<Rightarrow> world \<Rightarrow> string \<Rightarrow> manifest_fields" where
  "node_fields E w dir =
     (case read_json E w (path_join dir ''package.json'') of
        Inl e \<Rightarrow> default_fields dir
      | Inr pkg \<Rightarrow>
          if nullish pkg then default_fields dir
          else \<lparr> m_name = js_or (get_prop pkg ''name'') (JStr (basename dir)),
                 m_deps = js_or (get_prop pkg ''dependencies'') (JObj []),
                 m_devDeps = js_or (get_prop pkg ''devDependencies'') (JObj []),
                 m_nodeVersion = opt_prop (get_prop pkg ''engines'') ''node'' \<rparr>)"

text \<open>\<open>line.trim().match(/^([a-zA-Z0-9_-]+)/)\<close>\<close>

definition is_req_char :: "char \<Rightarrow> bool" where
  "is_req_char c =
     (c \<in> set ''abcdefghijklmnopqrstuvwxyzABCDEFGHIJKLMNOPQRSTUVWXYZ0123456789_-'')"

definition requirement_line :: "props \<Rightarrow> string \<Rightarrow> props" where
  "requirement_line deps line =
     (let m = takeWhile is_req_char (trim line) in
      if m \<noteq> [] \<and> \<not> starts_with ''#'' line then obj_set deps m (JStr ''*'') else deps)"

definition python_fields :: "env \<Rightarrow> world \<Rightarrow> string \<Rightarrow> manifest_fields" where
  "python_fields E w dir =
     (if existsSync w (path_join dir ''requirements.txt'') then
        (case readFileSync w (path_join dir ''requirements.txt'') of
           Inl e \<Rightarrow> default_fields dir
         | Inr text \<Rightarrow>
             (default_fields dir)
               \<lparr> m_deps := JObj (foldl requirement_line [] (js_split [CHR 0x0A] text)) \<rparr>)
      else default_fields dir)"

text \<open>\<open>cargo.match(/name\s*=\s*"([^"]+)"/)\<close>, leftmost match.\<close>

definition skip_spaces :: "string \<Rightarrow> string" where
  "skip_spaces s = dropWhile is_space s"

definition cargo_name_at :: "string \<Rightarrow> string option" where
  "cargo_name_at s =
     Option.bind (expect ''name'' s) (\<lambda>r1.
     Option.bind (expect ''='' (skip_spaces r1)) (\<lambda>r2.
     Option.bind (expect [CHR 0x22] (skip_spaces r2)) (\<lambda>r3.
       if takeWhile (\<lambda>c. c \<noteq> CHR 0x22) r3 = [] then None
       else Option.bind (expect [CHR 0x22] (dropWhile (\<lambda>c. c \<noteq> CHR 0x22) r3)) (\<lambda>r4.
              Some (takeWhile (\<lambda>c. c \<noteq> CHR 0x22) r3)))))"

definition rust_fields :: "env \<Rightarrow> world \<Rightarrow> string \<Rightarrow> manifest_fields" where
  "rust_fields E w dir =
     (case readFileSync w (path_join dir ''Cargo.toml'') of
        Inl e \<Rightarrow> default_fields dir
      | Inr cargo \<Rightarrow>
          (case first_match cargo_name_at cargo of
             None \<Rightarrow> default_fields dir
           | Some nm \<Rightarrow> (default_fields dir) \<lparr> m_name := JStr nm \<rparr>))"

text \<open>\<open>gomod.match(/module\s+(\S+)/)\<close> and \<open>moduleMatch[1].split("/").pop() || name\<close>\<close>

definition gomod_at :: "string \<Rightarrow> string option" where
  "gomod_at s =
     Option.bind (expect ''module'' s) (\<lambda>r1.
     Option.bind (skip_spaces1 r1) (\<lambda>r2.
     Option.bind (take_token r2) (\<lambda>(tok, r3). Some tok)))"

definition go_fields :: "env \<Rightarrow> world \<Rightarrow> string \<Rightarrow> manifest_fields" where
  "go_fields E w dir =
     (case readFileSync w (path_join dir ''go.mod'') of
        Inl e \<Rightarrow> default_fields dir
      | Inr gomod \<Rightarrow>
          (case first_match gomod_at gomod of
             None \<Rightarrow> default_fields dir
           | Some m \<Rightarrow>
               (case rev (js_split ''/'' m) of
                  [] \<Rightarrow> default_fields dir
                | seg # _ \<Rightarrow>
                    if seg = [] then default_fields dir
                    else (default_fields dir) \<lparr> m_name := JStr seg \<rparr>)))"

definition php_fields :: "env \<Rightarrow> world \<Rightarrow> string \<Rightarrow> manifest_fields" where
  "php_fields E w dir =
     (case read_json E w (path_join dir ''composer.json'') of
        Inl e \<Rightarrow> default_fields dir
      | Inr composer \<Rightarrow>
          if nullish composer then default_fields dir
          else \<lparr> m_name = js_or (get_prop composer ''name'') (JStr (basename dir)),
                 m_deps = js_or (get_prop composer ''require'') (JObj []),
                 m_devDeps = js_or (get_prop composer ''require-dev'') (JObj []),
                 m_nodeVersion = JUndefined \<rparr>)"

definition manifest_of :: "env \<Rightarrow> world \<Rightarrow> string \<Rightarrow> string \<Rightarrow> manifest_fields" where
  "manifest_of E w lang dir =
     (if lang = ''node'' then node_fields E w dir
      else if lang = ''python'' then python_fields E w dir
      else if lang = ''rust'' then rust_fields E w dir
      else if lang = ''go'' then go_fields E w dir
      else if lang = ''php'' then php_fields E w dir
      else default_fields dir)"

text \<open>\<open>getProjectInfo\<close>: \<open>None\<close> is the source's \<open>null\<close>.\<close>

definition getProjectInfo :: "env \<Rightarrow> world \<Rightarrow> string \<Rightarrow> ProjectInfo option" where
  "getProjectInfo E w dir =
     (let lang = detectLanguage w dir in
      case marker_of lang of
        None \<Rightarrow> None
      | Some marker \<Rightarrow>
          if \<not> has_marker w dir marker then None
          else
            (let m = manifest_of E w lang dir in
             Some \<lparr> name = m_name m, path = dir, language = lang,
                    framework = detectFramework E w dir,
                    packageManager = (if lang = ''node'' then detectPackageManager w dir else ''npm''),
                    nodeVersion = m_nodeVersion m,
                    dependencies = m_deps m, devDependencies = m_devDeps m \<rparr>))"

section \<open>Outdated resolver\<close>

text \<open>The result object of a parser is the association list of its own properties, built
  by \<open>result[key] = entry\<close>.  Every \<open>for ... of\<close> loop is a recursive function over the
  items, threading \<open>result\<close>; reading a property of a \<open>null\<close> or \<open>undefined\<close> item throws.\<close>

subsection \<open>Node\<close>

fun npm_loop :: "jsval list \<Rightarrow> props \<Rightarrow> js_error + props" where
  "npm_loop [] result = Inr result"
| "npm_loop (item # items) result =
     (if nullish item then Inl TypeError
      else npm_loop items
        (obj_set result
           (js_to_string (js_or (get_prop item ''name'') (get_prop item ''package'')))
           (JObj [(''current'', js_or (get_prop item ''current'') (JStr ''?'')),
                  (''wanted'', js_or (js_or (get_prop item ''wanted'') (get_prop item ''current''))
                                 (JStr ''?'')),
                  (''latest'', js_or (get_prop item ''latest'') (JStr ''?'')),
                  (''type'', get_prop item ''dependencyType'')])))"

text \<open>No \<open>cmdExists\<close> here: the body starts with \<open>run\<close>.  A parsed value that is not an array
  is returned as it is.\<close>

definition getOutdatedNpm :: "env \<Rightarrow> string \<Rightarrow> string \<Rightarrow> world \<Rightarrow> (js_error + jsval) \<times> world" where
  "getOutdatedNpm E projectPath pm w =
     catch_empty
       (let (raw, w1) = run E (pm @ '' outdated --json'') projectPath w in
        (ebind raw (\<lambda>raw.
           if trim raw = [] then Inr (JObj [])
           else ebind (json_parse E raw) (\<lambda>parsed.
             case parsed of
               JArr items \<Rightarrow> ebind (npm_loop items []) (\<lambda>result. Inr (JObj result))
             | _ \<Rightarrow> Inr parsed)), w1))"

subsection \<open>Python\<close>

fun pip_loop :: "jsval list \<Rightarrow> props \<Rightarrow> js_error + props" where
  "pip_loop [] result = Inr result"
| "pip_loop (item # items) result =
     (if nullish item then Inl TypeError
      else pip_loop items
        (obj_set result (js_to_string (get_prop item ''name''))
           (entry3 (get_prop item ''version'') (get_prop item ''latest_version'')
              (get_prop item ''latest_version''))))"

definition pip_body :: "env \<Rightarrow> string \<Rightarrow> world \<Rightarrow> (js_error + jsval) \<times> world" where
  "pip_body E projectPath w =
     catch_empty
       (let (hasPip3, w1) = cmdExists E ''pip3'' w;
            pipCmd = (if hasPip3 then ''pip3'' else ''pip'');
            (raw, w2) = run E (pipCmd @ '' list --outdated --format=json'') projectPath w1 in
        (ebind raw (\<lambda>raw.
           if trim raw = [] then Inr (JObj [])
           else ebind (json_parse E raw) (\<lambda>parsed.
                ebind (js_iterate parsed) (\<lambda>items.
                ebind (pip_loop items []) (\<lambda>result. Inr (JObj result))))), w2))"

definition getOutdatedPip :: "env \<Rightarrow> string \<Rightarrow> world \<Rightarrow> (js_error + jsval) \<times> world" where
  "getOutdatedPip E projectPath w =
     (let (hasPip, w1) = cmdExists E ''pip'' w in
      if hasPip then pip_body E projectPath w1
      else (let (hasPip3, w2) = cmdExists E ''pip3'' w1 in
            if hasPip3 then pip_body E projectPath w2 else (Inr (JObj []), w2)))"

subsection \<open>Rust\<close>

fun cargo_loop :: "jsval list \<Rightarrow> props \<Rightarrow> js_error + props" where
  "cargo_loop [] result = Inr result"
| "cargo_loop (dep # deps) result =
     (if nullish dep then Inl TypeError
      else if strict_neq (get_prop dep ''project'') (get_prop dep ''latest'') then
        cargo_loop deps
          (obj_set result (js_to_string (get_prop dep ''name''))
             (entry3 (get_prop dep ''project'') (get_prop dep ''compat'') (get_prop dep ''latest'')))
      else cargo_loop deps result)"

definition getOutdatedCargo :: "env \<Rightarrow> string \<Rightarrow> world \<Rightarrow> (js_error + jsval) \<times> world" where
  "getOutdatedCargo E projectPath w =
     (let (hasCargo, w1) = cmdExists E ''cargo'' w in
      if \<not> hasCargo then (Inr (JObj []), w1)
      else catch_empty
        (let (hasPlugin, w2) = cmdExists E ''cargo-outdated'' w1 in
         if hasPlugin then
           (let (raw, w3) = run E ''cargo outdated --format json'' projectPath w2 in
            (ebind raw (\<lambda>raw.
               if trim raw = [] then Inr (JObj [])
               else ebind (json_parse E raw) (\<lambda>parsed.
                    ebind (js_get parsed ''dependencies'') (\<lambda>deps.
                    ebind (js_iterate (js_or deps (JArr []))) (\<lambda>items.
                    ebind (cargo_loop items []) (\<lambda>result. Inr (JObj result)))))), w3))
         else (Inr (JObj []), w2)))"

subsection \<open>Go\<close>

text \<open>One fragment of the listing, inside its own \<open>try\<close>: \<open>Some\<close> the entry to store, \<open>None\<close>
  when the object carries no \<open>Update\<close> or no \<open>Version\<close>.  \<open>parsed.Path.split\<close> throws unless
  \<open>Path\<close> is a string.\<close>

definition go_entry :: "env \<Rightarrow> string \<Rightarrow> js_error + (string \<times> jsval) option" where
  "go_entry E obj =
     ebind (json_parse E obj) (\<lambda>parsed.
     ebind (js_get parsed ''Update'') (\<lambda>update.
       if truthy update \<and> truthy (get_prop parsed ''Version'') then
         (case get_prop parsed ''Path'' of
            JStr p \<Rightarrow>
              Inr (Some (js_join ''/'' (last_two (js_split ''/'' p)),
                         entry3 (get_prop parsed ''Version'') (get_prop update ''Version'')
                           (get_prop update ''Version'')))
          | _ \<Rightarrow> Inl TypeError)
       else Inr None))"

text \<open>\<open>obj = obj.trim(); if (!obj.endsWith("}")) obj += "}";\<close>\<close>

definition close_brace :: "string \<Rightarrow> string" where
  "close_brace obj = (if ends_with ''}'' (trim obj) then trim obj else trim obj @ ''}'')"

definition go_fragment :: "env \<Rightarrow> props \<Rightarrow> string \<Rightarrow> props" where
  "go_fragment E result obj =
     (case go_entry E (close_brace obj) of
        Inl e \<Rightarrow> result
      | Inr None \<Rightarrow> result
      | Inr (Some (k, v)) \<Rightarrow> obj_set result k v)"

definition go_objects :: "string \<Rightarrow> string list" where
  "go_objects raw = filter (\<lambda>s. trim s \<noteq> []) (js_split [CHR 0x0A, CHR ''}'', CHR 0x0A] raw)"

definition getOutdatedGo :: "env \<Rightarrow> string \<Rightarrow> world \<Rightarrow> (js_error + jsval) \<times> world" where
  "getOutdatedGo E projectPath w =
     (let (hasGo, w1) = cmdExists E ''go'' w in
      if \<not> hasGo then (Inr (JObj []), w1)
      else catch_empty
        (let (raw, w2) = run E ''go list -m -u -json all'' projectPath w1 in
         (ebind raw (\<lambda>raw.
            if trim raw = [] then Inr (JObj [])
            else Inr (JObj (foldl (go_fragment E) [] (go_objects raw)))), w2)))"

subsection \<open>PHP\<close>

fun composer_loop :: "jsval list \<Rightarrow> props \<Rightarrow> js_error + props" where
  "composer_loop [] result = Inr result"
| "composer_loop (item # items) result =
     (if nullish item then Inl TypeError
      else if strict_neq (get_prop item ''version'') (get_prop item ''latest'') then
        composer_loop items
          (obj_set result (js_to_string (get_prop item ''name''))
             (entry3 (get_prop item ''version'') (get_prop item ''latest'') (get_prop item ''latest'')))
      else composer_loop items result)"

definition getOutdatedComposer :: "env \<Rightarrow> string \<Rightarrow> world \<Rightarrow> (js_error + jsval) \<times> world" where
  "getOutdatedComposer E projectPath w =
     (let (hasComposer, w1) = cmdExists E ''composer'' w in
      if \<not> hasComposer then (Inr (JObj []), w1)
      else catch_empty
        (let (raw, w2) = run E ''composer outdated --format=json --direct'' projectPath w1 in
         (ebind raw (\<lambda>raw.
            if trim raw = [] then Inr (JObj [])
            else ebind (json_parse E raw) (\<lambda>parsed.
                 ebind (js_get parsed ''installed'') (\<lambda>installed.
                 ebind (js_iterate (js_or installed (JArr []))) (\<lambda>items.
                 ebind (composer_loop items []) (\<lambda>result. Inr (JObj result)))))), w2)))"

subsection \<open>Ruby\<close>

text \<open>
  \<open>line.match(/(\S+)\s+\(newest\s+(\S+),\s+installed\s+(\S+)/)\<close>, written out.  Each
  \<open>\S+\<close> is followed by something that must start with whitespace (or by nothing), so the
  only run that can match is the longest one; the second group is followed by a comma and
  whitespace, so its run must end in that comma.  The pattern is not anchored: the match is
  the one at the leftmost start.
\<close>

definition gem_match_at :: "string \<Rightarrow> (string \<times> string \<times> string) option" where
  "gem_match_at s =
     Option.bind (take_token s) (\<lambda>(gem, r1).
     Option.bind (skip_spaces1 r1) (\<lambda>r2.
     Option.bind (expect ''(newest'' r2) (\<lambda>r3.
     Option.bind (skip_spaces1 r3) (\<lambda>r4.
     Option.bind (take_token r4) (\<lambda>(tok, r5).
       if length tok < 2 \<or> last tok \<noteq> CHR '','' then None
       else
     Option.bind (skip_spaces1 r5) (\<lambda>r6.
     Option.bind (expect ''installed'' r6) (\<lambda>r7.
     Option.bind (skip_spaces1 r7) (\<lambda>r8.
     Option.bind (take_token r8) (\<lambda>(installed, r9).
       Some (gem, butlast tok, installed))))))))))"

definition gem_line :: "props \<Rightarrow> string \<Rightarrow> props" where
  "gem_line result line =
     (case first_match gem_match_at line of
        None \<Rightarrow> result
      | Some (gem, newest, installed) \<Rightarrow>
          obj_set result gem (entry3 (JStr installed) (JStr newest) (JStr newest)))"

definition getOutdatedGem :: "env \<Rightarrow> string \<Rightarrow> world \<Rightarrow> (js_error + jsval) \<times> world" where
  "getOutdatedGem E projectPath w =
     (let (hasBundle, w1) = cmdExists E ''bundle'' w in
      if \<not> hasBundle then (Inr (JObj []), w1)
      else catch_empty
        (let (raw, w2) = run E ''bundle outdated --parseable'' projectPath w1 in
         (ebind raw (\<lambda>raw.
            if trim raw = [] then Inr (JObj [])
            else Inr (JObj (foldl gem_line [] (js_split [CHR 0x0A] raw)))), w2)))"

subsection \<open>Dart/Flutter\<close>

fun pub_loop :: "jsval list \<Rightarrow> props \<Rightarrow> js_error + props" where
  "pub_loop [] result = Inr result"
| "pub_loop (pkg # pkgs) result =
     (if nullish pkg then Inl TypeError
      else
        (let cur = opt_prop (get_prop pkg ''current'') ''version'';
             lat = opt_prop (get_prop pkg ''latest'') ''version'' in
         if truthy cur \<and> truthy lat \<and> strict_neq cur lat then
           pub_loop pkgs
             (obj_set result (js_to_string (get_prop pkg ''package''))
                (entry3 cur (js_or (opt_prop (get_prop pkg ''resolvable'') ''version'') lat) lat))
         else pub_loop pkgs result))"

definition pub_body :: "env \<Rightarrow> string \<Rightarrow> world \<Rightarrow> (js_error + jsval) \<times> world" where
  "pub_body E projectPath w =
     catch_empty
       (let (hasFlutter, w1) = cmdExists E ''flutter'' w;
            cmd = (if hasFlutter then ''flutter pub outdated --json''
                   else ''dart pub outdated --json'');
            (raw, w2) = run E cmd projectPath w1 in
        (ebind raw (\<lambda>raw.
           if trim raw = [] then Inr (JObj [])
           else ebind (json_parse E raw) (\<lambda>parsed.
                ebind (js_get parsed ''packages'') (\<lambda>packages.
                ebind (js_iterate (js_or packages (JArr []))) (\<lambda>items.
                ebind (pub_loop items []) (\<lambda>result. Inr (JObj result)))))), w2))"

definition getOutdatedPub :: "env \<Rightarrow> string \<Rightarrow> world \<Rightarrow> (js_error + jsval) \<times> world" where
  "getOutdatedPub E projectPath w =
     (let (hasDart, w1) = cmdExists E ''dart'' w in
      if hasDart then pub_body E projectPath w1
      else (let (hasFlutter, w2) = cmdExists E ''flutter'' w1 in
            if hasFlutter then pub_body E projectPath w2 else (Inr (JObj []), w2)))"

subsection \<open>Swift\<close>

text \<open>
  \<open>pin.identity || pin.package || pin.repositoryURL?.split("/").pop()?.replace(".git", "")\<close>:
  the chain after \<open>?.\<close> is skipped for a missing URL and throws for one that is not a
  string.
\<close>

definition swift_pin_name :: "jsval \<Rightarrow> js_error + jsval" where
  "swift_pin_name pin =
     (if truthy (get_prop pin ''identity'') then Inr (get_prop pin ''identity'')
      else if truthy (get_prop pin ''package'') then Inr (get_prop pin ''package'')
      else
        (case get_prop pin ''repositoryURL'' of
           JUndefined \<Rightarrow> Inr JUndefined
         | JNull \<Rightarrow> Inr JUndefined
         | JStr url \<Rightarrow>
             (case rev (js_split ''/'' url) of
                [] \<Rightarrow> Inr JUndefined
              | seg # _ \<Rightarrow> Inr (JStr (replace_first ''.git'' [] seg)))
         | _ \<Rightarrow> Inl TypeError))"

text \<open>\<open>pin.state?.version || pin.state?.revision?.slice(0, 8)\<close>: strings and arrays have
  \<open>slice\<close>, other values throw.\<close>

definition swift_pin_version :: "jsval \<Rightarrow> js_error + jsval" where
  "swift_pin_version pin =
     (if truthy (opt_prop (get_prop pin ''state'') ''version'')
      then Inr (opt_prop (get_prop pin ''state'') ''version'')
      else
        (case opt_prop (get_prop pin ''state'') ''revision'' of
           JUndefined \<Rightarrow> Inr JUndefined
         | JNull \<Rightarrow> Inr JUndefined
         | JStr r \<Rightarrow> Inr (JStr (take 8 r))
         | JArr xs \<Rightarrow> Inr (JArr (take 8 xs))
         | _ \<Rightarrow> Inl TypeError))"

fun swift_loop :: "jsval list \<Rightarrow> props \<Rightarrow> js_error + props" where
  "swift_loop [] result = Inr result"
| "swift_loop (pin # pins) result =
     (if nullish pin then Inl TypeError
      else ebind (swift_pin_name pin) (\<lambda>nm.
           ebind (swift_pin_version pin) (\<lambda>version.
             if truthy nm \<and> truthy version then
               swift_loop pins (obj_set result (js_to_string nm) (entry3 version version version))
             else swift_loop pins result)))"

text \<open>\<open>resolved.pins || resolved.object?.pins || []\<close>\<close>

definition swift_pins :: "jsval \<Rightarrow> js_error + jsval" where
  "swift_pins resolved =
     ebind (js_get resolved ''pins'') (\<lambda>pins.
       Inr (js_or (js_or pins (opt_prop (get_prop resolved ''object'') ''pins'')) (JArr [])))"

definition getOutdatedSwift :: "env \<Rightarrow> string \<Rightarrow> world \<Rightarrow> (js_error + jsval) \<times> world" where
  "getOutdatedSwift E projectPath w =
     (let (hasSwift, w1) = cmdExists E ''swift'' w in
      if \<not> hasSwift then (Inr (JObj []), w1)
      else catch_empty
        (let resolvedPath = path_join projectPath ''Package.resolved'' in
         if \<not> existsSync w1 resolvedPath then (Inr (JObj []), w1)
         else
           (ebind (readFileSync w1 resolvedPath) (\<lambda>text.
            ebind (json_parse E text) (\<lambda>resolved.
            ebind (swift_pins resolved) (\<lambda>pins.
            ebind (js_iterate pins) (\<lambda>items.
            ebind (swift_loop items []) (\<lambda>result. Inr (JObj result)))))), w1)))"

subsection \<open>Kotlin/Java\<close>

definition gradle_key :: "jsval \<Rightarrow> string" where
  "gradle_key dep =
     (if truthy (get_prop dep ''group'')
      then js_to_string (get_prop dep ''group'') @ '':'' @ js_to_string (get_prop dep ''name'')
      else js_to_string (get_prop dep ''name''))"

definition gradle_available :: "jsval \<Rightarrow> jsval" where
  "gradle_available dep =
     js_or (js_or (opt_prop (get_prop dep ''available'') ''release'')
                  (opt_prop (get_prop dep ''available'') ''milestone''))
           (get_prop dep ''version'')"

fun gradle_loop :: "jsval list \<Rightarrow> props \<Rightarrow> js_error + props" where
  "gradle_loop [] result = Inr result"
| "gradle_loop (dep # deps) result =
     (if nullish dep then Inl TypeError
      else gradle_loop deps
        (obj_set result (gradle_key dep)
           (entry3 (js_or (get_prop dep ''version'') (JStr ''?''))
              (gradle_available dep) (gradle_available dep))))"

definition gradle_report_path :: "string \<Rightarrow> string" where
  "gradle_report_path projectPath =
     path_join (path_join (path_join projectPath ''build'') ''dependencyUpdates'') ''report.json''"

definition gradle_body :: "env \<Rightarrow> string \<Rightarrow> world \<Rightarrow> (js_error + jsval) \<times> world" where
  "gradle_body E projectPath w =
     catch_empty
       (let cmd = (if existsSync w (path_join projectPath ''gradlew'')
                   then ''./gradlew dependencyUpdates -Drevision=release --output-formatter json''
                   else ''gradle dependencyUpdates -Drevision=release --output-formatter json'');
            (raw, w1) = run E cmd projectPath w in
        (ebind raw (\<lambda>raw.
           if \<not> existsSync w1 (gradle_report_path projectPath) then Inr (JObj [])
           else ebind (readFileSync w1 (gradle_report_path projectPath)) (\<lambda>text.
                ebind (json_parse E text) (\<lambda>report.
                ebind (js_get report ''outdated'') (\<lambda>outdated.
                ebind (js_iterate (js_or (opt_prop outdated ''dependencies'') (JArr []))) (\<lambda>items.
                ebind (gradle_loop items []) (\<lambda>result. Inr (JObj result))))))), w1))"

definition getOutdatedGradle :: "env \<Rightarrow> string \<Rightarrow> world \<Rightarrow> (js_error + jsval) \<times> world" where
  "getOutdatedGradle E projectPath w =
     (if existsSync w (path_join projectPath ''gradlew'') then gradle_body E projectPath w
      else (let (hasGradle, w1) = cmdExists E ''gradle'' w in
            if hasGradle then gradle_body E projectPath w1 else (Inr (JObj []), w1)))"

subsection \<open>Dispatch\<close>

definition getOutdated :: "env \<Rightarrow> string \<Rightarrow> ProjectInfo \<Rightarrow> world \<Rightarrow> (js_error + jsval) \<times> world" where
  "getOutdated E projectPath info w =
     (case marker_of (language info) of
        None \<Rightarrow> (Inr (JObj []), w)
      | Some marker \<Rightarrow>
          if parseOutdated marker = ''npm'' then getOutdatedNpm E projectPath (packageManager info) w
          else if parseOutdated marker = ''pip'' then getOutdatedPip E projectPath w
          else if parseOutdated marker = ''cargo'' then getOutdatedCargo E projectPath w
          else if parseOutdated marker = ''go'' then getOutdatedGo E projectPath w
          else if parseOutdated marker = ''composer'' then getOutdatedComposer E projectPath w
          else if parseOutdated marker = ''gem'' then getOutdatedGem E projectPath w
          else if parseOutdated marker = ''pub'' then getOutdatedPub E projectPath w
          else if parseOutdated marker = ''swift'' then getOutdatedSwift E projectPath w
          else if parseOutdated marker = ''gradle'' then getOutdatedGradle E projectPath w
          else (Inr (JObj []), w))"

section \<open>Security audit\<close>

text \<open>
  \<^verbatim>\<open>
    const raw = run(cmd, projectPath);
    const parsed = JSON.parse(raw);
    if (parsed.metadata?.vulnerabilities) {
      const v = parsed.metadata.vulnerabilities;
      return (v.high || 0) + (v.critical || 0) + (v.moderate || 0);
    }
    return 0;
  \<close>
  The three counts are whatever the audit printed.  Numbers add up; a count that is a
  string, an array or an object turns the sum into a string (\<open>"2" + 0 + 0\<close> is \<open>"200"\<close>),
  and \<open>true\<close> counts as 1.  A count that is an object with a member named \<open>toString\<close>
  (or an array holding one) cannot be made primitive: the addition throws, and the \<open>catch\<close>
  around the audit returns 0.
\<close>

fun addable :: "jsval \<Rightarrow> bool" where
  "addable (JObj kvs) = (map_of kvs ''toString'' = None)"
| "addable (JArr xs) = list_all addable xs"
| "addable v = True"

definition count_or_zero :: "jsval \<Rightarrow> js_error + jsprim" where
  "count_or_zero x = (if addable x then Inr (operand (js_or x (JNum 0))) else Inl TypeError)"

definition audit_count :: "env \<Rightarrow> js_error + string \<Rightarrow> js_error + jsprim" where
  "audit_count E raw =
     ebind raw (\<lambda>raw.
     ebind (json_parse E raw) (\<lambda>parsed.
     ebind (js_get parsed ''metadata'') (\<lambda>metadata.
       if truthy (opt_prop metadata ''vulnerabilities'') then
         (let v = opt_prop metadata ''vulnerabilities'' in
          ebind (count_or_zero (get_prop v ''high'')) (\<lambda>high.
          ebind (count_or_zero (get_prop v ''critical'')) (\<lambda>critical.
          ebind (count_or_zero (get_prop v ''moderate'')) (\<lambda>moderate.
            Inr (js_plus (js_plus high critical) moderate)))))
       else Inr (PNum (Num 0)))))"

definition getSecurityIssues :: "env \<Rightarrow> string \<Rightarrow> ProjectInfo \<Rightarrow> world \<Rightarrow> jsprim \<times> world" where
  "getSecurityIssues E projectPath info w =
     (case marker_of (language info) of
        None \<Rightarrow> (PNum (Num 0), w)
      | Some marker \<Rightarrow>
          (case auditCmd marker of
             None \<Rightarrow> (PNum (Num 0), w)
           | Some template \<Rightarrow>
               if template = [] then (PNum (Num 0), w)
               else
                 (let cmd = replace_all ''{pm}'' (packageManager info) template;
                      tool = (case first_elem (js_split '' '' cmd) of
                                None \<Rightarrow> ''undefined'' | Some t \<Rightarrow> t);
                      (found, w1) = cmdExists E tool w in
                  if \<not> found then (PNum (Num 0), w1)
                  else
                    (let (raw, w2) = run E cmd projectPath w1 in
                     (case audit_count E raw of Inl e \<Rightarrow> PNum (Num 0) | Inr n \<Rightarrow> n, w2)))))"

section \<open>Framework version\<close>

definition getFrameworkVersion :: "ProjectInfo \<Rightarrow> jsval" where
  "getFrameworkVersion info =
     (let dep = merged_get (dependencies info) (devDependencies info) in
      if framework info = ''SvelteKit'' then js_or (js_or (dep ''@sveltejs/kit'') (dep ''svelte'')) JNull
      else if framework info = ''Svelte'' then js_or (dep ''svelte'') JNull
      else if framework info = ''Next.js'' then js_or (dep ''next'') JNull
      else if framework info = ''React'' then js_or (dep ''react'') JNull
      else if framework info = ''Nuxt'' then js_or (dep ''nuxt'') JNull
      else if framework info = ''Vue'' then js_or (dep ''vue'') JNull
      else if framework info = ''Astro'' then js_or (dep ''astro'') JNull
      else if framework info = ''SolidStart'' then js_or (js_or (dep ''solid-start'') (dep ''solid-js'')) JNull
      else if framework info = ''Solid.js'' then js_or (dep ''solid-js'') JNull
      else JNull)"

section \<open>Counting outdated and major updates\<close>

text \<open>
  \<open>isMajorUpdate(pkg.current, pkg.latest)\<close> on an entry of the outdated mapping: reading
  a property of a \<open>null\<close> entry throws, and so does \<open>.replace\<close> on a version that is not a
  string.
\<close>

definition is_major_entry :: "jsval \<Rightarrow> js_error + bool" where
  "is_major_entry pkg =
     (if nullish pkg then Inl TypeError
      else (case get_prop pkg ''current'' of
              JStr c \<Rightarrow> (case get_prop pkg ''latest'' of
                           JStr l \<Rightarrow> Inr (isMajorUpdate c l)
                         | _ \<Rightarrow> Inl TypeError)
            | _ \<Rightarrow> Inl TypeError))"

fun count_major :: "(string \<times> jsval) list \<Rightarrow> js_error + nat" where
  "count_major [] = Inr 0"
| "count_major ((k, pkg) # rest) =
     ebind (is_major_entry pkg) (\<lambda>major.
     ebind (count_major rest) (\<lambda>n. Inr (if major then Suc n else n)))"

text \<open>\<open>Object.keys(outdated).length\<close> and
  \<open>Object.entries(outdated).filter(([, pkg]) => isMajorUpdate(pkg.current, pkg.latest)).length\<close>\<close>

definition outdated_counts :: "jsval \<Rightarrow> js_error + (nat \<times> nat)" where
  "outdated_counts outdated =
     ebind (object_entries outdated) (\<lambda>entries.
     ebind (count_major entries) (\<lambda>major. Inr (length entries, major)))"

section \<open>Cache store\<close>

definition SERVER_VERSION :: string where
  "SERVER_VERSION = ''4.0.0''"

definition CACHE_FILENAME :: string where
  "CACHE_FILENAME = ''.depsonar-cache.json''"

definition CACHE_MAX_AGE_MS :: int where
  "CACHE_MAX_AGE_MS = 6 * 60 * 60 * 1000"

definition getCachePath :: "env \<Rightarrow> string" where
  "getCachePath E = path_join (homedir E) CACHE_FILENAME"

text \<open>\<open>readCache\<close>: \<open>JNull\<close> is the source's \<open>null\<close>.  \<open>statSync\<close> gives the modification
  time; a path that exists but is not a regular file makes \<open>readFileSync\<close> throw.\<close>

definition readCache :: "env \<Rightarrow> world \<Rightarrow> jsval" where
  "readCache E w =
     (if \<not> existsSync w (getCachePath E) then JNull
      else
        (case fs w (getCachePath E) of
           Some (File content mtimeMs) \<Rightarrow>
             (let age = clock w - mtimeMs in
              if age > CACHE_MAX_AGE_MS then JNull
              else (case json_parse E content of Inl e \<Rightarrow> JNull | Inr cache \<Rightarrow> cache))
         | _ \<Rightarrow> JNull))"

text \<open>\<open>writeFileSync\<close> replaces the file and stamps it with the current time; it throws on a
  directory.\<close>

definition writeFileSync :: "world \<Rightarrow> string \<Rightarrow> string \<Rightarrow> js_error + world" where
  "writeFileSync w p content =
     (case fs w p of
        Some (Dir names) \<Rightarrow> Inl ReadFailed
      | _ \<Rightarrow> Inr (w\<lparr>fs := (fs w)(p \<mapsto> File content (clock w))\<rparr>))"

definition cache_file :: "env \<Rightarrow> world \<Rightarrow> jsval list \<Rightarrow> jsval" where
  "cache_file E w entries =
     JObj [(''version'', JStr SERVER_VERSION),
           (''updatedAt'', JStr (toISOString E (clock w))),
           (''projects'', JArr entries)]"

definition writeCache :: "env \<Rightarrow> jsval list \<Rightarrow> world \<Rightarrow> js_error + world" where
  "writeCache E entries w =
     writeFileSync w (getCachePath E) (JSON_stringify E (cache_file E w entries) @ [CHR 0x0A])"

section \<open>Background scan\<close>

text \<open>
  The body of the scan loop of \<open>main\<close> in checker.ts, for one project: the cache entry it
  pushes, or \<open>None\<close> when the \<open>try\<close> block threw.
  \<^verbatim>\<open>
      let score = 100;
      score -= Math.min(outdatedCount * 3, 40);
      score -= majorCount * 10;
      score = Math.max(0, Math.min(100, score));
      entries.push({ project: info.name, path: info.path, language: info.language,
        framework: info.framework, outdatedCount, majorCount,
        securityIssues: 0, // skip audit in background (slow)
        score, checkedAt: new Date().toISOString() });
  \<close>
\<close>

definition scan_score :: "nat \<Rightarrow> nat \<Rightarrow> int" where
  "scan_score outdatedCount majorCount =
     (let score = 100;
          score = score - min (int outdatedCount * 3) 40;
          score = score - int majorCount * 10
      in max 0 (min 100 score))"

definition scan_project :: "env \<Rightarrow> ProjectInfo \<Rightarrow> world \<Rightarrow> jsval option \<times> world" where
  "scan_project E info w =
     (let (outdated, w1) = getOutdated E (path info) info w in
      (case ebind outdated outdated_counts of
         Inl e \<Rightarrow> None
       | Inr (outdatedCount, majorCount) \<Rightarrow>
           Some (JObj [(''project'', name info), (''path'', JStr (path info)),
                       (''language'', JStr (language info)),
                       (''framework'', JStr (framework info)),
                       (''outdatedCount'', JNum (int outdatedCount)),
                       (''majorCount'', JNum (int majorCount)),
                       (''securityIssues'', JNum 0),
                       (''score'', JNum (scan_score outdatedCount majorCount)),
                       (''checkedAt'', JStr (toISOString E (clock w1)))]), w1))"

fun scan_projects :: "env \<Rightarrow> ProjectInfo list \<Rightarrow> jsval list \<Rightarrow> world \<Rightarrow> jsval list \<times> world" where
  "scan_projects E [] entries w = (entries, w)"
| "scan_projects E (info # rest) entries w =
     (let (entry, w1) = scan_project E info w in
      scan_projects E rest (case entry of None \<Rightarrow> entries | Some e \<Rightarrow> entries @ [e]) w1)"

section \<open>Update command builder\<close>

text \<open>\<open>packages?.trim() || ""\<close>\<close>

definition pkg_list :: "string option \<Rightarrow> string" where
  "pkg_list packages = (case packages of None \<Rightarrow> [] | Some p \<Rightarrow> trim p)"

definition buildUpdateCommand :: "ProjectInfo \<Rightarrow> string option \<Rightarrow> string \<Rightarrow> string" where
  "buildUpdateCommand info packages level =
     (case marker_of (language info) of
        None \<Rightarrow> packageManager info @ '' update''
      | Some marker \<Rightarrow>
          if language info = ''node'' then
            (let pm = packageManager info; pkgList = pkg_list packages in
             if pm = ''pnpm'' then
               (if pkgList \<noteq> [] then
                  (if level = ''latest'' then ''pnpm update '' @ pkgList @ '' --latest''
                   else ''pnpm update '' @ pkgList)
                else (if level = ''latest'' then ''pnpm update --latest'' else ''pnpm update''))
             else if pm = ''yarn'' then
               (if pkgList \<noteq> [] then
                  (if level = ''latest'' then ''yarn upgrade '' @ pkgList @ '' --latest''
                   else ''yarn upgrade '' @ pkgList)
                else (if level = ''latest'' then ''yarn upgrade --latest'' else ''yarn upgrade''))
             else if pm = ''bun'' then
               (if pkgList \<noteq> [] then ''bun update '' @ pkgList else ''bun update'')
             else if level = ''latest'' then
               (if pkgList \<noteq> [] then
                  ''npx -y npm-check-updates -u '' @ js_join '' '' (js_split '' '' pkgList)
                    @ '' && npm install''
                else ''npx -y npm-check-updates -u && npm install'')
             else
               (if pkgList \<noteq> [] then
                  ''npx -y npm-check-updates -u --target minor ''
                    @ js_join '' '' (js_split '' '' pkgList) @ '' && npm install''
                else ''npx -y npm-check-updates -u --target minor && npm install''))
          else if language info = ''python'' then
            (let pkgList = pkg_list packages in
             if pkgList \<noteq> [] then ''pip install --upgrade '' @ pkgList
             else ''pip install --upgrade -r requirements.txt'')
          else if level = ''latest'' then updateLatestCmd marker else updateCmd marker)"

text \<open>A Node project record as the classifier builds it when the manifest gives no name or
  dependencies, with the given package manager.\<close>

definition node_project :: "string \<Rightarrow> ProjectInfo" where
  "node_project pm = \<lparr> name = JStr ''app'', path = ''/home/u/Projects/app'',
     language = ''node'', framework = ''Node.js'', packageManager = pm,
     nodeVersion = JUndefined, dependencies = JObj [], devDependencies = JObj [] \<rparr>"

section \<open>Health scorer\<close>

definition lockfiles :: "string list" where
  "lockfiles = [''pnpm-lock.yaml'', ''package-lock.json'', ''yarn.lock'', ''bun.lockb'',
     ''Cargo.lock'', ''go.sum'', ''composer.lock'', ''Gemfile.lock'', ''pubspec.lock'',
     ''Pipfile.lock'', ''Package.resolved'', ''gradle.lockfile'']"

record HealthReport =
  project :: jsval
  language :: string
  framework :: string
  frameworkVersion :: jsval
  nodeVersion :: jsval
  packageManager :: string
  lockfileExists :: bool
  outdatedCount :: int
  majorUpdates :: int
  securityIssues :: jsprim
  score :: jsnum
  recommendations :: "string list"

text \<open>
  The recommendations, pushed in the source's order.
  \<^verbatim>\<open>
    if (!lockfileExists) recommendations.push(`Missing lockfile. Run install to generate one.`);
    if (majorUpdates > 0) recommendations.push(`${majorUpdates} major update(s). ...`);
    if (securityIssues > 0) recommendations.push(`${securityIssues} security issue(s). Run audit fix.`);
    if (outdatedCount > 10) recommendations.push("Many outdated packages. ...");
    if (score === 100) recommendations.push("All good! Dependencies are up to date.");
  \<close>
\<close>

definition recommend :: "env \<Rightarrow> bool \<Rightarrow> int \<Rightarrow> jsprim \<Rightarrow> int \<Rightarrow> jsnum \<Rightarrow> string list" where
  "recommend E lockfile major security outdated sc =
     (if \<not> lockfile then [''Missing lockfile. Run install to generate one.''] else [])
     @ (if major > 0
        then [show_int major @ '' major update(s). Review changelogs before updating.''] else [])
     @ (if num_less (Num 0) (to_number E security)
        then [prim_string security @ '' security issue(s). Run audit fix.''] else [])
     @ (if outdated > 10
        then [''Many outdated packages. Start with minor/patch updates.''] else [])
     @ (if sc = Num 100 then [''All good! Dependencies are up to date.''] else [])"

text \<open>
  \<open>computeHealthReport\<close>.  \<open>getOutdated\<close> runs first, then the lockfile check, then
  \<open>getSecurityIssues\<close>; the counting throws when the outdated mapping is \<open>null\<close> or holds an
  entry whose versions are not strings.  Up to the security deduction the score is an
  integer; the deduction multiplies the security count, a number or a string, by 5.
  \<^verbatim>\<open>
    let score = 100;
    score -= Math.min(outdatedCount * 3, 40);
    score -= majorUpdates * 10;
    if (!lockfileExists) score -= 15;
    const securityIssues = getSecurityIssues(info.path, info);
    score -= Math.min(securityIssues * 5, 30);
    score = Math.max(0, Math.min(100, score));
  \<close>
\<close>

definition computeHealthReport :: "env \<Rightarrow> ProjectInfo \<Rightarrow> world \<Rightarrow> (js_error + HealthReport) \<times> world" where
  "computeHealthReport E info w =
     (let (outdated, w1) = getOutdated E (path info) info w in
      case ebind outdated outdated_counts of
        Inl e \<Rightarrow> (Inl e, w1)
      | Inr (nOutdated, nMajor) \<Rightarrow>
          (let lockfile = list_ex (\<lambda>lf. existsSync w1 (path_join (path info) lf)) lockfiles;
               sc = 100;
               sc = sc - min (int nOutdated * 3) 40;
               sc = sc - int nMajor * 10;
               sc = (if \<not> lockfile then sc - 15 else sc);
               (security, w2) = getSecurityIssues E (path info) info w1;
               sc = num_op (-) (Num sc)
                      (num_op min (num_op (*) (to_number E security) (Num 5)) (Num 30));
               sc = num_op max (Num 0) (num_op min (Num 100) sc)
           in (Inr \<lparr> project = name info,
                      language = ProjectInfo.language info,
                      framework = ProjectInfo.framework info,
                      frameworkVersion = getFrameworkVersion info,
                      nodeVersion = (if nullish (ProjectInfo.nodeVersion info) then JNull
                                     else ProjectInfo.nodeVersion info),
                      packageManager = ProjectInfo.packageManager info,
                      lockfileExists = lockfile,
                      outdatedCount = int nOutdated,
                      majorUpdates = int nMajor,
                      securityIssues = security,
                      score = sc,
                      recommendations =
                        recommend E lockfile (int nMajor) security (int nOutdated) sc \<rparr>, w2)))"

section \<open>The score as the specification words it\<close>

text \<open>Start at 100; subtract 3 per outdated package, at most 40; subtract 10 per major
  update; subtract 15 when no lockfile is present; subtract 5 per security issue, at most
  30; clamp to the range from 0 to 100.\<close>

definition spec_score :: "int \<Rightarrow> int \<Rightarrow> bool \<Rightarrow> int \<Rightarrow> int" where
  "spec_score nOutdated nMajor lockfile security =
     max 0 (min 100 (100 - min (3 * nOutdated) 40 - 10 * nMajor
                     - (if lockfile then 0 else 15) - min (5 * security) 30))"

text \<open>The same with the security count as arithmetic sees it, a number or \<open>NaN\<close>.\<close>

definition spec_score_num :: "int \<Rightarrow> int \<Rightarrow> bool \<Rightarrow> jsnum \<Rightarrow> jsnum" where
  "spec_score_num nOutdated nMajor lockfile security =
     (case security of NaN \<Rightarrow> NaN | Num n \<Rightarrow> Num (spec_score nOutdated nMajor lockfile n))"

text \<open>An outdated mapping whose entries are objects with string \<open>current\<close> and \<open>latest\<close>,
  as the type \<open>Record<string, OutdatedPackage>\<close> promises.\<close>

definition typed_entry :: "jsval \<Rightarrow> bool" where
  "typed_entry pkg =
     (case get_prop pkg ''current'' of
        JStr c \<Rightarrow> (case get_prop pkg ''latest'' of JStr l \<Rightarrow> True | _ \<Rightarrow> False)
      | _ \<Rightarrow> False)"

definition typed_outdated :: "js_error + jsval \<Rightarrow> bool" where
  "typed_outdated res =
     (case res of
        Inl e \<Rightarrow> False
      | Inr v \<Rightarrow> (case object_entries v of
                   Inl e \<Rightarrow> False
                 | Inr es \<Rightarrow> list_all (\<lambda>kv. typed_entry (snd kv)) es))"

text \<open>
  The four inputs of the score, read off the project itself rather than off the report: the
  entries of the outdated mapping, those of them that are major updates, whether one of the
  lockfile names exists in the project directory (once the listing command has run), and
  what the audit returns (run after the listing).
\<close>

definition outdated_listing :: "env \<Rightarrow> ProjectInfo \<Rightarrow> world \<Rightarrow> (string \<times> jsval) list" where
  "outdated_listing E info w =
     (case fst (getOutdated E (path info) info w) of
        Inl e \<Rightarrow> []
      | Inr v \<Rightarrow> (case object_entries v of Inl e \<Rightarrow> [] | Inr es \<Rightarrow> es))"

definition major_pair :: "string \<times> jsval \<Rightarrow> bool" where
  "major_pair kv =
     (case get_prop (snd kv) ''current'' of
        JStr c \<Rightarrow> (case get_prop (snd kv) ''latest'' of JStr l \<Rightarrow> isMajorUpdate c l | _ \<Rightarrow> False)
      | _ \<Rightarrow> False)"

definition lockfile_present :: "env \<Rightarrow> ProjectInfo \<Rightarrow> world \<Rightarrow> bool" where
  "lockfile_present E info w =
     list_ex (\<lambda>lf. existsSync (snd (getOutdated E (path info) info w)) (path_join (path info) lf))
       lockfiles"

definition audited :: "env \<Rightarrow> ProjectInfo \<Rightarrow> world \<Rightarrow> jsprim" where
  "audited E info w =
     fst (getSecurityIssues E (path info) info (snd (getOutdated E (path info) info w)))"

section \<open>Properties of environments and mappings\<close>

text \<open>What the filtering parsers guarantee of an entry, and what the Swift parser does.\<close>

definition differs :: "string \<times> jsval \<Rightarrow> bool" where
  "differs kv = strict_neq (get_prop (snd kv) ''current'') (get_prop (snd kv) ''latest'')"

definition pinned :: "string \<times> jsval \<Rightarrow> bool" where
  "pinned kv = (get_prop (snd kv) ''current'' = get_prop (snd kv) ''latest''
                \<and> get_prop (snd kv) ''wanted'' = get_prop (snd kv) ''latest'')"

definition mapping_where :: "(string \<times> jsval \<Rightarrow> bool) \<Rightarrow> jsval \<Rightarrow> bool" where
  "mapping_where P v = (case v of JObj kvs \<Rightarrow> list_all P kvs | _ \<Rightarrow> False)"

text \<open>Nothing is installed: every command line fails without output.\<close>

definition silent :: proc_result where
  "silent = \<lparr> exit_ok = False, stdout = [] \<rparr>"

definition all_silent :: "env \<Rightarrow> bool" where
  "all_silent E = (\<forall>cmd cwd w. fst (spawn E cmd cwd w) = silent)"

text \<open>
  The ways one command line can let the resolver down, in whatever directory and state of
  the world it is run: \<open>which\<close> does not find the tool; the command fails without output
  (the shell does not find the binary, or the tool exits non-zero having printed nothing);
  it prints only white space; what it prints does not parse as JSON; no line it prints has
  the shape of a \<open>bundle outdated\<close> line.  The other command lines may do anything.
\<close>

definition tool_missing :: "env \<Rightarrow> string \<Rightarrow> bool" where
  "tool_missing E tool = (\<forall>cwd w. \<not> exit_ok (fst (spawn E (''which '' @ tool) cwd w)))"

definition tool_present :: "env \<Rightarrow> string \<Rightarrow> bool" where
  "tool_present E tool = (\<forall>cwd w. exit_ok (fst (spawn E (''which '' @ tool) cwd w)))"

definition fails_silently :: "env \<Rightarrow> string \<Rightarrow> bool" where
  "fails_silently E cmd = (\<forall>cwd w. fst (spawn E cmd cwd w) = silent)"

definition prints_blank :: "env \<Rightarrow> string \<Rightarrow> bool" where
  "prints_blank E cmd = (\<forall>cwd w. trim (stdout (fst (spawn E cmd cwd w))) = [])"

definition prints_no_json :: "env \<Rightarrow> string \<Rightarrow> bool" where
  "prints_no_json E cmd = (\<forall>cwd w. JSON_parse E (stdout (fst (spawn E cmd cwd w))) = None)"

definition prints_no_gem_line :: "env \<Rightarrow> string \<Rightarrow> bool" where
  "prints_no_gem_line E cmd =
     (\<forall>cwd w. list_all (\<lambda>line. first_match gem_match_at line = None)
                 (js_split [CHR 0x0A] (stdout (fst (spawn E cmd cwd w)))))"

definition prints :: "env \<Rightarrow> string \<Rightarrow> string \<Rightarrow> bool" where
  "prints E cmd text = (\<forall>cwd w. stdout (fst (spawn E cmd cwd w)) = text)"

text \<open>
  For a project, the binaries its parser looks for with \<open>which\<close> before it runs anything
  (the Node parser looks for none), and the command lines the parser may run to obtain the
  listing (the Swift parser runs none: it reads \<open>Package.resolved\<close>).
\<close>

definition checked_tools :: "ProjectInfo \<Rightarrow> string list" where
  "checked_tools info =
     (let lang = ProjectInfo.language info in
      if lang = ''python'' then [''pip'', ''pip3'']
      else if lang = ''rust'' then [''cargo'']
      else if lang = ''go'' then [''go'']
      else if lang = ''php'' then [''composer'']
      else if lang = ''ruby'' then [''bundle'']
      else if lang = ''dart'' then [''dart'', ''flutter'']
      else if lang = ''swift'' then [''swift'']
      else if lang = ''kotlin'' then [''gradle'']
      else [])"

definition listing_commands :: "ProjectInfo \<Rightarrow> string list" where
  "listing_commands info =
     (let lang = ProjectInfo.language info in
      if lang = ''node'' then [ProjectInfo.packageManager info @ '' outdated --json'']
      else if lang = ''python''
        then [''pip3 list --outdated --format=json'', ''pip list --outdated --format=json'']
      else if lang = ''rust'' then [''cargo outdated --format json'']
      else if lang = ''go'' then [''go list -m -u -json all'']
      else if lang = ''php'' then [''composer outdated --format=json --direct'']
      else if lang = ''ruby'' then [''bundle outdated --parseable'']
      else if lang = ''dart'' then [''flutter pub outdated --json'', ''dart pub outdated --json'']
      else if lang = ''kotlin''
        then [''./gradlew dependencyUpdates -Drevision=release --output-formatter json'',
              ''gradle dependencyUpdates -Drevision=release --output-formatter json'']
      else [])"

text \<open>
  A Go listing as \<open>go list -m -u -json all\<close> prints it: module objects one after another,
  each closed by a line that holds only its brace.  A body is the text of one object up to
  that line; the braces of nested objects are indented, so the closing line occurs in a
  body followed by it only at the very end.  The module object of a body is the body with
  its brace (and without the white space around it, which JSON ignores).  A body is
  open-ended when it does not itself end in a brace, that is, when the last member of the
  object is not a nested object.
\<close>

definition go_sep :: string where
  "go_sep = [CHR 0x0A, CHR ''}'', CHR 0x0A]"

definition go_listing :: "string list \<Rightarrow> string" where
  "go_listing bodies = concat (map (\<lambda>b. b @ go_sep) bodies)"

fun one_object :: "string \<Rightarrow> bool" where
  "one_object [] = True"
| "one_object (c # cs) = (\<not> starts_with go_sep (c # cs @ go_sep) \<and> one_object cs)"

definition go_object :: "string \<Rightarrow> string" where
  "go_object body = trim body @ ''}''"

definition open_ended :: "string \<Rightarrow> bool" where
  "open_ended body = (\<not> ends_with ''}'' (trim body))"

definition well_formed :: "env \<Rightarrow> string \<Rightarrow> bool" where
  "well_formed E body = (trim body \<noteq> [] \<and> JSON_parse E (go_object body) \<noteq> None)"

text \<open>Classification as the specification words it: \<open>lang\<close> is the first ecosystem, in
  registry order, one of whose marker files exists in the directory.\<close>

definition first_in_order :: "world \<Rightarrow> string \<Rightarrow> string \<Rightarrow> bool" where
  "first_in_order w dir lang =
     (\<exists>before marker rest.
        LANGUAGE_MARKERS = before @ (lang, marker) # rest
        \<and> has_marker w dir marker
        \<and> \<not> list_ex (\<lambda>lm. has_marker w dir (snd lm)) before)"

text \<open>A text that is no use as a manifest: it is not JSON, holds no \<open>name = "..."\<close> and no
  \<open>module ...\<close> line, and none of its lines starts like a requirement.  The manifests of a
  directory are unusable when each of the five files \<open>getProjectInfo\<close> reads is absent,
  unreadable or such a text.\<close>

definition unusable_text :: "env \<Rightarrow> string \<Rightarrow> bool" where
  "unusable_text E content =
     (JSON_parse E content = None
      \<and> first_match cargo_name_at content = None
      \<and> first_match gomod_at content = None
      \<and> foldl requirement_line [] (js_split [CHR 0x0A] content) = [])"

definition manifest_names :: "string list" where
  "manifest_names =
     [''package.json'', ''requirements.txt'', ''Cargo.toml'', ''go.mod'', ''composer.json'']"

definition unusable_file :: "env \<Rightarrow> world \<Rightarrow> string \<Rightarrow> bool" where
  "unusable_file E w p =
     (case readFileSync w p of Inl e \<Rightarrow> True | Inr content \<Rightarrow> unusable_text E content)"

definition manifests_unusable :: "env \<Rightarrow> world \<Rightarrow> string \<Rightarrow> bool" where
  "manifests_unusable E w dir =
     list_all (\<lambda>f. unusable_file E w (path_join dir f)) manifest_names"

text \<open>What every entry of the background scan looks like: counts that are numbers, no
  security issue recorded, and the score computed from the two counts alone.\<close>

definition cached_entry_ok :: "jsval \<Rightarrow> bool" where
  "cached_entry_ok e =
     (case get_prop e ''outdatedCount'' of
        JNum nOutdated \<Rightarrow>
          (case get_prop e ''majorCount'' of
             JNum nMajor \<Rightarrow>
               0 \<le> nMajor \<and> nMajor \<le> nOutdated
               \<and> get_prop e ''securityIssues'' = JNum 0
               \<and> get_prop e ''score''
                    = JNum (max 0 (min 100 (100 - min (3 * nOutdated) 40 - 10 * nMajor)))
           | _ \<Rightarrow> False)
      | _ \<Rightarrow> False)"

section \<open>Example environments\<close>

text \<open>Concrete tooling behaviours and directory contents, used to run the definitions.
  The JSON built-ins are given by a table over the texts that occur in the examples; every
  other text used below is not valid JSON.\<close>

definition found :: proc_result where
  "found = \<lparr> exit_ok = True, stdout = ''/usr/local/bin/tool'' \<rparr>"

definition app_dir :: string where
  "app_dir = ''/home/u/Projects/app''"

definition plain_project :: "string \<Rightarrow> ProjectInfo" where
  "plain_project lang = \<lparr> name = JStr ''app'', path = ''/home/u/Projects/app'',
     language = lang, framework = language_name lang, packageManager = ''npm'',
     nodeVersion = JUndefined, dependencies = JObj [], devDependencies = JObj [] \<rparr>"

definition pnpm_json :: string where
  \<open>pnpm_json = ''{"vite":{"current":"4.1.0","wanted":"4.5.3","latest":"5.0.0"}}''\<close>

definition pnpm_outdated :: jsval where
  "pnpm_outdated =
     JObj [(''vite'', JObj [(''current'', JStr ''4.1.0''), (''wanted'', JStr ''4.5.3''),
                           (''latest'', JStr ''5.0.0'')])]"

definition swift_resolved_json :: string where
  \<open>swift_resolved_json = ''{"pins":[{"identity":"alamofire","kind":"remoteSourceControl","location":"https://github.com/Alamofire/Alamofire.git","state":{"revision":"3dc6a42c7727c49bf26508e29b0a0b35f9c7e1ad","version":"5.8.1"}}],"version":2}''\<close>

definition swift_resolved :: jsval where
  "swift_resolved =
     JObj [(''pins'', JArr [JObj [(''identity'', JStr ''alamofire''),
              (''kind'', JStr ''remoteSourceControl''),
              (''location'', JStr ''https://github.com/Alamofire/Alamofire.git''),
              (''state'', JObj [(''revision'', JStr ''3dc6a42c7727c49bf26508e29b0a0b35f9c7e1ad''),
                               (''version'', JStr ''5.8.1'')])]]),
           (''version'', JNum 2)]"

definition cargo_json :: string where
  \<open>cargo_json = ''{"dependencies":[{"name":"serde","project":"1.0.150","compat":"1.0.197","latest":"1.0.197"},{"name":"log","project":"0.4.21","compat":"0.4.21","latest":"0.4.21"}]}''\<close>

definition cargo_listing :: jsval where
  "cargo_listing =
     JObj [(''dependencies'',
        JArr [JObj [(''name'', JStr ''serde''), (''project'', JStr ''1.0.150''),
                    (''compat'', JStr ''1.0.197''), (''latest'', JStr ''1.0.197'')],
              JObj [(''name'', JStr ''log''), (''project'', JStr ''0.4.21''),
                    (''compat'', JStr ''0.4.21''), (''latest'', JStr ''0.4.21'')]])]"

text \<open>
  Three bodies of a Go listing, as \<open>go\<close> lays them out: one cut off in the middle of a
  value, one whose object carries an update and ends in a plain member, and one whose
  object carries an update as its last member.
\<close>

definition go_bad :: string where
  \<open>go_bad = js_join [CHR 0x0A]
     [''{'',
      CHR 0x09 # ''"Path": "example.com/app",'',
      CHR 0x09 # ''"Main": tr'']\<close>

definition go_good :: string where
  \<open>go_good = js_join [CHR 0x0A]
     [''{'',
      CHR 0x09 # ''"Path": "github.com/pkg/errors",'',
      CHR 0x09 # ''"Version": "v0.8.0",'',
      CHR 0x09 # ''"Update": {'',
      CHR 0x09 # CHR 0x09 # ''"Path": "github.com/pkg/errors",'',
      CHR 0x09 # CHR 0x09 # ''"Version": "v0.9.1"'',
      CHR 0x09 # ''},'',
      CHR 0x09 # ''"GoVersion": "1.12"'']\<close>

definition go_good_value :: jsval where
  "go_good_value =
     JObj [(''Path'', JStr ''github.com/pkg/errors''), (''Version'', JStr ''v0.8.0''),
           (''Update'', JObj [(''Path'', JStr ''github.com/pkg/errors''),
                             (''Version'', JStr ''v0.9.1'')]),
           (''GoVersion'', JStr ''1.12'')]"

definition go_tail :: string where
  \<open>go_tail = js_join [CHR 0x0A]
     [''{'',
      CHR 0x09 # ''"Path": "golang.org/x/sync",'',
      CHR 0x09 # ''"Version": "v0.1.0",'',
      CHR 0x09 # ''"Update": {'',
      CHR 0x09 # CHR 0x09 # ''"Path": "golang.org/x/sync",'',
      CHR 0x09 # CHR 0x09 # ''"Version": "v0.7.0"'',
      CHR 0x09 # ''}'']\<close>

definition go_tail_value :: jsval where
  "go_tail_value =
     JObj [(''Path'', JStr ''golang.org/x/sync''), (''Version'', JStr ''v0.1.0''),
           (''Update'', JObj [(''Path'', JStr ''golang.org/x/sync''),
                             (''Version'', JStr ''v0.7.0'')])]"

definition go_raw :: string where
  "go_raw = go_listing [go_bad, go_good]"

text \<open>The cache file of a scan that found the pnpm project below, as \<open>JSON.stringify\<close> with
  indent 2 prints it.\<close>

definition demo_entry :: jsval where
  "demo_entry =
     JObj [(''project'', JStr ''app''), (''path'', JStr ''/home/u/Projects/app''),
           (''language'', JStr ''node''), (''framework'', JStr ''Node.js''),
           (''outdatedCount'', JNum 1), (''majorCount'', JNum 1), (''securityIssues'', JNum 0),
           (''score'', JNum 87), (''checkedAt'', JStr ''2026-01-01T00:00:00.000Z'')]"

definition demo_cache :: jsval where
  "demo_cache =
     JObj [(''version'', JStr ''4.0.0''), (''updatedAt'', JStr ''2026-01-01T00:00:00.000Z''),
           (''projects'', JArr [demo_entry])]"

definition demo_cache_text :: string where
  \<open>demo_cache_text = js_join [CHR 0x0A]
     [''{'',
      ''  "version": "4.0.0",'',
      ''  "updatedAt": "2026-01-01T00:00:00.000Z",'',
      ''  "projects": ['',
      ''    {'',
      ''      "project": "app",'',
      ''      "path": "/home/u/Projects/app",'',
      ''      "language": "node",'',
      ''      "framework": "Node.js",'',
      ''      "outdatedCount": 1,'',
      ''      "majorCount": 1,'',
      ''      "securityIssues": 0,'',
      ''      "score": 87,'',
      ''      "checkedAt": "2026-01-01T00:00:00.000Z"'',
      ''    }'',
      ''  ]'',
      ''}'']\<close>

text \<open>
  What \<open>npm outdated --json\<close> prints for a dependency that is declared but not installed:
  the entry has no \<open>current\<close>.  What \<open>npm audit --json\<close> prints with one high and two
  moderate vulnerabilities, and the same report with a count that is a string.
\<close>

definition lodash_manifest :: string where
  \<open>lodash_manifest = ''{"name":"app","dependencies":{"lodash":"^4.17.21"}}''\<close>

definition lodash_package :: jsval where
  "lodash_package =
     JObj [(''name'', JStr ''app''), (''dependencies'', JObj [(''lodash'', JStr ''^4.17.21'')])]"

definition lodash_project :: ProjectInfo where
  "lodash_project = \<lparr> name = JStr ''app'', path = ''/home/u/Projects/app'',
     language = ''node'', framework = ''Node.js'', packageManager = ''npm'',
     nodeVersion = JUndefined, dependencies = JObj [(''lodash'', JStr ''^4.17.21'')],
     devDependencies = JObj [] \<rparr>"

definition missing_json :: string where
  \<open>missing_json = ''{"lodash":{"wanted":"4.17.21","latest":"4.17.21","dependent":"app"}}''\<close>

definition missing_listing :: jsval where
  "missing_listing =
     JObj [(''lodash'', JObj [(''wanted'', JStr ''4.17.21''), (''latest'', JStr ''4.17.21''),
                             (''dependent'', JStr ''app'')])]"

definition audit_json :: string where
  \<open>audit_json = ''{"metadata":{"vulnerabilities":{"info":0,"low":1,"moderate":2,"high":1,"critical":0,"total":4}}}''\<close>

definition audit_report :: jsval where
  "audit_report =
     JObj [(''metadata'', JObj [(''vulnerabilities'',
        JObj [(''info'', JNum 0), (''low'', JNum 1), (''moderate'', JNum 2), (''high'', JNum 1),
              (''critical'', JNum 0), (''total'', JNum 4)])])]"

definition text_audit_json :: string where
  \<open>text_audit_json = ''{"metadata":{"vulnerabilities":{"high":"x"}}}''\<close>

definition text_audit_report :: jsval where
  "text_audit_report = JObj [(''metadata'', JObj [(''vulnerabilities'', JObj [(''high'', JStr ''x'')])])]"

definition demo_parse :: "string \<Rightarrow> jsval option" where
  "demo_parse s =
     (if s = ''{}'' then Some (JObj [])
      else if s = pnpm_json then Some pnpm_outdated
      else if s = lodash_manifest then Some lodash_package
      else if s = missing_json then Some missing_listing
      else if s = audit_json then Some audit_report
      else if s = text_audit_json then Some text_audit_report
      else if s = swift_resolved_json then Some swift_resolved
      else if s = cargo_json then Some cargo_listing
      else if s = go_good @ ''}'' then Some go_good_value
      else if s = go_tail @ ''}'' then Some go_tail_value
      else if s = demo_cache_text @ [CHR 0x0A] then Some demo_cache
      else None)"

definition demo_stringify :: "jsval \<Rightarrow> string" where
  "demo_stringify v = (if v = demo_cache then demo_cache_text else ''null'')"

text \<open>Of the strings that are converted to numbers below, \<open>"200"\<close> is a number and
  the others are not.\<close>

definition demo_number :: "string \<Rightarrow> jsnum" where
  "demo_number s = (if s = ''200'' then Num 200 else NaN)"

definition demo_env :: "(string \<Rightarrow> string option \<Rightarrow> world \<Rightarrow> proc_result \<times> world) \<Rightarrow> env" where
  "demo_env sp = \<lparr> spawn = sp, JSON_parse = demo_parse, JSON_stringify = demo_stringify,
     toISOString = (\<lambda>t. ''2026-01-01T00:00:00.000Z''), homedir = ''/home/u'',
     StringToNumber = demo_number \<rparr>"

text \<open>No tool is installed: every command line fails without output.  The directory holds
  a \<open>package.json\<close> and nothing else.\<close>

definition bare_env :: env where
  "bare_env = demo_env (\<lambda>cmd cwd w. (silent, w))"

definition bare_world :: world where
  "bare_world = \<lparr>
     fs = (\<lambda>p. if p = ''/home/u/Projects/app/package.json'' then Some (File ''{}'' 0) else None),
     clock = 0, trace = [] \<rparr>"

text \<open>The tools are installed: every \<open>which\<close> succeeds, and every other command line ends
  the same way: without output, with an empty line, or with an error message in place of
  its listing.\<close>

definition installed_env :: "proc_result \<Rightarrow> env" where
  "installed_env out = demo_env (\<lambda>cmd cwd w.
        if starts_with ''which '' cmd then (found, w) else (out, w))"

definition failing_env :: env where
  "failing_env = installed_env silent"

definition blank_env :: env where
  "blank_env = installed_env \<lparr> exit_ok = True, stdout = [CHR 0x0A] \<rparr>"

definition noisy_env :: env where
  "noisy_env = installed_env \<lparr> exit_ok = False, stdout = ''error: registry unreachable'' \<rparr>"

text \<open>A pnpm project with a lockfile and one outdated package; \<open>pnpm outdated\<close> exits with
  status 1, as it does whenever something is outdated, and prints its listing.\<close>

definition pnpm_env :: env where
  "pnpm_env = demo_env (\<lambda>cmd cwd w.
        if cmd = ''pnpm outdated --json'' then (\<lparr> exit_ok = False, stdout = pnpm_json \<rparr>, w)
        else if cmd = ''which pnpm'' then (found, w)
        else (silent, w))"

definition pnpm_world :: world where
  "pnpm_world = \<lparr>
     fs = (\<lambda>p. if p = ''/home/u/Projects/app/package.json'' then Some (File ''{}'' 0)
               else if p = ''/home/u/Projects/app/pnpm-lock.yaml'' then Some (File [] 0)
               else None),
     clock = 0, trace = [] \<rparr>"

definition pnpm_report :: HealthReport where
  "pnpm_report = \<lparr> project = JStr ''app'', language = ''node'', framework = ''Node.js'',
     frameworkVersion = JNull, nodeVersion = JNull, packageManager = ''pnpm'',
     lockfileExists = True, outdatedCount = 1, majorUpdates = 1,
     securityIssues = PNum (Num 0), score = Num 87,
     recommendations = [''1 major update(s). Review changelogs before updating.''] \<rparr>"

text \<open>
  An npm project without a lockfile (the directory of \<open>bare_world\<close>): one outdated package,
  a major update, and an audit that reports three vulnerabilities.  \<open>npm outdated\<close> and
  \<open>npm audit\<close> exit with status 1 when they find something.
\<close>

definition audited_env :: env where
  "audited_env = demo_env (\<lambda>cmd cwd w.
        if cmd = ''npm outdated --json'' then (\<lparr> exit_ok = False, stdout = pnpm_json \<rparr>, w)
        else if cmd = ''which npm'' then (found, w)
        else if cmd = ''npm audit --json'' then (\<lparr> exit_ok = False, stdout = audit_json \<rparr>, w)
        else (silent, w))"

text \<open>The same project when the audit prints a count that is not a number.\<close>

definition text_env :: env where
  "text_env = demo_env (\<lambda>cmd cwd w.
        if cmd = ''npm outdated --json'' then (\<lparr> exit_ok = False, stdout = pnpm_json \<rparr>, w)
        else if cmd = ''which npm'' then (found, w)
        else if cmd = ''npm audit --json'' then (\<lparr> exit_ok = False, stdout = text_audit_json \<rparr>, w)
        else (silent, w))"

text \<open>An npm project with a lockfile whose one dependency has not been installed yet.\<close>

definition missing_env :: env where
  "missing_env = demo_env (\<lambda>cmd cwd w.
        if cmd = ''npm outdated --json'' then (\<lparr> exit_ok = False, stdout = missing_json \<rparr>, w)
        else if cmd = ''which npm'' then (found, w)
        else (silent, w))"

definition npm_world :: world where
  "npm_world = \<lparr>
     fs = (\<lambda>p. if p = ''/home/u/Projects/app/package.json'' then Some (File lodash_manifest 0)
               else if p = ''/home/u/Projects/app/package-lock.json'' then Some (File ''{}'' 0)
               else None),
     clock = 0, trace = [] \<rparr>"

text \<open>A Swift package with one resolved pin; \<open>swift\<close> is installed.\<close>

definition swift_env :: env where
  "swift_env = demo_env (\<lambda>cmd cwd w. if cmd = ''which swift'' then (found, w) else (silent, w))"

definition swift_world :: world where
  "swift_world = \<lparr>
     fs = (\<lambda>p. if p = ''/home/u/Projects/app/Package.swift'' then Some (File [] 0)
               else if p = ''/home/u/Projects/app/Package.resolved''
                    then Some (File swift_resolved_json 0)
               else None),
     clock = 0, trace = [] \<rparr>"

text \<open>A Rust crate; \<open>cargo\<close> and \<open>cargo-outdated\<close> are installed and the listing names two
  dependencies, one of them already at its latest version.\<close>

definition cargo_env :: env where
  "cargo_env = demo_env (\<lambda>cmd cwd w.
        if cmd = ''which cargo'' \<or> cmd = ''which cargo-outdated'' then (found, w)
        else if cmd = ''cargo outdated --format json''
             then (\<lparr> exit_ok = True, stdout = cargo_json \<rparr>, w)
        else (silent, w))"

definition cargo_world :: world where
  "cargo_world = \<lparr>
     fs = (\<lambda>p. if p = ''/home/u/Projects/app/Cargo.toml'' then Some (File [] 0) else None),
     clock = 0, trace = [] \<rparr>"

text \<open>A Go module; \<open>go\<close> is installed and the listing holds a truncated object followed by
  a complete one that carries an update.\<close>

definition go_env :: env where
  "go_env = demo_env (\<lambda>cmd cwd w.
        if cmd = ''which go'' then (found, w)
        else if cmd = ''go list -m -u -json all'' then (\<lparr> exit_ok = True, stdout = go_raw \<rparr>, w)
        else (silent, w))"

text \<open>The same module when its listing holds the one object that ends in its update.\<close>

definition go_tail_env :: env where
  "go_tail_env = demo_env (\<lambda>cmd cwd w.
        if cmd = ''which go'' then (found, w)
        else if cmd = ''go list -m -u -json all''
             then (\<lparr> exit_ok = True, stdout = go_listing [go_tail] \<rparr>, w)
        else (silent, w))"

definition go_world :: world where
  "go_world = \<lparr>
     fs = (\<lambda>p. if p = ''/home/u/Projects/app/go.mod'' then Some (File [] 0) else None),
     clock = 0, trace = [] \<rparr>"

text \<open>A directory holding both a \<open>package.json\<close>, truncated in the middle of its first key,
  and an empty \<open>Cargo.toml\<close>.\<close>

definition broken_json :: string where
  \<open>broken_json = ''{"name":''\<close>

definition mixed_world :: world where
  "mixed_world = \<lparr>
     fs = (\<lambda>p. if p = ''/home/u/Projects/app/package.json'' then Some (File broken_json 0)
               else if p = ''/home/u/Projects/app/Cargo.toml'' then Some (File [] 0)
               else None),
     clock = 0, trace = [] \<rparr>"

definition empty_world :: world where
  "empty_world = \<lparr> fs = (\<lambda>p. None), clock = 0, trace = [] \<rparr>"

text \<open>The same directory entries as \<open>mixed_world\<close>, with a well-formed \<open>package.json\<close>.\<close>

definition mixed_world_valid :: world where
  "mixed_world_valid = \<lparr>
     fs = (\<lambda>p. if p = ''/home/u/Projects/app/package.json'' then Some (File ''{}'' 5)
               else if p = ''/home/u/Projects/app/Cargo.toml'' then Some (File [] 5)
               else None),
     clock = 9, trace = [] \<rparr>"

section \<open>Proofs\<close>

subsection \<open>Splitting and joining\<close>

lemma split_from_ne: "split_from sep acc s \<noteq> []"
  by (induction sep acc s rule: split_from.induct) auto

lemma split_from_char_head:
  "first_elem (split_from [d] acc s) = Some (acc @ takeWhile (\<lambda>c. c \<noteq> d) s)"
  by (induction "[d]" acc s rule: split_from.induct) (auto simp: first_elem_def)

lemma major_token_eq: "major_token v = Some (spec_major_token v)"
  by (simp add: major_token_def spec_major_token_def strip_non_digits_def js_split_def
      split_from_char_head)

subsection \<open>Claims\<close>

text \<open>
  C7.  For every pair of version strings, \<open>isMajorUpdate\<close> strips the leading non-digit
  characters of each, takes the token before the first dot, and compares the two tokens as
  strings, answering false when either token is empty.  In particular
  \<open>isMajorUpdate("2.3.1", "3.0.0")\<close> is true, and \<open>isMajorUpdate("2.3.1", "2.9.0")\<close>,
  \<open>isMajorUpdate("^1.2.0", "^1.9.0")\<close> and \<open>isMajorUpdate("abc", "def")\<close> are false.
\<close>

theorem isMajorUpdate_spec:
  "isMajorUpdate current latest = spec_isMajorUpdate current latest
   \<and> isMajorUpdate ''2.3.1'' ''3.0.0''
   \<and> \<not> isMajorUpdate ''2.3.1'' ''2.9.0''
   \<and> \<not> isMajorUpdate ''^1.2.0'' ''^1.9.0''
   \<and> \<not> isMajorUpdate ''abc'' ''def''"
proof -
  have gen: "\<And>c l. isMajorUpdate c l = spec_isMajorUpdate c l"
    by (auto simp: isMajorUpdate_def spec_isMajorUpdate_def major_token_eq Let_def)
  have e1: "spec_isMajorUpdate ''2.3.1'' ''3.0.0''"
    by (simp add: spec_isMajorUpdate_def spec_major_token_def is_digit_def)
  have e2: "\<not> spec_isMajorUpdate ''2.3.1'' ''2.9.0''"
    by (simp add: spec_isMajorUpdate_def spec_major_token_def is_digit_def)
  have e3: "\<not> spec_isMajorUpdate ''^1.2.0'' ''^1.9.0''"
    by (simp add: spec_isMajorUpdate_def spec_major_token_def is_digit_def)
  have e4: "\<not> spec_isMajorUpdate ''abc'' ''def''"
    by (simp add: spec_isMajorUpdate_def spec_major_token_def is_digit_def)
  from gen e1 e2 e3 e4 show ?thesis by simp
qed

lemma js_join_cons: "ys \<noteq> [] \<Longrightarrow> js_join sep (x # ys) = x @ sep @ js_join sep ys"
  by (cases ys) auto

lemma take_eq_append_drop: "take n s = p \<Longrightarrow> p @ drop n s = s"
  by (metis append_take_drop_id)

lemma js_join_split_from: "js_join sep (split_from sep acc s) = acc @ s"
proof (induction sep acc s rule: split_from.induct)
  case (1 sep acc)
  show ?case by simp
next
  case (2 sep acc c cs)
  show ?case
  proof (cases "sep \<noteq> [] \<and> take (length sep) (c # cs) = sep")
    case True
    then have "js_join sep (split_from sep acc (c # cs)) =
        acc @ sep @ js_join sep (split_from sep [] (drop (length sep) (c # cs)))"
      by (simp add: js_join_cons split_from_ne)
    also have "\<dots> = acc @ sep @ drop (length sep) (c # cs)"
      using 2(1) True by simp
    also have "\<dots> = acc @ (c # cs)"
      using True take_eq_append_drop [of "length sep" "c # cs" sep] by simp
    finally show ?thesis .
  next
    case False
    then show ?thesis using 2(2) by auto
  qed
qed

lemma js_join_split: "sep \<noteq> [] \<Longrightarrow> js_join sep (js_split sep s) = s"
  by (simp add: js_split_def js_join_split_from)

text \<open>
  C3.  For a Node project whose package manager is npm, \<open>buildUpdateCommand\<close> at level
  "minor" returns the two-step command: npm-check-updates with \<open>--target minor\<close>, scoped to
  the package subset when one is given, chained by \<open>&&\<close> to \<open>npm install\<close>; at level
  "latest" the helper carries no target.  For package manager pnpm the result is the single
  native \<open>pnpm update\<close> command (with the subset and, at "latest", \<open>--latest\<close>), at every
  level.
\<close>

theorem buildUpdateCommand_npm_two_step:
  "ProjectInfo.language info = ''node'' \<longrightarrow>
     (ProjectInfo.packageManager info = ''npm'' \<longrightarrow>
        buildUpdateCommand info packages ''minor'' =
          ''npx -y npm-check-updates -u --target minor''
            @ (if pkg_list packages = [] then [] else '' '' @ pkg_list packages)
            @ '' && npm install''
        \<and> buildUpdateCommand info packages ''latest'' =
          ''npx -y npm-check-updates -u''
            @ (if pkg_list packages = [] then [] else '' '' @ pkg_list packages)
            @ '' && npm install'')
     \<and> (ProjectInfo.packageManager info = ''pnpm'' \<longrightarrow>
        buildUpdateCommand info packages level =
          ''pnpm update''
            @ (if pkg_list packages = [] then [] else '' '' @ pkg_list packages)
            @ (if level = ''latest'' then '' --latest'' else []))"
  by (simp add: buildUpdateCommand_def marker_of_def LANGUAGE_MARKERS_def Let_def js_join_split)

theorem buildUpdateCommand_npm_two_step_witness:
  "buildUpdateCommand (node_project ''npm'') (Some '' lodash react '') ''minor'' =
     ''npx -y npm-check-updates -u --target minor lodash react && npm install''
   \<and> buildUpdateCommand (node_project ''npm'') None ''latest'' =
     ''npx -y npm-check-updates -u && npm install''
   \<and> buildUpdateCommand (node_project ''pnpm'') None ''minor'' = ''pnpm update''"
  using buildUpdateCommand_npm_two_step [of "node_project ''npm''" "Some '' lodash react ''"]
    buildUpdateCommand_npm_two_step [of "node_project ''npm''" None]
    buildUpdateCommand_npm_two_step [of "node_project ''pnpm''" None "''minor''"]
  by (simp add: node_project_def pkg_list_def trim_def is_space_def)

text \<open>
  C4.  For a Node project whose package manager is pnpm or yarn, level "latest" gives the
  native update command with \<open>--latest\<close> and the package subset when one is given.  For bun
  the level is not looked at: level "latest" gives \<open>bun update\<close> with no \<open>--latest\<close> flag,
  the same command as level "minor".
\<close>

theorem buildUpdateCommand_bun_latest:
  "buildUpdateCommand (node_project ''bun'') None ''latest'' = ''bun update''
   \<and> buildUpdateCommand (node_project ''bun'') None ''minor'' = ''bun update''
   \<and> buildUpdateCommand (node_project ''bun'') (Some ''zod'') ''latest'' = ''bun update zod''
   \<and> buildUpdateCommand (node_project ''pnpm'') (Some ''zod'') ''latest'' = ''pnpm update zod --latest''
   \<and> buildUpdateCommand (node_project ''yarn'') (Some ''zod'') ''latest'' = ''yarn upgrade zod --latest''"
  by (simp add: buildUpdateCommand_def marker_of_def LANGUAGE_MARKERS_def Let_def
      node_project_def pkg_list_def trim_def is_space_def)

subsection \<open>The resolver always returns\<close>

lemma catch_empty_Inr: "\<exists>v. fst (catch_empty r) = Inr v"
  by (cases "fst r") (auto simp: catch_empty_def)

lemma npm_total: "\<exists>v. fst (getOutdatedNpm E p pm w) = Inr v"
  by (simp add: getOutdatedNpm_def catch_empty_Inr)

lemma pip_body_total: "\<exists>v. fst (pip_body E p w) = Inr v"
  by (simp add: pip_body_def catch_empty_Inr)

lemma pip_total: "\<exists>v. fst (getOutdatedPip E p w) = Inr v"
  by (auto simp: getOutdatedPip_def Let_def pip_body_total split: prod.splits)

lemma cargo_total: "\<exists>v. fst (getOutdatedCargo E p w) = Inr v"
  by (auto simp: getOutdatedCargo_def Let_def catch_empty_Inr split: prod.splits)

lemma go_total: "\<exists>v. fst (getOutdatedGo E p w) = Inr v"
  by (auto simp: getOutdatedGo_def Let_def catch_empty_Inr split: prod.splits)

lemma composer_total: "\<exists>v. fst (getOutdatedComposer E p w) = Inr v"
  by (auto simp: getOutdatedComposer_def Let_def catch_empty_Inr split: prod.splits)

lemma gem_total: "\<exists>v. fst (getOutdatedGem E p w) = Inr v"
  by (auto simp: getOutdatedGem_def Let_def catch_empty_Inr split: prod.splits)

lemma pub_body_total: "\<exists>v. fst (pub_body E p w) = Inr v"
  by (simp add: pub_body_def catch_empty_Inr)

lemma pub_total: "\<exists>v. fst (getOutdatedPub E p w) = Inr v"
  by (auto simp: getOutdatedPub_def Let_def pub_body_total split: prod.splits)

lemma swift_total: "\<exists>v. fst (getOutdatedSwift E p w) = Inr v"
  by (auto simp: getOutdatedSwift_def Let_def catch_empty_Inr split: prod.splits)

lemma gradle_body_total: "\<exists>v. fst (gradle_body E p w) = Inr v"
  by (simp add: gradle_body_def catch_empty_Inr)

lemma gradle_total: "\<exists>v. fst (getOutdatedGradle E p w) = Inr v"
  by (auto simp: getOutdatedGradle_def Let_def gradle_body_total split: prod.splits)

lemma getOutdated_total: "\<exists>v. fst (getOutdated E p info w) = Inr v"
  by (simp add: getOutdated_def npm_total pip_total cargo_total go_total composer_total
      gem_total pub_total swift_total gradle_total split: option.splits)

subsection \<open>Health score\<close>

lemma count_major_le: "count_major es = Inr n \<Longrightarrow> n \<le> length es"
proof (induction es arbitrary: n)
  case Nil
  then show ?case by simp
next
  case (Cons a es)
  obtain k pkg where a: "a = (k, pkg)" by (cases a)
  from Cons.prems a obtain b m where
    "is_major_entry pkg = Inr b" "count_major es = Inr m" "n = (if b then Suc m else m)"
    by (auto simp: ebind_def split: sum.splits)
  with Cons.IH [of m] show ?case by auto
qed

lemma outdated_counts_le: "outdated_counts v = Inr (a, b) \<Longrightarrow> b \<le> a"
  by (auto simp: outdated_counts_def ebind_def split: sum.splits dest: count_major_le)

lemma is_major_entry_typed: "(\<exists>b. is_major_entry pkg = Inr b) = typed_entry pkg"
  by (cases pkg) (auto simp: is_major_entry_def typed_entry_def split: jsval.splits)

lemma count_major_typed:
  "(\<exists>n. count_major es = Inr n) = list_all (\<lambda>kv. typed_entry (snd kv)) es"
proof (induction es)
  case Nil
  show ?case by simp
next
  case (Cons a es)
  obtain k pkg where a: "a = (k, pkg)" by (cases a)
  show ?case
  proof (cases "is_major_entry pkg")
    case (Inl e)
    with is_major_entry_typed [of pkg] a show ?thesis by (simp add: ebind_def)
  next
    case (Inr b)
    with is_major_entry_typed [of pkg] have t: "typed_entry pkg" by auto
    show ?thesis
    proof (cases "count_major es")
      case (Inl e)
      with Cons.IH Inr a t show ?thesis by (simp add: ebind_def)
    next
      case r: (Inr m)
      with Cons.IH Inr a t show ?thesis by (simp add: ebind_def)
    qed
  qed
qed

lemma counts_typed: "(\<exists>c. ebind out outdated_counts = Inr c) = typed_outdated out"
proof (cases out)
  case (Inl e)
  then show ?thesis by (simp add: ebind_def typed_outdated_def)
next
  case (Inr v)
  show ?thesis
  proof (cases "object_entries v")
    case (Inl e)
    with Inr show ?thesis by (simp add: ebind_def typed_outdated_def outdated_counts_def)
  next
    case es: (Inr es)
    have "(\<exists>c. ebind (count_major es) (\<lambda>major. Inr (length es, major)) = Inr c)
        = (\<exists>n. count_major es = Inr n)"
      by (cases "count_major es") (simp_all add: ebind_def)
    with Inr es count_major_typed [of es] show ?thesis
      by (simp add: ebind_def typed_outdated_def outdated_counts_def)
  qed
qed

lemma is_major_entry_pair: "is_major_entry pkg = Inr b \<Longrightarrow> b = major_pair (k, pkg)"
  by (auto simp: is_major_entry_def major_pair_def split: jsval.splits if_splits)

lemma count_major_filter: "count_major es = Inr n \<Longrightarrow> n = length (filter major_pair es)"
proof (induction es arbitrary: n)
  case Nil
  then show ?case by simp
next
  case (Cons a es)
  obtain k pkg where a: "a = (k, pkg)" by (cases a)
  from Cons.prems a obtain b m where
    b: "is_major_entry pkg = Inr b" and m: "count_major es = Inr m"
    and n: "n = (if b then Suc m else m)"
    by (auto simp: ebind_def split: sum.splits)
  from is_major_entry_pair [OF b, of k] Cons.IH [OF m] a n show ?case by simp
qed

lemma is_major_entry_error: "is_major_entry pkg = Inl e \<Longrightarrow> e = TypeError"
  by (auto simp: is_major_entry_def split: jsval.splits if_splits)

lemma count_major_error: "count_major es = Inl e \<Longrightarrow> e = TypeError"
proof (induction es)
  case Nil
  then show ?case by simp
next
  case (Cons a es)
  obtain k pkg where a: "a = (k, pkg)" by (cases a)
  from Cons a show ?case
    by (auto simp: ebind_def split: sum.splits dest: is_major_entry_error)
qed

lemma object_entries_error: "object_entries v = Inl e \<Longrightarrow> e = TypeError"
  by (cases v) simp_all

lemma outdated_counts_error: "outdated_counts v = Inl e \<Longrightarrow> e = TypeError"
  by (auto simp: outdated_counts_def ebind_def split: sum.splits
      dest: object_entries_error count_major_error)

lemma counts_listing:
  assumes "getOutdated E (path info) info w = (out, w1)"
    and "ebind out outdated_counts = Inr (a, b)"
  shows "a = length (outdated_listing E info w)"
    and "b = length (filter major_pair (outdated_listing E info w))"
  using assms
  by (auto simp: outdated_listing_def outdated_counts_def ebind_def split: sum.splits
      dest: count_major_filter)

lemma score_arith:
  "num_op max (Num 0) (num_op min (Num 100)
     (num_op (-) (Num (if \<not> lock then 100 - min (int a * 3) 40 - int b * 10 - 15
                       else 100 - min (int a * 3) 40 - int b * 10))
        (num_op min (num_op (*) x (Num 5)) (Num 30))))
   = spec_score_num (int a) (int b) lock x"
  by (cases x) (simp_all add: num_op_def spec_score_num_def spec_score_def mult.commute)

lemma computeHealthReport_ok:
  assumes "getOutdated E (path info) info w = (out, w1)"
    and "ebind out outdated_counts = Inr (a, b)"
    and "getSecurityIssues E (path info) info w1 = (sec, w2)"
  shows "\<exists>r. fst (computeHealthReport E info w) = Inr r
     \<and> outdatedCount r = int a \<and> majorUpdates r = int b \<and> securityIssues r = sec
     \<and> lockfileExists r = list_ex (\<lambda>lf. existsSync w1 (path_join (path info) lf)) lockfiles
     \<and> score r = spec_score_num (int a) (int b) (lockfileExists r) (to_number E sec)"
  unfolding computeHealthReport_def Let_def assms prod.case sum.case fst_conv
  by (simp add: score_arith del: max_less_iff_conj min_less_iff_conj)

lemma computeHealthReport_err:
  assumes "getOutdated E (path info) info w = (out, w1)"
    and "ebind out outdated_counts = Inl e"
  shows "fst (computeHealthReport E info w) = Inl e"
  using assms by (simp add: computeHealthReport_def Let_def)

lemma spec_score_bounds: "0 \<le> spec_score a b l s \<and> spec_score a b l s \<le> 100"
  by (simp add: spec_score_def)

lemma spec_score_clean: "spec_score 0 0 True 0 = 100"
  by (simp add: spec_score_def)

lemma computeHealthReport_typed:
  assumes "typed_outdated (fst (getOutdated E (path info) info w))"
  shows "\<exists>r. fst (computeHealthReport E info w) = Inr r
     \<and> outdatedCount r = int (length (outdated_listing E info w))
     \<and> majorUpdates r = int (length (filter major_pair (outdated_listing E info w)))
     \<and> lockfileExists r = lockfile_present E info w
     \<and> securityIssues r = audited E info w
     \<and> score r = spec_score_num (outdatedCount r) (majorUpdates r) (lockfileExists r)
                   (to_number E (securityIssues r))"
proof -
  obtain out w1 where g: "getOutdated E (path info) info w = (out, w1)"
    by (cases "getOutdated E (path info) info w")
  obtain sec w2 where s: "getSecurityIssues E (path info) info w1 = (sec, w2)"
    by (cases "getSecurityIssues E (path info) info w1")
  from assms g counts_typed [of out] obtain c where "ebind out outdated_counts = Inr c"
    by auto
  then obtain a b where c: "ebind out outdated_counts = Inr (a, b)"
    by (cases c) simp
  from computeHealthReport_ok [OF g c s] obtain r where
    r: "fst (computeHealthReport E info w) = Inr r"
    "outdatedCount r = int a" "majorUpdates r = int b" "securityIssues r = sec"
    "lockfileExists r = list_ex (\<lambda>lf. existsSync w1 (path_join (path info) lf)) lockfiles"
    "score r = spec_score_num (int a) (int b) (lockfileExists r) (to_number E sec)"
    by blast
  from g s have "lockfile_present E info w
      = list_ex (\<lambda>lf. existsSync w1 (path_join (path info) lf)) lockfiles"
    and "audited E info w = sec"
    by (simp_all add: lockfile_present_def audited_def)
  with r counts_listing [OF g c] show ?thesis by simp
qed

lemma computeHealthReport_untyped:
  assumes "\<not> typed_outdated (fst (getOutdated E (path info) info w))"
  shows "fst (computeHealthReport E info w) = Inl TypeError"
proof -
  obtain out w1 where g: "getOutdated E (path info) info w = (out, w1)"
    by (cases "getOutdated E (path info) info w")
  from getOutdated_total [of E "path info" info w] g obtain v where v: "out = Inr v"
    by auto
  from assms g counts_typed [of out] obtain e where e: "ebind out outdated_counts = Inl e"
    by (cases "ebind out outdated_counts") auto
  with v have "e = TypeError"
    by (auto simp: ebind_def dest: outdated_counts_error)
  with computeHealthReport_err [OF g e] show ?thesis by simp
qed

text \<open>
  C1.  \<open>computeHealthReport\<close> returns a report exactly when every entry of the outdated
  mapping carries a string \<open>current\<close> and a string \<open>latest\<close>.  The report then counts the
  entries of the mapping and the major updates among them, records whether a lockfile
  exists in the project directory and what the audit returned, and its score is 100 minus
  3 per outdated package (at most 40), minus 10 per major update, minus 15 without a
  lockfile, minus 5 per security issue (at most 30), clamped to the range from 0 to 100:
  whenever the security count is a number, or a string that converts to one, the score
  lies in that range, and it is exactly 100 when nothing is outdated, a lockfile is present
  and the audit finds nothing.  (A security count that converts to \<open>NaN\<close> makes the score
  \<open>NaN\<close>.)

  Otherwise no score is returned: the counting throws a TypeError that nothing in
  \<open>computeHealthReport\<close> catches.  This happens for an npm project with a declared
  dependency that is not installed, which \<open>npm outdated --json\<close> lists without \<open>current\<close>:
  the Node parser returns the parsed object as it is, where its array branch would have
  stored \<open>"?"\<close>.
\<close>

theorem computeHealthReport_score:
  "(typed_outdated (fst (getOutdated E (path info) info w)) \<longrightarrow>
      (\<exists>r. fst (computeHealthReport E info w) = Inr r
         \<and> outdatedCount r = int (length (outdated_listing E info w))
         \<and> majorUpdates r = int (length (filter major_pair (outdated_listing E info w)))
         \<and> lockfileExists r = lockfile_present E info w
         \<and> securityIssues r = audited E info w
         \<and> score r = spec_score_num (outdatedCount r) (majorUpdates r) (lockfileExists r)
                       (to_number E (securityIssues r))
         \<and> (to_number E (audited E info w) = Num n \<longrightarrow>
               score r = Num (spec_score (outdatedCount r) (majorUpdates r) (lockfileExists r) n)
               \<and> num_le (Num 0) (score r) \<and> num_le (score r) (Num 100))
         \<and> (outdated_listing E info w = [] \<and> lockfile_present E info w
              \<and> to_number E (audited E info w) = Num 0 \<longrightarrow> score r = Num 100)))
   \<and> (\<not> typed_outdated (fst (getOutdated E (path info) info w)) \<longrightarrow>
        fst (computeHealthReport E info w) = Inl TypeError)
   \<and> getProjectInfo missing_env npm_world app_dir = Some lodash_project
   \<and> fst (getOutdated missing_env app_dir lodash_project npm_world) = Inr missing_listing
   \<and> fst (computeHealthReport missing_env lodash_project npm_world) = Inl TypeError"
proof -
  have first: "typed_outdated (fst (getOutdated E (path info) info w)) \<longrightarrow>
      (\<exists>r. fst (computeHealthReport E info w) = Inr r
         \<and> outdatedCount r = int (length (outdated_listing E info w))
         \<and> majorUpdates r = int (length (filter major_pair (outdated_listing E info w)))
         \<and> lockfileExists r = lockfile_present E info w
         \<and> securityIssues r = audited E info w
         \<and> score r = spec_score_num (outdatedCount r) (majorUpdates r) (lockfileExists r)
                       (to_number E (securityIssues r))
         \<and> (to_number E (audited E info w) = Num n \<longrightarrow>
               score r = Num (spec_score (outdatedCount r) (majorUpdates r) (lockfileExists r) n)
               \<and> num_le (Num 0) (score r) \<and> num_le (score r) (Num 100))
         \<and> (outdated_listing E info w = [] \<and> lockfile_present E info w
              \<and> to_number E (audited E info w) = Num 0 \<longrightarrow> score r = Num 100))"
  proof
    assume "typed_outdated (fst (getOutdated E (path info) info w))"
    from computeHealthReport_typed [OF this] obtain r where
      r: "fst (computeHealthReport E info w) = Inr r"
      and oc: "outdatedCount r = int (length (outdated_listing E info w))"
      and mu: "majorUpdates r = int (length (filter major_pair (outdated_listing E info w)))"
      and lf: "lockfileExists r = lockfile_present E info w"
      and se: "securityIssues r = audited E info w"
      and sc: "score r = spec_score_num (outdatedCount r) (majorUpdates r) (lockfileExists r)
                       (to_number E (securityIssues r))"
      by blast
    have num: "to_number E (audited E info w) = Num n \<longrightarrow>
               score r = Num (spec_score (outdatedCount r) (majorUpdates r) (lockfileExists r) n)
               \<and> num_le (Num 0) (score r) \<and> num_le (score r) (Num 100)"
      using sc se spec_score_bounds [of "outdatedCount r" "majorUpdates r" "lockfileExists r" n]
      by (simp add: spec_score_num_def num_le_def)
    have clean: "outdated_listing E info w = [] \<and> lockfile_present E info w
              \<and> to_number E (audited E info w) = Num 0 \<longrightarrow> score r = Num 100"
      using sc se oc mu lf
      by (simp add: spec_score_num_def spec_score_clean)
    from r oc mu lf se sc num clean
    show "\<exists>r. fst (computeHealthReport E info w) = Inr r
         \<and> outdatedCount r = int (length (outdated_listing E info w))
         \<and> majorUpdates r = int (length (filter major_pair (outdated_listing E info w)))
         \<and> lockfileExists r = lockfile_present E info w
         \<and> securityIssues r = audited E info w
         \<and> score r = spec_score_num (outdatedCount r) (majorUpdates r) (lockfileExists r)
                       (to_number E (securityIssues r))
         \<and> (to_number E (audited E info w) = Num n \<longrightarrow>
               score r = Num (spec_score (outdatedCount r) (majorUpdates r) (lockfileExists r) n)
               \<and> num_le (Num 0) (score r) \<and> num_le (score r) (Num 100))
         \<and> (outdated_listing E info w = [] \<and> lockfile_present E info w
              \<and> to_number E (audited E info w) = Num 0 \<longrightarrow> score r = Num 100)"
      by blast
  qed
  have second: "\<not> typed_outdated (fst (getOutdated E (path info) info w)) \<longrightarrow>
        fst (computeHealthReport E info w) = Inl TypeError"
    using computeHealthReport_untyped [of E info w] by blast
  have third: "getProjectInfo missing_env npm_world app_dir = Some lodash_project"
    by code_simp
  have fourth: "fst (getOutdated missing_env app_dir lodash_project npm_world) = Inr missing_listing"
    by code_simp
  have fifth: "fst (computeHealthReport missing_env lodash_project npm_world) = Inl TypeError"
    by code_simp
  from first second third fourth fifth show ?thesis by blast
qed

theorem computeHealthReport_score_witness:
  "typed_outdated (fst (getOutdated audited_env app_dir (node_project ''npm'') bare_world))
   \<and> length (outdated_listing audited_env (node_project ''npm'') bare_world) = 1
   \<and> length (filter major_pair (outdated_listing audited_env (node_project ''npm'') bare_world)) = 1
   \<and> \<not> lockfile_present audited_env (node_project ''npm'') bare_world
   \<and> audited audited_env (node_project ''npm'') bare_world = PNum (Num 3)
   \<and> to_number audited_env (audited audited_env (node_project ''npm'') bare_world) = Num 3
   \<and> spec_score 1 1 False 3 = 57
   \<and> map_sum id score
        (fst (computeHealthReport audited_env (node_project ''npm'') bare_world)) = Inr (Num 57)
   \<and> typed_outdated (fst (getOutdated bare_env app_dir (node_project ''pnpm'') pnpm_world))
   \<and> outdated_listing bare_env (node_project ''pnpm'') pnpm_world = []
   \<and> lockfile_present bare_env (node_project ''pnpm'') pnpm_world
   \<and> to_number bare_env (audited bare_env (node_project ''pnpm'') pnpm_world) = Num 0
   \<and> map_sum id score
        (fst (computeHealthReport bare_env (node_project ''pnpm'') pnpm_world)) = Inr (Num 100)
   \<and> typed_outdated (fst (getOutdated text_env app_dir (node_project ''npm'') bare_world))
   \<and> audited text_env (node_project ''npm'') bare_world = PStr ''x00''
   \<and> map_sum id score
        (fst (computeHealthReport text_env (node_project ''npm'') bare_world)) = Inr NaN
   \<and> \<not> typed_outdated (fst (getOutdated missing_env app_dir lodash_project npm_world))
   \<and> fst (computeHealthReport missing_env lodash_project npm_world) = Inl TypeError"
proof -
  have p: "path (node_project pm) = app_dir" "path lodash_project = app_dir" for pm
    by (simp_all add: node_project_def lodash_project_def app_dir_def)
  have t1: "typed_outdated (fst (getOutdated audited_env app_dir (node_project ''npm'') bare_world))"
    by code_simp
  have n1: "length (outdated_listing audited_env (node_project ''npm'') bare_world) = 1"
    "length (filter major_pair (outdated_listing audited_env (node_project ''npm'') bare_world)) = 1"
    by code_simp+
  have l1: "\<not> lockfile_present audited_env (node_project ''npm'') bare_world"
    by code_simp
  have a1: "audited audited_env (node_project ''npm'') bare_world = PNum (Num 3)"
    by code_simp
  then have c1: "to_number audited_env (audited audited_env (node_project ''npm'') bare_world) = Num 3"
    by (simp add: to_number_def)
  have v1: "spec_score 1 1 False 3 = 57"
    by (simp add: spec_score_def)
  from computeHealthReport_score [of audited_env "node_project ''npm''" bare_world 3] t1 c1
  obtain r1 where r1: "fst (computeHealthReport audited_env (node_project ''npm'') bare_world) = Inr r1"
    and "outdatedCount r1 = int (length (outdated_listing audited_env (node_project ''npm'') bare_world))"
    and "majorUpdates r1 = int (length (filter major_pair
          (outdated_listing audited_env (node_project ''npm'') bare_world)))"
    and "lockfileExists r1 = lockfile_present audited_env (node_project ''npm'') bare_world"
    and "score r1 = Num (spec_score (outdatedCount r1) (majorUpdates r1) (lockfileExists r1) 3)"
    unfolding p by blast
  with n1 l1 v1 have s1: "map_sum id score
        (fst (computeHealthReport audited_env (node_project ''npm'') bare_world)) = Inr (Num 57)"
    by simp
  have t2: "typed_outdated (fst (getOutdated bare_env app_dir (node_project ''pnpm'') pnpm_world))"
    by code_simp
  have n2: "outdated_listing bare_env (node_project ''pnpm'') pnpm_world = []"
    by code_simp
  have l2: "lockfile_present bare_env (node_project ''pnpm'') pnpm_world"
    by code_simp
  have a2: "to_number bare_env (audited bare_env (node_project ''pnpm'') pnpm_world) = Num 0"
    by code_simp
  from computeHealthReport_score [of bare_env "node_project ''pnpm''" pnpm_world 0] t2 n2 l2 a2
  obtain r2 where "fst (computeHealthReport bare_env (node_project ''pnpm'') pnpm_world) = Inr r2"
    and "score r2 = Num 100"
    unfolding p by blast
  then have s2: "map_sum id score
        (fst (computeHealthReport bare_env (node_project ''pnpm'') pnpm_world)) = Inr (Num 100)"
    by simp
  have t3: "typed_outdated (fst (getOutdated text_env app_dir (node_project ''npm'') bare_world))"
    by code_simp
  have a3: "audited text_env (node_project ''npm'') bare_world = PStr ''x00''"
    by code_simp
  have c3: "to_number text_env (PStr ''x00'') = NaN"
    by code_simp
  from computeHealthReport_score [of text_env "node_project ''npm''" bare_world 0] t3
  obtain r3 where "fst (computeHealthReport text_env (node_project ''npm'') bare_world) = Inr r3"
    and "securityIssues r3 = audited text_env (node_project ''npm'') bare_world"
    and "score r3 = spec_score_num (outdatedCount r3) (majorUpdates r3) (lockfileExists r3)
                       (to_number text_env (securityIssues r3))"
    unfolding p by blast
  with a3 c3 have s3: "map_sum id score
        (fst (computeHealthReport text_env (node_project ''npm'') bare_world)) = Inr NaN"
    by (simp add: spec_score_num_def)
  have t4: "\<not> typed_outdated (fst (getOutdated missing_env app_dir lodash_project npm_world))"
    by code_simp
  from computeHealthReport_score [of missing_env lodash_project npm_world 0] t4
  have s4: "fst (computeHealthReport missing_env lodash_project npm_world) = Inl TypeError"
    unfolding p by blast
  from t1 n1 l1 a1 c1 v1 s1 t2 n2 l2 a2 s2 t3 a3 s3 t4 s4 show ?thesis by simp
qed

text \<open>Three audits with a single count that is not a number: \<open>true\<close> counts as 1, \<open>"2"\<close>
  makes the sum \<open>"200"\<close>, which multiplies as 200, and \<open>"x"\<close> makes it \<open>"x00"\<close>, which is
  not a number.\<close>

lemma audit_count_examples:
  "ebind (count_or_zero (JBool True)) (\<lambda>high. Inr (js_plus (js_plus high (PNum (Num 0))) (PNum (Num 0))))
     = Inr (PNum (Num 1))
   \<and> ebind (count_or_zero (JStr ''2'')) (\<lambda>high. Inr (js_plus (js_plus high (PNum (Num 0))) (PNum (Num 0))))
     = Inr (PStr ''200'')
   \<and> to_number bare_env (PStr ''200'') = Num 200
   \<and> ebind (count_or_zero (JStr ''x'')) (\<lambda>high. Inr (js_plus (js_plus high (PNum (Num 0))) (PNum (Num 0))))
     = Inr (PStr ''x00'')
   \<and> to_number bare_env (PStr ''x00'') = NaN
   \<and> count_or_zero (JObj [(''toString'', JNum 1)]) = Inl TypeError"
  by code_simp

subsection \<open>Outdated entries\<close>

lemma update_subset: "set (AList.update k v xs) \<subseteq> insert (k, v) (set xs)"
  by (induction xs) auto

lemma obj_set_all: "list_all P kvs \<Longrightarrow> P (k, v) \<Longrightarrow> list_all P (obj_set kvs k v)"
  using update_subset [of k v kvs] by (auto simp: obj_set_def list_all_iff)

lemma ebind_Inr: "ebind m f = Inr v \<Longrightarrow> \<exists>x. m = Inr x \<and> f x = Inr v"
  by (cases m) (simp_all add: ebind_def)

lemma differs_entry3: "differs (k, entry3 c w l) = strict_neq c l"
  by (simp add: differs_def entry3_def)

lemma pinned_entry3: "pinned (k, entry3 v v v)"
  by (simp add: pinned_def entry3_def)

lemma cargo_loop_differs:
  "cargo_loop items result = Inr r \<Longrightarrow> list_all differs result \<Longrightarrow> list_all differs r"
proof (induction items arbitrary: result)
  case Nil
  then show ?case by simp
next
  case (Cons dep deps)
  show ?case
  proof (cases "strict_neq (get_prop dep ''project'') (get_prop dep ''latest'')")
    case True
    with Cons.prems(2) have "list_all differs
        (obj_set result (js_to_string (get_prop dep ''name''))
           (entry3 (get_prop dep ''project'') (get_prop dep ''compat'') (get_prop dep ''latest'')))"
      by (intro obj_set_all) (simp_all add: differs_entry3)
    with Cons.IH Cons.prems(1) True show ?thesis by (simp split: if_splits)
  next
    case False
    with Cons.IH Cons.prems show ?thesis by (simp split: if_splits)
  qed
qed

lemma composer_loop_differs:
  "composer_loop items result = Inr r \<Longrightarrow> list_all differs result \<Longrightarrow> list_all differs r"
proof (induction items arbitrary: result)
  case Nil
  then show ?case by simp
next
  case (Cons item items)
  show ?case
  proof (cases "strict_neq (get_prop item ''version'') (get_prop item ''latest'')")
    case True
    with Cons.prems(2) have "list_all differs
        (obj_set result (js_to_string (get_prop item ''name''))
           (entry3 (get_prop item ''version'') (get_prop item ''latest'') (get_prop item ''latest'')))"
      by (intro obj_set_all) (simp_all add: differs_entry3)
    with Cons.IH Cons.prems(1) True show ?thesis by (simp split: if_splits)
  next
    case False
    with Cons.IH Cons.prems show ?thesis by (simp split: if_splits)
  qed
qed

lemma pub_loop_differs:
  "pub_loop items result = Inr r \<Longrightarrow> list_all differs result \<Longrightarrow> list_all differs r"
proof (induction items arbitrary: result)
  case Nil
  then show ?case by simp
next
  case (Cons pkg pkgs)
  let ?cur = "opt_prop (get_prop pkg ''current'') ''version''"
  let ?lat = "opt_prop (get_prop pkg ''latest'') ''version''"
  show ?case
  proof (cases "truthy ?cur \<and> truthy ?lat \<and> strict_neq ?cur ?lat")
    case True
    with Cons.prems(2) have "list_all differs
        (obj_set result (js_to_string (get_prop pkg ''package''))
           (entry3 ?cur (js_or (opt_prop (get_prop pkg ''resolvable'') ''version'') ?lat) ?lat))"
      by (intro obj_set_all) (simp_all add: differs_entry3)
    with Cons.IH Cons.prems(1) True show ?thesis by (simp add: Let_def split: if_splits)
  next
    case False
    with Cons.IH Cons.prems show ?thesis by (auto simp: Let_def split: if_splits)
  qed
qed

lemma swift_loop_pinned:
  "swift_loop items result = Inr r \<Longrightarrow> list_all pinned result \<Longrightarrow> list_all pinned r"
proof (induction items arbitrary: result)
  case Nil
  then show ?case by simp
next
  case (Cons pin pins)
  from Cons.prems(1) obtain nm version where
    step: "(if truthy nm \<and> truthy version
           then swift_loop pins (obj_set result (js_to_string nm) (entry3 version version version))
           else swift_loop pins result) = Inr r"
    by (auto split: if_splits dest!: ebind_Inr)
  show ?case
  proof (cases "truthy nm \<and> truthy version")
    case True
    from Cons.prems(2) have "list_all pinned
        (obj_set result (js_to_string nm) (entry3 version version version))"
      by (intro obj_set_all) (simp_all add: pinned_entry3)
    with Cons.IH step True show ?thesis by simp
  next
    case False
    with Cons.IH Cons.prems(2) step show ?thesis by auto
  qed
qed

lemma catch_empty_cases:
  "fst (catch_empty (x, w)) = Inr v \<Longrightarrow> x = Inr v \<or> v = JObj []"
  by (cases x) (auto simp: catch_empty_def)

lemma mapping_where_empty: "mapping_where P (JObj [])"
  by (simp add: mapping_where_def)

lemma cargo_differs:
  "fst (getOutdatedCargo E p w) = Inr v \<Longrightarrow> mapping_where differs v"
  by (auto simp: getOutdatedCargo_def Let_def mapping_where_def
      split: prod.splits if_splits dest!: catch_empty_cases ebind_Inr cargo_loop_differs)

lemma composer_differs:
  "fst (getOutdatedComposer E p w) = Inr v \<Longrightarrow> mapping_where differs v"
  by (auto simp: getOutdatedComposer_def Let_def mapping_where_def
      split: prod.splits if_splits dest!: catch_empty_cases ebind_Inr composer_loop_differs)

lemma pub_body_differs:
  "fst (pub_body E p w) = Inr v \<Longrightarrow> mapping_where differs v"
  by (auto simp: pub_body_def Let_def mapping_where_def
      split: prod.splits if_splits dest!: catch_empty_cases ebind_Inr pub_loop_differs)

lemma pub_differs:
  "fst (getOutdatedPub E p w) = Inr v \<Longrightarrow> mapping_where differs v"
  by (auto simp: getOutdatedPub_def Let_def mapping_where_empty
      split: prod.splits if_splits dest: pub_body_differs)

lemma swift_pinned:
  "fst (getOutdatedSwift E p w) = Inr v \<Longrightarrow> mapping_where pinned v"
  by (auto simp: getOutdatedSwift_def Let_def mapping_where_def
      split: prod.splits if_splits dest!: catch_empty_cases ebind_Inr swift_loop_pinned)

lemma getOutdated_rust: "ProjectInfo.language info = ''rust'' \<Longrightarrow>
    getOutdated E p info w = getOutdatedCargo E p w"
  by (simp add: getOutdated_def marker_of_def LANGUAGE_MARKERS_def rust_marker_def)

lemma getOutdated_php: "ProjectInfo.language info = ''php'' \<Longrightarrow>
    getOutdated E p info w = getOutdatedComposer E p w"
  by (simp add: getOutdated_def marker_of_def LANGUAGE_MARKERS_def php_marker_def)

lemma getOutdated_dart: "ProjectInfo.language info = ''dart'' \<Longrightarrow>
    getOutdated E p info w = getOutdatedPub E p w"
  by (simp add: getOutdated_def marker_of_def LANGUAGE_MARKERS_def dart_marker_def)

lemma getOutdated_swift: "ProjectInfo.language info = ''swift'' \<Longrightarrow>
    getOutdated E p info w = getOutdatedSwift E p w"
  by (simp add: getOutdated_def marker_of_def LANGUAGE_MARKERS_def swift_marker_def)

text \<open>
  C2 (as amended).  Every entry that the Rust, PHP and Dart/Flutter parsers put into the
  mapping has \<open>current !== latest\<close>: these parsers compare the two before storing an entry.
  Every entry of the Swift parser has \<open>current = wanted = latest\<close>, the pinned version.
  (The Node, Python, Go, Ruby and Kotlin/Java parsers store what the tool lists without
  comparing the two versions.)
\<close>

theorem getOutdated_filtered_entries:
  "fst (getOutdated E p info w) = Inr v \<longrightarrow>
     (ProjectInfo.language info = ''rust'' \<or> ProjectInfo.language info = ''php''
        \<or> ProjectInfo.language info = ''dart'' \<longrightarrow> mapping_where differs v)
     \<and> (ProjectInfo.language info = ''swift'' \<longrightarrow> mapping_where pinned v)"
  using cargo_differs [of E p w v] composer_differs [of E p w v] pub_differs [of E p w v]
    swift_pinned [of E p w v]
  by (auto simp: getOutdated_rust getOutdated_php getOutdated_dart getOutdated_swift)

theorem getOutdated_filtered_entries_witness:
  "fst (getOutdated cargo_env app_dir (plain_project ''rust'') cargo_world)
     = Inr (JObj [(''serde'', entry3 (JStr ''1.0.150'') (JStr ''1.0.197'') (JStr ''1.0.197''))])
   \<and> mapping_where differs
        (JObj [(''serde'', entry3 (JStr ''1.0.150'') (JStr ''1.0.197'') (JStr ''1.0.197''))])
   \<and> fst (getOutdated swift_env app_dir (plain_project ''swift'') swift_world)
     = Inr (JObj [(''alamofire'', entry3 (JStr ''5.8.1'') (JStr ''5.8.1'') (JStr ''5.8.1''))])
   \<and> mapping_where pinned
        (JObj [(''alamofire'', entry3 (JStr ''5.8.1'') (JStr ''5.8.1'') (JStr ''5.8.1''))])"
proof -
  have r: "fst (getOutdated cargo_env app_dir (plain_project ''rust'') cargo_world)
     = Inr (JObj [(''serde'', entry3 (JStr ''1.0.150'') (JStr ''1.0.197'') (JStr ''1.0.197''))])"
    by code_simp
  have s: "fst (getOutdated swift_env app_dir (plain_project ''swift'') swift_world)
     = Inr (JObj [(''alamofire'', entry3 (JStr ''5.8.1'') (JStr ''5.8.1'') (JStr ''5.8.1''))])"
    by code_simp
  have lr: "ProjectInfo.language (plain_project ''rust'') = ''rust''"
    and ls: "ProjectInfo.language (plain_project ''swift'') = ''swift''"
    by (simp_all add: plain_project_def)
  from getOutdated_filtered_entries [of cargo_env app_dir "plain_project ''rust''" cargo_world] r lr
  have "mapping_where differs
        (JObj [(''serde'', entry3 (JStr ''1.0.150'') (JStr ''1.0.197'') (JStr ''1.0.197''))])"
    by simp
  moreover
  from getOutdated_filtered_entries [of swift_env app_dir "plain_project ''swift''" swift_world] s ls
  have "mapping_where pinned
        (JObj [(''alamofire'', entry3 (JStr ''5.8.1'') (JStr ''5.8.1'') (JStr ''5.8.1''))])"
    by simp
  ultimately show ?thesis using r s by simp
qed

text \<open>
  The claim as stated fails for Swift: a package with one resolved pin is reported with an
  entry whose current and latest versions are the same string.
\<close>

theorem getOutdated_swift_counterexample:
  "getProjectInfo swift_env swift_world app_dir = Some (plain_project ''swift'')
   \<and> fst (getOutdated swift_env app_dir (plain_project ''swift'') swift_world)
     = Inr (JObj [(''alamofire'',
              JObj [(''current'', JStr ''5.8.1''), (''wanted'', JStr ''5.8.1''),
                    (''latest'', JStr ''5.8.1'')])])
   \<and> \<not> strict_neq (JStr ''5.8.1'') (JStr ''5.8.1'')"
  by code_simp

subsection \<open>Failure handling of the resolver\<close>

lemma execSync_fst: "fst (execSync E cmd cwd w) = fst (spawn E cmd cwd w)"
  by (simp add: execSync_def split: prod.splits)

lemma cmdExists_missing: "cmdExists E tool w = (b, w') \<Longrightarrow> tool_missing E tool \<Longrightarrow> \<not> b"
  using execSync_fst [of E "''which '' @ tool" None w]
  by (auto simp: cmdExists_def tool_missing_def split: prod.splits)

lemma cmdExists_present: "cmdExists E tool w = (b, w') \<Longrightarrow> tool_present E tool \<Longrightarrow> b"
  using execSync_fst [of E "''which '' @ tool" None w]
  by (auto simp: cmdExists_def tool_present_def split: prod.splits)

lemma run_fails: "run E cmd cwd w = (r, w') \<Longrightarrow> fails_silently E cmd \<Longrightarrow> r = Inl CommandFailed"
  using execSync_fst [of E cmd "Some cwd" w]
  by (auto simp: run_def fails_silently_def silent_def split: prod.splits)

lemma run_blank: "run E cmd cwd w = (Inr raw, w') \<Longrightarrow> prints_blank E cmd \<Longrightarrow> trim raw = []"
  using execSync_fst [of E cmd "Some cwd" w]
  by (auto simp: run_def prints_blank_def split: prod.splits if_splits)

lemma run_stdout:
  "run E cmd cwd w = (Inr raw, w') \<Longrightarrow> raw = stdout (fst (spawn E cmd (Some cwd) w))"
  using execSync_fst [of E cmd "Some cwd" w]
  by (auto simp: run_def split: prod.splits if_splits)

lemma run_no_json:
  "run E cmd cwd w = (Inr raw, w') \<Longrightarrow> prints_no_json E cmd \<Longrightarrow> json_parse E raw = Inl SyntaxError"
  by (auto simp: prints_no_json_def json_parse_def dest!: run_stdout)

lemma npm_fails:
  "fails_silently E (pm @ '' outdated --json'') \<Longrightarrow> fst (getOutdatedNpm E p pm w) = Inr (JObj [])"
  by (auto simp: getOutdatedNpm_def catch_empty_def ebind_def split: prod.splits
      dest: run_fails)

lemma npm_blank:
  "prints_blank E (pm @ '' outdated --json'') \<Longrightarrow> fst (getOutdatedNpm E p pm w) = Inr (JObj [])"
  by (auto simp: getOutdatedNpm_def catch_empty_def ebind_def split: prod.splits sum.splits
      dest: run_blank)

lemma npm_no_json:
  "prints_no_json E (pm @ '' outdated --json'') \<Longrightarrow> fst (getOutdatedNpm E p pm w) = Inr (JObj [])"
  by (auto simp: getOutdatedNpm_def catch_empty_def ebind_def
      split: prod.splits sum.splits dest: run_no_json)

lemma pip_missing:
  "tool_missing E ''pip'' \<Longrightarrow> tool_missing E ''pip3'' \<Longrightarrow> fst (getOutdatedPip E p w) = Inr (JObj [])"
  by (auto simp: getOutdatedPip_def Let_def split: prod.splits dest: cmdExists_missing)

lemma pip_body_fails:
  "fails_silently E ''pip3 list --outdated --format=json'' \<Longrightarrow>
   fails_silently E ''pip list --outdated --format=json'' \<Longrightarrow>
   fst (pip_body E p w) = Inr (JObj [])"
  by (auto simp: pip_body_def Let_def catch_empty_def ebind_def split: prod.splits sum.splits
      dest: run_fails)

lemma pip_fails:
  "fails_silently E ''pip3 list --outdated --format=json'' \<Longrightarrow>
   fails_silently E ''pip list --outdated --format=json'' \<Longrightarrow>
   fst (getOutdatedPip E p w) = Inr (JObj [])"
  by (auto simp: getOutdatedPip_def Let_def pip_body_fails split: prod.splits)

lemma pip_body_blank:
  "prints_blank E ''pip3 list --outdated --format=json'' \<Longrightarrow>
   prints_blank E ''pip list --outdated --format=json'' \<Longrightarrow>
   fst (pip_body E p w) = Inr (JObj [])"
  by (auto simp: pip_body_def Let_def catch_empty_def ebind_def split: prod.splits sum.splits
      dest: run_blank)

lemma pip_blank:
  "prints_blank E ''pip3 list --outdated --format=json'' \<Longrightarrow>
   prints_blank E ''pip list --outdated --format=json'' \<Longrightarrow>
   fst (getOutdatedPip E p w) = Inr (JObj [])"
  by (auto simp: getOutdatedPip_def Let_def pip_body_blank split: prod.splits)

lemma pip_body_no_json:
  "prints_no_json E ''pip3 list --outdated --format=json'' \<Longrightarrow>
   prints_no_json E ''pip list --outdated --format=json'' \<Longrightarrow>
   fst (pip_body E p w) = Inr (JObj [])"
  by (auto simp: pip_body_def Let_def catch_empty_def ebind_def
      split: prod.splits sum.splits dest: run_no_json)

lemma pip_no_json:
  "prints_no_json E ''pip3 list --outdated --format=json'' \<Longrightarrow>
   prints_no_json E ''pip list --outdated --format=json'' \<Longrightarrow>
   fst (getOutdatedPip E p w) = Inr (JObj [])"
  by (auto simp: getOutdatedPip_def Let_def pip_body_no_json split: prod.splits)

lemma cargo_missing: "tool_missing E ''cargo'' \<Longrightarrow> fst (getOutdatedCargo E p w) = Inr (JObj [])"
  by (auto simp: getOutdatedCargo_def Let_def split: prod.splits dest: cmdExists_missing)

lemma cargo_fails:
  "fails_silently E ''cargo outdated --format json'' \<Longrightarrow> fst (getOutdatedCargo E p w) = Inr (JObj [])"
  by (auto simp: getOutdatedCargo_def Let_def catch_empty_def ebind_def
      split: prod.splits sum.splits dest: run_fails)

lemma cargo_blank:
  "prints_blank E ''cargo outdated --format json'' \<Longrightarrow> fst (getOutdatedCargo E p w) = Inr (JObj [])"
  by (auto simp: getOutdatedCargo_def Let_def catch_empty_def ebind_def
      split: prod.splits sum.splits dest: run_blank)

lemma cargo_no_json:
  "prints_no_json E ''cargo outdated --format json'' \<Longrightarrow> fst (getOutdatedCargo E p w) = Inr (JObj [])"
  by (auto simp: getOutdatedCargo_def Let_def catch_empty_def ebind_def
      split: prod.splits sum.splits dest: run_no_json)

lemma go_missing: "tool_missing E ''go'' \<Longrightarrow> fst (getOutdatedGo E p w) = Inr (JObj [])"
  by (auto simp: getOutdatedGo_def Let_def split: prod.splits dest: cmdExists_missing)

lemma go_fails:
  "fails_silently E ''go list -m -u -json all'' \<Longrightarrow> fst (getOutdatedGo E p w) = Inr (JObj [])"
  by (auto simp: getOutdatedGo_def Let_def catch_empty_def ebind_def
      split: prod.splits sum.splits dest: run_fails)

lemma go_blank:
  "prints_blank E ''go list -m -u -json all'' \<Longrightarrow> fst (getOutdatedGo E p w) = Inr (JObj [])"
  by (auto simp: getOutdatedGo_def Let_def catch_empty_def ebind_def
      split: prod.splits sum.splits dest: run_blank)

lemma composer_missing:
  "tool_missing E ''composer'' \<Longrightarrow> fst (getOutdatedComposer E p w) = Inr (JObj [])"
  by (auto simp: getOutdatedComposer_def Let_def split: prod.splits dest: cmdExists_missing)

lemma composer_fails:
  "fails_silently E ''composer outdated --format=json --direct'' \<Longrightarrow>
   fst (getOutdatedComposer E p w) = Inr (JObj [])"
  by (auto simp: getOutdatedComposer_def Let_def catch_empty_def ebind_def
      split: prod.splits sum.splits dest: run_fails)

lemma composer_blank:
  "prints_blank E ''composer outdated --format=json --direct'' \<Longrightarrow>
   fst (getOutdatedComposer E p w) = Inr (JObj [])"
  by (auto simp: getOutdatedComposer_def Let_def catch_empty_def ebind_def
      split: prod.splits sum.splits dest: run_blank)

lemma composer_no_json:
  "prints_no_json E ''composer outdated --format=json --direct'' \<Longrightarrow>
   fst (getOutdatedComposer E p w) = Inr (JObj [])"
  by (auto simp: getOutdatedComposer_def Let_def catch_empty_def ebind_def
      split: prod.splits sum.splits dest: run_no_json)

lemma gem_missing: "tool_missing E ''bundle'' \<Longrightarrow> fst (getOutdatedGem E p w) = Inr (JObj [])"
  by (auto simp: getOutdatedGem_def Let_def split: prod.splits dest: cmdExists_missing)

lemma gem_fails:
  "fails_silently E ''bundle outdated --parseable'' \<Longrightarrow> fst (getOutdatedGem E p w) = Inr (JObj [])"
  by (auto simp: getOutdatedGem_def Let_def catch_empty_def ebind_def
      split: prod.splits sum.splits dest: run_fails)

lemma gem_blank:
  "prints_blank E ''bundle outdated --parseable'' \<Longrightarrow> fst (getOutdatedGem E p w) = Inr (JObj [])"
  by (auto simp: getOutdatedGem_def Let_def catch_empty_def ebind_def
      split: prod.splits sum.splits dest: run_blank)

lemma foldl_gem_none:
  "list_all (\<lambda>line. first_match gem_match_at line = None) ls \<Longrightarrow> foldl gem_line result ls = result"
  by (induction ls arbitrary: result) (simp_all add: gem_line_def)

lemma gem_no_line:
  "prints_no_gem_line E ''bundle outdated --parseable'' \<Longrightarrow>
   fst (getOutdatedGem E p w) = Inr (JObj [])"
  by (auto simp: getOutdatedGem_def Let_def catch_empty_def ebind_def prints_no_gem_line_def
      foldl_gem_none split: prod.splits sum.splits dest!: run_stdout)

lemma pub_missing:
  "tool_missing E ''dart'' \<Longrightarrow> tool_missing E ''flutter'' \<Longrightarrow> fst (getOutdatedPub E p w) = Inr (JObj [])"
  by (auto simp: getOutdatedPub_def Let_def split: prod.splits dest: cmdExists_missing)

lemma pub_body_fails:
  "fails_silently E ''flutter pub outdated --json'' \<Longrightarrow>
   fails_silently E ''dart pub outdated --json'' \<Longrightarrow>
   fst (pub_body E p w) = Inr (JObj [])"
  by (auto simp: pub_body_def Let_def catch_empty_def ebind_def split: prod.splits sum.splits
      dest: run_fails)

lemma pub_fails:
  "fails_silently E ''flutter pub outdated --json'' \<Longrightarrow>
   fails_silently E ''dart pub outdated --json'' \<Longrightarrow>
   fst (getOutdatedPub E p w) = Inr (JObj [])"
  by (auto simp: getOutdatedPub_def Let_def pub_body_fails split: prod.splits)

lemma pub_body_blank:
  "prints_blank E ''flutter pub outdated --json'' \<Longrightarrow>
   prints_blank E ''dart pub outdated --json'' \<Longrightarrow>
   fst (pub_body E p w) = Inr (JObj [])"
  by (auto simp: pub_body_def Let_def catch_empty_def ebind_def split: prod.splits sum.splits
      dest: run_blank)

lemma pub_blank:
  "prints_blank E ''flutter pub outdated --json'' \<Longrightarrow>
   prints_blank E ''dart pub outdated --json'' \<Longrightarrow>
   fst (getOutdatedPub E p w) = Inr (JObj [])"
  by (auto simp: getOutdatedPub_def Let_def pub_body_blank split: prod.splits)

lemma pub_body_no_json:
  "prints_no_json E ''flutter pub outdated --json'' \<Longrightarrow>
   prints_no_json E ''dart pub outdated --json'' \<Longrightarrow>
   fst (pub_body E p w) = Inr (JObj [])"
  by (auto simp: pub_body_def Let_def catch_empty_def ebind_def
      split: prod.splits sum.splits dest: run_no_json)

lemma pub_no_json:
  "prints_no_json E ''flutter pub outdated --json'' \<Longrightarrow>
   prints_no_json E ''dart pub outdated --json'' \<Longrightarrow>
   fst (getOutdatedPub E p w) = Inr (JObj [])"
  by (auto simp: getOutdatedPub_def Let_def pub_body_no_json split: prod.splits)

lemma swift_missing: "tool_missing E ''swift'' \<Longrightarrow> fst (getOutdatedSwift E p w) = Inr (JObj [])"
  by (auto simp: getOutdatedSwift_def Let_def split: prod.splits dest: cmdExists_missing)

lemma gradle_missing:
  "tool_missing E ''gradle'' \<Longrightarrow> \<not> existsSync w (path_join p ''gradlew'') \<Longrightarrow>
   fst (getOutdatedGradle E p w) = Inr (JObj [])"
  by (auto simp: getOutdatedGradle_def Let_def split: prod.splits dest: cmdExists_missing)

lemma gradle_body_fails:
  "fails_silently E ''./gradlew dependencyUpdates -Drevision=release --output-formatter json'' \<Longrightarrow>
   fails_silently E ''gradle dependencyUpdates -Drevision=release --output-formatter json'' \<Longrightarrow>
   fst (gradle_body E p w) = Inr (JObj [])"
  by (auto simp: gradle_body_def Let_def catch_empty_def ebind_def split: prod.splits sum.splits
      dest: run_fails)

lemma gradle_fails:
  "fails_silently E ''./gradlew dependencyUpdates -Drevision=release --output-formatter json'' \<Longrightarrow>
   fails_silently E ''gradle dependencyUpdates -Drevision=release --output-formatter json'' \<Longrightarrow>
   fst (getOutdatedGradle E p w) = Inr (JObj [])"
  by (auto simp: getOutdatedGradle_def Let_def gradle_body_fails split: prod.splits)

lemma parse_tag:
  "marker_of lang = Some m \<Longrightarrow>
     (lang = ''node'' \<and> parseOutdated m = ''npm'') \<or> (lang = ''python'' \<and> parseOutdated m = ''pip'')
     \<or> (lang = ''rust'' \<and> parseOutdated m = ''cargo'') \<or> (lang = ''go'' \<and> parseOutdated m = ''go'')
     \<or> (lang = ''php'' \<and> parseOutdated m = ''composer'') \<or> (lang = ''ruby'' \<and> parseOutdated m = ''gem'')
     \<or> (lang = ''dart'' \<and> parseOutdated m = ''pub'') \<or> (lang = ''swift'' \<and> parseOutdated m = ''swift'')
     \<or> (lang = ''kotlin'' \<and> parseOutdated m = ''gradle'')"
  by (auto simp: marker_of_def LANGUAGE_MARKERS_def node_marker_def python_marker_def
      rust_marker_def go_marker_def php_marker_def ruby_marker_def dart_marker_def
      swift_marker_def kotlin_marker_def split: if_splits)

lemma getOutdated_missing:
  assumes "checked_tools info \<noteq> []" and "list_all (tool_missing E) (checked_tools info)"
    and "ProjectInfo.language info = ''kotlin'' \<longrightarrow> \<not> existsSync w (path_join p ''gradlew'')"
  shows "fst (getOutdated E p info w) = Inr (JObj [])"
proof (cases "marker_of (ProjectInfo.language info)")
  case None
  then show ?thesis by (simp add: getOutdated_def)
next
  case (Some m)
  from parse_tag [OF Some] assms show ?thesis
    by (auto simp: getOutdated_def Some checked_tools_def pip_missing cargo_missing go_missing
        composer_missing gem_missing pub_missing swift_missing gradle_missing)
qed

lemma getOutdated_fails:
  assumes "listing_commands info \<noteq> []" and "list_all (fails_silently E) (listing_commands info)"
  shows "fst (getOutdated E p info w) = Inr (JObj [])"
proof (cases "marker_of (ProjectInfo.language info)")
  case None
  then show ?thesis by (simp add: getOutdated_def)
next
  case (Some m)
  from parse_tag [OF Some] assms show ?thesis
    by (auto simp: getOutdated_def Some listing_commands_def npm_fails pip_fails cargo_fails
        go_fails composer_fails gem_fails pub_fails gradle_fails)
qed

lemma getOutdated_blank:
  assumes "listing_commands info \<noteq> []" and "list_all (prints_blank E) (listing_commands info)"
    and "ProjectInfo.language info \<noteq> ''kotlin''"
  shows "fst (getOutdated E p info w) = Inr (JObj [])"
proof (cases "marker_of (ProjectInfo.language info)")
  case None
  then show ?thesis by (simp add: getOutdated_def)
next
  case (Some m)
  from parse_tag [OF Some] assms show ?thesis
    by (auto simp: getOutdated_def Some listing_commands_def npm_blank pip_blank cargo_blank
        go_blank composer_blank gem_blank pub_blank)
qed

lemma getOutdated_no_json:
  assumes "list_all (prints_no_json E) (listing_commands info)"
    and "ProjectInfo.language info = ''node'' \<or> ProjectInfo.language info = ''python''
      \<or> ProjectInfo.language info = ''rust'' \<or> ProjectInfo.language info = ''php''
      \<or> ProjectInfo.language info = ''dart''"
  shows "fst (getOutdated E p info w) = Inr (JObj [])"
proof (cases "marker_of (ProjectInfo.language info)")
  case None
  then show ?thesis by (simp add: getOutdated_def)
next
  case (Some m)
  from parse_tag [OF Some] assms show ?thesis
    by (auto simp: getOutdated_def Some listing_commands_def npm_no_json pip_no_json
        cargo_no_json composer_no_json pub_no_json)
qed

lemma getOutdated_no_gem_line:
  assumes "prints_no_gem_line E ''bundle outdated --parseable''"
    and "ProjectInfo.language info = ''ruby''"
  shows "fst (getOutdated E p info w) = Inr (JObj [])"
  using assms
  by (simp add: getOutdated_def marker_of_def LANGUAGE_MARKERS_def ruby_marker_def gem_no_line)


lemma split_from_body:
  "one_object b \<Longrightarrow>
   split_from go_sep acc (b @ go_sep @ rest) = (acc @ b) # split_from go_sep [] rest"
proof (induction b arbitrary: acc)
  case Nil
  show ?case by (simp add: go_sep_def)
next
  case (Cons c cs)
  from Cons.prems have no: "take (length go_sep) (c # cs @ go_sep) \<noteq> go_sep"
    and rest: "one_object cs"
    by (simp_all add: starts_with_def)
  have "take (length go_sep) ((c # cs @ go_sep) @ rest) = take (length go_sep) (c # cs @ go_sep)"
    unfolding take_append by simp
  with no have "take (length go_sep) (c # cs @ go_sep @ rest) \<noteq> go_sep"
    by simp
  then have "split_from go_sep acc ((c # cs) @ go_sep @ rest)
      = split_from go_sep (acc @ [c]) (cs @ go_sep @ rest)"
    by simp
  with Cons.IH [OF rest, of "acc @ [c]"] show ?case by simp
qed

lemma split_listing:
  "list_all one_object bs \<Longrightarrow> split_from go_sep [] (go_listing bs) = bs @ [[]]"
proof (induction bs)
  case Nil
  show ?case by (simp add: go_listing_def)
next
  case (Cons b bs)
  then have "one_object b" and "split_from go_sep [] (go_listing bs) = bs @ [[]]"
    by simp_all
  with split_from_body [of b "[]" "go_listing bs"] show ?case
    by (simp add: go_listing_def)
qed

lemma trim_empty: "(trim s = []) = (\<forall>c\<in>set s. is_space c)"
proof
  assume "trim s = []"
  then have "dropWhile is_space (rev (dropWhile is_space s)) = []"
    by (simp add: trim_def)
  then have all: "\<forall>c\<in>set (dropWhile is_space s). is_space c"
    by (simp add: dropWhile_eq_Nil_conv)
  have "dropWhile is_space s = []"
  proof (rule ccontr)
    assume ne: "dropWhile is_space s \<noteq> []"
    then have "\<not> is_space (hd (dropWhile is_space s))" by (rule hd_dropWhile)
    moreover from ne have "hd (dropWhile is_space s) \<in> set (dropWhile is_space s)" by simp
    ultimately show False using all by blast
  qed
  then show "\<forall>c\<in>set s. is_space c" by (simp add: dropWhile_eq_Nil_conv)
next
  assume "\<forall>c\<in>set s. is_space c"
  then have "dropWhile is_space s = []" by (auto simp: dropWhile_eq_Nil_conv)
  then show "trim s = []" by (simp add: trim_def del: dropWhile_eq_Nil_conv)
qed

lemma go_listing_empty: "(go_listing bs = []) = (bs = [])"
  by (cases bs) (simp_all add: go_listing_def go_sep_def)

lemma trim_listing: "(trim (go_listing bs) = []) = (bs = [])"
proof (cases bs)
  case Nil
  then show ?thesis by (simp add: go_listing_def trim_def)
next
  case (Cons b bs')
  have "CHR ''}'' \<in> set (go_listing (b # bs'))" by (simp add: go_listing_def go_sep_def)
  moreover have "\<not> is_space CHR ''}''" by (simp add: is_space_def)
  ultimately have "trim (go_listing (b # bs')) \<noteq> []"
    unfolding trim_empty by blast
  with Cons show ?thesis by simp
qed

lemma go_objects_listing:
  "list_all one_object bs \<Longrightarrow> go_objects (go_listing bs) = filter (\<lambda>s. trim s \<noteq> []) bs"
proof -
  assume "list_all one_object bs"
  from split_listing [OF this]
  have "js_split [CHR 0x0A, CHR ''}'', CHR 0x0A] (go_listing bs) = bs @ [[]]"
    by (simp add: js_split_def go_sep_def)
  then show ?thesis by (simp add: go_objects_def trim_def)
qed

lemma close_brace_open: "open_ended b \<Longrightarrow> close_brace b = go_object b"
  by (simp add: close_brace_def open_ended_def go_object_def)

lemma go_fragment_skip:
  "open_ended b \<Longrightarrow> JSON_parse E (go_object b) = None \<Longrightarrow> go_fragment E result b = result"
  by (simp add: go_fragment_def go_entry_def close_brace_open json_parse_def ebind_def)

lemma go_fragment_good:
  assumes "open_ended b" and "JSON_parse E (go_object b) = Some parsed"
    and "truthy (get_prop parsed ''Update'')" and "truthy (get_prop parsed ''Version'')"
    and "get_prop parsed ''Path'' = JStr pth"
  shows "go_fragment E result b =
    obj_set result (js_join ''/'' (last_two (js_split ''/'' pth)))
      (entry3 (get_prop parsed ''Version'') (get_prop (get_prop parsed ''Update'') ''Version'')
         (get_prop (get_prop parsed ''Update'') ''Version''))"
proof -
  from assms(3) have "\<not> nullish parsed" by (cases parsed) auto
  with assms show ?thesis
    by (simp add: go_fragment_def go_entry_def close_brace_open json_parse_def ebind_def
        js_get_def)
qed

lemma foldl_go_skip:
  "list_all open_ended bs \<Longrightarrow>
   foldl (go_fragment E) result (filter (\<lambda>s. trim s \<noteq> []) bs)
     = foldl (go_fragment E) result (filter (well_formed E) bs)"
proof (induction bs arbitrary: result)
  case Nil
  show ?case by simp
next
  case (Cons b bs)
  then have o: "open_ended b" and rest: "list_all open_ended bs" by simp_all
  show ?case
  proof (cases "trim b = []")
    case True
    with Cons.IH [OF rest] show ?thesis by (simp add: well_formed_def)
  next
    case False
    show ?thesis
    proof (cases "JSON_parse E (go_object b)")
      case None
      with False o Cons.IH [OF rest] show ?thesis
        by (simp add: well_formed_def go_fragment_skip)
    next
      case (Some parsed)
      with False Cons.IH [OF rest] show ?thesis by (simp add: well_formed_def)
    qed
  qed
qed

lemma go_payload:
  assumes present: "tool_present E ''go''"
    and out: "prints E ''go list -m -u -json all'' (go_listing bs)"
    and one: "list_all one_object bs" and opn: "list_all open_ended bs"
  shows "fst (getOutdatedGo E p w)
    = Inr (JObj (foldl (go_fragment E) [] (filter (well_formed E) bs)))"
proof -
  obtain b w1 where c: "cmdExists E ''go'' w = (b, w1)"
    by (cases "cmdExists E ''go'' w")
  from cmdExists_present [OF c present] have b: "b" .
  obtain raw w2 where r: "run E ''go list -m -u -json all'' p w1 = (raw, w2)"
    by (cases "run E ''go list -m -u -json all'' p w1")
  show ?thesis
  proof (cases raw)
    case (Inl e)
    with r out have "go_listing bs = []"
      using execSync_fst [of E "''go list -m -u -json all''" "Some p" w1]
      by (auto simp: run_def prints_def split: prod.splits if_splits)
    then have "bs = []" by (simp add: go_listing_empty)
    with c b r Inl show ?thesis
      by (simp add: getOutdatedGo_def catch_empty_def ebind_def)
  next
    case (Inr listing)
    with r out have t: "listing = go_listing bs"
      by (auto simp: prints_def dest: run_stdout)
    show ?thesis
    proof (cases "bs = []")
      case True
      with c b r Inr t show ?thesis
        by (simp add: getOutdatedGo_def catch_empty_def ebind_def trim_listing)
    next
      case False
      with c b r Inr t go_objects_listing [OF one] foldl_go_skip [OF opn, of E "[]"]
      show ?thesis
        by (simp add: getOutdatedGo_def catch_empty_def ebind_def trim_listing)
    qed
  qed
qed

lemma getOutdated_go_payload:
  assumes "ProjectInfo.language info = ''go''" and "tool_present E ''go''"
    and "prints E ''go list -m -u -json all'' (go_listing bs)"
    and "list_all one_object bs" and "list_all open_ended bs"
  shows "fst (getOutdated E p info w)
    = Inr (JObj (foldl (go_fragment E) [] (filter (well_formed E) bs)))"
  using assms(1) go_payload [OF assms(2-5), of p w]
  by (simp add: getOutdated_def marker_of_def LANGUAGE_MARKERS_def go_marker_def)


text \<open>
  C5 (as amended).  \<open>getOutdated\<close> never raises, whatever the external tooling does: it
  always returns a value.  It returns the empty mapping
  \<^item> when \<open>which\<close> finds none of the binaries the project's parser looks for (for a Gradle
    project, when there is no \<open>gradlew\<close> either);
  \<^item> when the listing command fails without output, because the binary is missing or
    because it exits non-zero having printed nothing;
  \<^item> when the listing command prints only white space (for every parser that reads the
    command's output, that is all but Swift and Kotlin/Java);
  \<^item> when what the listing command prints does not parse as JSON, for the Node, Python,
    Rust, PHP and Dart parsers, and, for Ruby, when no line has the expected shape.

  Each condition is on the project's own command lines; every other command line may
  succeed.  (A command that exits non-zero but has printed something is parsed like a
  successful one.)

  In the Go parser, for a listing of module objects none of which ends in a nested object,
  the result is built from the well-formed objects alone, the malformed ones being
  skipped one by one; and each well-formed object with a truthy \<open>Update\<close> and \<open>Version\<close> and
  a string \<open>Path\<close> stores its entry.
\<close>

theorem getOutdated_never_raises:
  "(\<exists>v. fst (getOutdated E p info w) = Inr v)
   \<and> (checked_tools info \<noteq> [] \<and> list_all (tool_missing E) (checked_tools info)
        \<and> (ProjectInfo.language info = ''kotlin'' \<longrightarrow> \<not> existsSync w (path_join p ''gradlew''))
        \<longrightarrow> fst (getOutdated E p info w) = Inr (JObj []))
   \<and> (listing_commands info \<noteq> [] \<and> list_all (fails_silently E) (listing_commands info)
        \<longrightarrow> fst (getOutdated E p info w) = Inr (JObj []))
   \<and> (listing_commands info \<noteq> [] \<and> list_all (prints_blank E) (listing_commands info)
        \<and> ProjectInfo.language info \<noteq> ''kotlin''
        \<longrightarrow> fst (getOutdated E p info w) = Inr (JObj []))
   \<and> (list_all (prints_no_json E) (listing_commands info)
        \<and> (ProjectInfo.language info = ''node'' \<or> ProjectInfo.language info = ''python''
           \<or> ProjectInfo.language info = ''rust'' \<or> ProjectInfo.language info = ''php''
           \<or> ProjectInfo.language info = ''dart'')
        \<longrightarrow> fst (getOutdated E p info w) = Inr (JObj []))
   \<and> (prints_no_gem_line E ''bundle outdated --parseable'' \<and> ProjectInfo.language info = ''ruby''
        \<longrightarrow> fst (getOutdated E p info w) = Inr (JObj []))
   \<and> (ProjectInfo.language info = ''go'' \<and> tool_present E ''go''
        \<and> prints E ''go list -m -u -json all'' (go_listing bodies)
        \<and> list_all one_object bodies \<and> list_all open_ended bodies
        \<longrightarrow> fst (getOutdated E p info w)
            = Inr (JObj (foldl (go_fragment E) [] (filter (well_formed E) bodies))))
   \<and> (open_ended body \<and> JSON_parse E (go_object body) = Some parsed
        \<and> truthy (get_prop parsed ''Update'') \<and> truthy (get_prop parsed ''Version'')
        \<and> get_prop parsed ''Path'' = JStr pth
        \<longrightarrow> go_fragment E result body =
            obj_set result (js_join ''/'' (last_two (js_split ''/'' pth)))
              (entry3 (get_prop parsed ''Version'')
                 (get_prop (get_prop parsed ''Update'') ''Version'')
                 (get_prop (get_prop parsed ''Update'') ''Version'')))"
proof -
  from getOutdated_total [of E p info w] getOutdated_missing [of info E w p]
    getOutdated_fails [of info E p w]
    getOutdated_blank [of info E p w] getOutdated_no_json [of E info p w]
    getOutdated_no_gem_line [of E info p w] getOutdated_go_payload [of info E bodies p w]
    go_fragment_good [of body E parsed pth result]
  show ?thesis by blast
qed

theorem getOutdated_never_raises_witness:
  "tool_present swift_env ''swift''
   \<and> checked_tools (plain_project ''python'') = [''pip'', ''pip3'']
   \<and> list_all (tool_missing swift_env) (checked_tools (plain_project ''python''))
   \<and> fst (getOutdated swift_env app_dir (plain_project ''python'') bare_world) = Inr (JObj [])
   \<and> tool_present failing_env ''go''
   \<and> listing_commands (plain_project ''go'') = [''go list -m -u -json all'']
   \<and> list_all (fails_silently failing_env) (listing_commands (plain_project ''go''))
   \<and> fst (getOutdated failing_env app_dir (plain_project ''go'') go_world) = Inr (JObj [])
   \<and> tool_present blank_env ''pip''
   \<and> list_all (prints_blank blank_env) (listing_commands (plain_project ''python''))
   \<and> fst (getOutdated blank_env app_dir (plain_project ''python'') bare_world) = Inr (JObj [])
   \<and> list_all (prints_no_json noisy_env) (listing_commands (plain_project ''node''))
   \<and> fst (getOutdated noisy_env app_dir (plain_project ''node'') bare_world) = Inr (JObj [])
   \<and> tool_present noisy_env ''bundle''
   \<and> prints_no_gem_line noisy_env ''bundle outdated --parseable''
   \<and> fst (getOutdated noisy_env app_dir (plain_project ''ruby'') bare_world) = Inr (JObj [])
   \<and> tool_present go_env ''go''
   \<and> prints go_env ''go list -m -u -json all'' (go_listing [go_bad, go_good])
   \<and> list_all one_object [go_bad, go_good] \<and> list_all open_ended [go_bad, go_good]
   \<and> \<not> well_formed go_env go_bad \<and> well_formed go_env go_good
   \<and> JSON_parse go_env (go_object go_good) = Some go_good_value
   \<and> go_fragment go_env [] go_good
       = [(''pkg/errors'', entry3 (JStr ''v0.8.0'') (JStr ''v0.9.1'') (JStr ''v0.9.1''))]
   \<and> fst (getOutdated go_env app_dir (plain_project ''go'') go_world)
       = Inr (JObj [(''pkg/errors'', entry3 (JStr ''v0.8.0'') (JStr ''v0.9.1'') (JStr ''v0.9.1''))])"
proof -
  have langs: "ProjectInfo.language (plain_project lang) = lang" for lang
    by (simp add: plain_project_def)
  have tools: "checked_tools (plain_project ''python'') = [''pip'', ''pip3'']"
    by code_simp
  have cmds: "listing_commands (plain_project ''go'') = [''go list -m -u -json all'']"
    "listing_commands (plain_project ''python'')
       = [''pip3 list --outdated --format=json'', ''pip list --outdated --format=json'']"
    "listing_commands (plain_project ''node'') = [''npm outdated --json'']"
    by code_simp+
  have which: "starts_with ''which '' (''which '' @ tool)" for tool
    by (simp add: starts_with_def)
  have present: "tool_present swift_env ''swift''" "tool_present failing_env ''go''"
    "tool_present blank_env ''pip''" "tool_present noisy_env ''bundle''"
    "tool_present go_env ''go''"
    using which
    by (simp_all add: tool_present_def swift_env_def failing_env_def blank_env_def noisy_env_def
        go_env_def installed_env_def demo_env_def found_def)
  have m: "list_all (tool_missing swift_env) (checked_tools (plain_project ''python''))"
    unfolding tools by (simp add: tool_missing_def swift_env_def demo_env_def silent_def)
  have nw: "\<not> starts_with ''which '' ''go list -m -u -json all''"
    "\<not> starts_with ''which '' ''pip3 list --outdated --format=json''"
    "\<not> starts_with ''which '' ''pip list --outdated --format=json''"
    "\<not> starts_with ''which '' ''npm outdated --json''"
    "\<not> starts_with ''which '' ''bundle outdated --parseable''"
    by code_simp+
  have f: "list_all (fails_silently failing_env) (listing_commands (plain_project ''go''))"
    unfolding cmds using nw
    by (simp add: fails_silently_def failing_env_def installed_env_def demo_env_def)
  have nl: "trim [CHR 0x0A] = []"
    by code_simp
  have b: "list_all (prints_blank blank_env) (listing_commands (plain_project ''python''))"
    unfolding cmds using nw nl
    by (simp add: prints_blank_def blank_env_def installed_env_def demo_env_def)
  have noise: "demo_parse ''error: registry unreachable'' = None"
    by code_simp
  have lines: "list_all (\<lambda>line. first_match gem_match_at line = None)
      (js_split [CHR 0x0A] ''error: registry unreachable'')"
    by code_simp
  have u: "list_all (prints_no_json noisy_env) (listing_commands (plain_project ''node''))"
    unfolding cmds using nw noise
    by (simp add: prints_no_json_def noisy_env_def installed_env_def demo_env_def)
  have g: "prints_no_gem_line noisy_env ''bundle outdated --parseable''"
    using nw lines
    by (simp add: prints_no_gem_line_def noisy_env_def installed_env_def demo_env_def)
  have pr: "prints go_env ''go list -m -u -json all'' (go_listing [go_bad, go_good])"
    by (simp add: prints_def go_env_def demo_env_def go_raw_def)
  have shape: "list_all one_object [go_bad, go_good]" "list_all open_ended [go_bad, go_good]"
    by code_simp+
  have bad: "\<not> well_formed go_env go_bad" and good: "well_formed go_env go_good"
    by code_simp+
  have parsed: "JSON_parse go_env (go_object go_good) = Some go_good_value"
    by code_simp
  have fields: "truthy (get_prop go_good_value ''Update'')" "truthy (get_prop go_good_value ''Version'')"
    "get_prop go_good_value ''Path'' = JStr ''github.com/pkg/errors''"
    by code_simp+
  have entry: "obj_set [] (js_join ''/'' (last_two (js_split ''/'' ''github.com/pkg/errors'')))
          (entry3 (get_prop go_good_value ''Version'')
             (get_prop (get_prop go_good_value ''Update'') ''Version'')
             (get_prop (get_prop go_good_value ''Update'') ''Version''))
       = [(''pkg/errors'', entry3 (JStr ''v0.8.0'') (JStr ''v0.9.1'') (JStr ''v0.9.1''))]"
    by code_simp
  note t1 = getOutdated_never_raises [of swift_env app_dir "plain_project ''python''" bare_world]
  note t2 = getOutdated_never_raises [of failing_env app_dir "plain_project ''go''" go_world]
  note t3 = getOutdated_never_raises [of blank_env app_dir "plain_project ''python''" bare_world]
  note t4 = getOutdated_never_raises [of noisy_env app_dir "plain_project ''node''" bare_world]
  note t5 = getOutdated_never_raises [of noisy_env app_dir "plain_project ''ruby''" bare_world]
  note t6 = getOutdated_never_raises [of go_env app_dir "plain_project ''go''" go_world
      "[go_bad, go_good]" go_good go_good_value "''github.com/pkg/errors''" "[]"]
  from t1 m tools langs have c1:
    "fst (getOutdated swift_env app_dir (plain_project ''python'') bare_world) = Inr (JObj [])"
    by simp
  from t2 f cmds have c2:
    "fst (getOutdated failing_env app_dir (plain_project ''go'') go_world) = Inr (JObj [])"
    by simp
  from t3 b cmds langs have c3:
    "fst (getOutdated blank_env app_dir (plain_project ''python'') bare_world) = Inr (JObj [])"
    by simp
  from t4 u langs have c4:
    "fst (getOutdated noisy_env app_dir (plain_project ''node'') bare_world) = Inr (JObj [])"
    by simp
  from t5 g langs have c5:
    "fst (getOutdated noisy_env app_dir (plain_project ''ruby'') bare_world) = Inr (JObj [])"
    by simp
  from t6 parsed fields shape entry have c6: "go_fragment go_env [] go_good
       = [(''pkg/errors'', entry3 (JStr ''v0.8.0'') (JStr ''v0.9.1'') (JStr ''v0.9.1''))]"
    by simp
  from t6 present pr shape langs have "fst (getOutdated go_env app_dir (plain_project ''go'') go_world)
       = Inr (JObj (foldl (go_fragment go_env) [] (filter (well_formed go_env) [go_bad, go_good])))"
    by simp
  with bad good c6 have c7: "fst (getOutdated go_env app_dir (plain_project ''go'') go_world)
       = Inr (JObj [(''pkg/errors'', entry3 (JStr ''v0.8.0'') (JStr ''v0.9.1'') (JStr ''v0.9.1''))])"
    by simp
  from present tools m c1 cmds f c2 b c3 u c4 g c5 pr shape bad good parsed c6 c7
  show ?thesis by simp
qed

text \<open>
  The statement above leaves out a module object whose last member is a nested object, as
  when \<open>Update\<close> comes last.  Its body already ends in a brace, so the parser restores
  none, the text it is given does not parse, and the object is dropped although it is
  well-formed and carries an update.
\<close>

lemma getOutdatedGo_nested_tail:
  "one_object go_tail \<and> \<not> open_ended go_tail
   \<and> JSON_parse go_tail_env (go_object go_tail) = Some go_tail_value
   \<and> truthy (get_prop go_tail_value ''Update'') \<and> truthy (get_prop go_tail_value ''Version'')
   \<and> close_brace go_tail = go_tail
   \<and> fst (getOutdated go_tail_env app_dir (plain_project ''go'') go_world) = Inr (JObj [])"
  by code_simp


text \<open>
  The claim as stated fails for a non-zero exit: \<open>pnpm outdated\<close> exits with status 1 and
  prints its listing, \<open>run\<close> returns that output, and the mapping is not empty.
\<close>

theorem getOutdated_nonzero_exit_counterexample:
  "getProjectInfo pnpm_env pnpm_world app_dir = Some (node_project ''pnpm'')
   \<and> \<not> exit_ok (fst (spawn pnpm_env ''pnpm outdated --json'' (Some app_dir) pnpm_world))
   \<and> fst (getOutdated pnpm_env app_dir (node_project ''pnpm'') pnpm_world)
      = Inr (JObj [(''vite'', JObj [(''current'', JStr ''4.1.0''), (''wanted'', JStr ''4.5.3''),
                                   (''latest'', JStr ''5.0.0'')])])"
  by code_simp

lemma execSync_trace: "trace (snd (execSync E cmd cwd w)) = trace w @ [cmd]"
  by (simp add: execSync_def split: prod.splits)

lemma run_trace: "trace (snd (run E cmd cwd w)) = trace w @ [cmd]"
  using execSync_trace [of E cmd "Some cwd" w]
  by (cases "execSync E cmd (Some cwd) w") (simp add: run_def)

lemma catch_empty_snd: "snd (catch_empty r) = snd r"
  by (simp add: catch_empty_def split: sum.splits)

lemma npm_trace: "trace (snd (getOutdatedNpm E p pm w)) = trace w @ [pm @ '' outdated --json'']"
  using run_trace [of E "pm @ '' outdated --json''" p w]
  by (cases "run E (pm @ '' outdated --json'') p w") (simp add: getOutdatedNpm_def catch_empty_snd)

text \<open>
  C8.  Whatever the environment, the one command line the Node parser hands to the shell
  is the listing command itself: it has no \<open>which\<close> check.  With no tool installed, the
  eight other parsers stop after their \<open>which\<close> checks, while the Node parser still runs
  \<open>npm outdated --json\<close> (the failure is then caught and the mapping is empty).
\<close>

theorem getOutdatedNpm_no_precheck:
  "trace (snd (getOutdatedNpm E p pm w)) = trace w @ [pm @ '' outdated --json'']
   \<and> all_silent bare_env
   \<and> getProjectInfo bare_env bare_world app_dir = Some (node_project ''npm'')
   \<and> fst (getOutdated bare_env app_dir (node_project ''npm'') bare_world) = Inr (JObj [])
   \<and> trace (snd (getOutdated bare_env app_dir (node_project ''npm'') bare_world))
      = [''npm outdated --json'']
   \<and> trace (snd (getOutdated bare_env app_dir (plain_project ''python'') bare_world))
      = [''which pip'', ''which pip3'']
   \<and> trace (snd (getOutdated bare_env app_dir (plain_project ''rust'') bare_world)) = [''which cargo'']
   \<and> trace (snd (getOutdated bare_env app_dir (plain_project ''go'') bare_world)) = [''which go'']
   \<and> trace (snd (getOutdated bare_env app_dir (plain_project ''php'') bare_world)) = [''which composer'']
   \<and> trace (snd (getOutdated bare_env app_dir (plain_project ''ruby'') bare_world)) = [''which bundle'']
   \<and> trace (snd (getOutdated bare_env app_dir (plain_project ''dart'') bare_world))
      = [''which dart'', ''which flutter'']
   \<and> trace (snd (getOutdated bare_env app_dir (plain_project ''swift'') bare_world)) = [''which swift'']
   \<and> trace (snd (getOutdated bare_env app_dir (plain_project ''kotlin'') bare_world)) = [''which gradle'']"
proof -
  have s: "all_silent bare_env"
    by (simp add: all_silent_def bare_env_def demo_env_def)
  have node: "getProjectInfo bare_env bare_world app_dir = Some (node_project ''npm'')
   \<and> fst (getOutdated bare_env app_dir (node_project ''npm'') bare_world) = Inr (JObj [])
   \<and> trace (snd (getOutdated bare_env app_dir (node_project ''npm'') bare_world))
      = [''npm outdated --json'']"
    by code_simp
  have others: "trace (snd (getOutdated bare_env app_dir (plain_project ''python'') bare_world))
      = [''which pip'', ''which pip3'']
   \<and> trace (snd (getOutdated bare_env app_dir (plain_project ''rust'') bare_world)) = [''which cargo'']
   \<and> trace (snd (getOutdated bare_env app_dir (plain_project ''go'') bare_world)) = [''which go'']
   \<and> trace (snd (getOutdated bare_env app_dir (plain_project ''php'') bare_world)) = [''which composer'']
   \<and> trace (snd (getOutdated bare_env app_dir (plain_project ''ruby'') bare_world)) = [''which bundle'']
   \<and> trace (snd (getOutdated bare_env app_dir (plain_project ''dart'') bare_world))
      = [''which dart'', ''which flutter'']
   \<and> trace (snd (getOutdated bare_env app_dir (plain_project ''swift'') bare_world)) = [''which swift'']
   \<and> trace (snd (getOutdated bare_env app_dir (plain_project ''kotlin'') bare_world)) = [''which gradle'']"
    by code_simp
  from npm_trace [of E p pm w] s node others show ?thesis by simp
qed

subsection \<open>Classification\<close>

lemma first_language_None:
  "(first_language w dir reg = None) = (\<not> list_ex (\<lambda>lm. has_marker w dir (snd lm)) reg)"
proof (induction reg)
  case Nil
  show ?case by simp
next
  case (Cons a reg)
  obtain l m where "a = (l, m)" by (cases a)
  with Cons.IH show ?case by simp
qed

lemma first_language_Some:
  "(first_language w dir reg = Some lang) =
     (\<exists>before marker rest. reg = before @ (lang, marker) # rest \<and> has_marker w dir marker
        \<and> \<not> list_ex (\<lambda>lm. has_marker w dir (snd lm)) before)"
proof (induction reg)
  case Nil
  show ?case by simp
next
  case (Cons a reg)
  obtain l m where a: "a = (l, m)" by (cases a)
  show ?case
  proof (cases "has_marker w dir m")
    case True
    have "(l = lang) = (\<exists>before marker rest. (l, m) # reg = before @ (lang, marker) # rest
        \<and> has_marker w dir marker \<and> \<not> list_ex (\<lambda>lm. has_marker w dir (snd lm)) before)"
    proof
      assume "l = lang"
      with True have "(l, m) # reg = [] @ (lang, m) # reg \<and> has_marker w dir m
          \<and> \<not> list_ex (\<lambda>lm. has_marker w dir (snd lm)) []"
        by simp
      then show "\<exists>before marker rest. (l, m) # reg = before @ (lang, marker) # rest
        \<and> has_marker w dir marker \<and> \<not> list_ex (\<lambda>lm. has_marker w dir (snd lm)) before"
        by blast
    next
      assume "\<exists>before marker rest. (l, m) # reg = before @ (lang, marker) # rest
        \<and> has_marker w dir marker \<and> \<not> list_ex (\<lambda>lm. has_marker w dir (snd lm)) before"
      then obtain before marker rest where
        e: "(l, m) # reg = before @ (lang, marker) # rest"
        and n: "\<not> list_ex (\<lambda>lm. has_marker w dir (snd lm)) before"
        by blast
      show "l = lang"
      proof (cases before)
        case Nil
        with e show ?thesis by simp
      next
        case (Cons b bs)
        with e have "b = (l, m)" by simp
        with Cons n True show ?thesis by simp
      qed
    qed
    with a True show ?thesis by simp
  next
    case False
    have "(\<exists>before marker rest. reg = before @ (lang, marker) # rest \<and> has_marker w dir marker
          \<and> \<not> list_ex (\<lambda>lm. has_marker w dir (snd lm)) before)
      = (\<exists>before marker rest. (l, m) # reg = before @ (lang, marker) # rest
          \<and> has_marker w dir marker \<and> \<not> list_ex (\<lambda>lm. has_marker w dir (snd lm)) before)"
    proof
      assume "\<exists>before marker rest. reg = before @ (lang, marker) # rest \<and> has_marker w dir marker
          \<and> \<not> list_ex (\<lambda>lm. has_marker w dir (snd lm)) before"
      then obtain before marker rest where
        "reg = before @ (lang, marker) # rest" "has_marker w dir marker"
        "\<not> list_ex (\<lambda>lm. has_marker w dir (snd lm)) before"
        by blast
      with False have "(l, m) # reg = ((l, m) # before) @ (lang, marker) # rest
          \<and> has_marker w dir marker
          \<and> \<not> list_ex (\<lambda>lm. has_marker w dir (snd lm)) ((l, m) # before)"
        by simp
      then show "\<exists>before marker rest. (l, m) # reg = before @ (lang, marker) # rest
          \<and> has_marker w dir marker \<and> \<not> list_ex (\<lambda>lm. has_marker w dir (snd lm)) before"
        by blast
    next
      assume "\<exists>before marker rest. (l, m) # reg = before @ (lang, marker) # rest
          \<and> has_marker w dir marker \<and> \<not> list_ex (\<lambda>lm. has_marker w dir (snd lm)) before"
      then obtain before marker rest where
        e: "(l, m) # reg = before @ (lang, marker) # rest" and h: "has_marker w dir marker"
        and n: "\<not> list_ex (\<lambda>lm. has_marker w dir (snd lm)) before"
        by blast
      show "\<exists>before marker rest. reg = before @ (lang, marker) # rest \<and> has_marker w dir marker
          \<and> \<not> list_ex (\<lambda>lm. has_marker w dir (snd lm)) before"
      proof (cases before)
        case Nil
        with e h False show ?thesis by simp
      next
        case (Cons b bs)
        with e n have "reg = bs @ (lang, marker) # rest"
          "\<not> list_ex (\<lambda>lm. has_marker w dir (snd lm)) bs"
          by simp_all
        with h show ?thesis by blast
      qed
    qed
    with a False Cons.IH show ?thesis by simp
  qed
qed

lemma first_language_map_of:
  "distinct (map fst reg) \<Longrightarrow> first_language w dir reg = Some lang \<Longrightarrow>
     \<exists>m. map_of reg lang = Some m \<and> has_marker w dir m"
proof (induction reg)
  case Nil
  then show ?case by simp
next
  case (Cons a reg)
  obtain l m where a: "a = (l, m)" by (cases a)
  show ?case
  proof (cases "has_marker w dir m")
    case True
    with Cons.prems a show ?thesis by simp
  next
    case False
    with Cons.prems a have f: "first_language w dir reg = Some lang" by simp
    with Cons.IH Cons.prems obtain m' where m': "map_of reg lang = Some m'" "has_marker w dir m'"
      by auto
    then have "lang \<in> fst ` set reg" by (metis map_of_eq_None_iff option.distinct(1))
    with Cons.prems(1) a have "l \<noteq> lang" by auto
    with m' a show ?thesis by simp
  qed
qed

lemma registry_distinct: "distinct (map fst LANGUAGE_MARKERS)"
  by (simp add: LANGUAGE_MARKERS_def)

lemma getProjectInfo_language:
  "map_option ProjectInfo.language (getProjectInfo E w dir) = first_language w dir LANGUAGE_MARKERS"
proof (cases "first_language w dir LANGUAGE_MARKERS")
  case None
  then have "\<not> list_ex (\<lambda>lm. has_marker w dir (snd lm)) LANGUAGE_MARKERS"
    by (simp add: first_language_None)
  then have "\<not> has_marker w dir node_marker"
    by (simp add: LANGUAGE_MARKERS_def)
  moreover have "marker_of ''node'' = Some node_marker"
    by (simp add: marker_of_def LANGUAGE_MARKERS_def)
  ultimately show ?thesis using None
    by (simp add: getProjectInfo_def detectLanguage_def)
next
  case (Some lang)
  from first_language_map_of [OF registry_distinct Some]
  obtain m where "marker_of lang = Some m" "has_marker w dir m"
    by (auto simp: marker_of_def)
  with Some show ?thesis
    by (simp add: getProjectInfo_def detectLanguage_def Let_def)
qed

lemma getProjectInfo_path: "getProjectInfo E w dir = Some info \<Longrightarrow> path info = dir"
  by (auto simp: getProjectInfo_def Let_def split: option.splits if_splits)

lemma has_marker_exists:
  "(\<forall>p. existsSync w p = existsSync w' p) \<Longrightarrow> has_marker w dir m = has_marker w' dir m"
  by (simp add: has_marker_def)

lemma first_language_exists:
  assumes "\<forall>p. existsSync w p = existsSync w' p"
  shows "first_language w dir reg = first_language w' dir reg"
proof (induction reg)
  case Nil
  show ?case by simp
next
  case (Cons a reg)
  obtain l m where "a = (l, m)" by (cases a)
  with Cons.IH has_marker_exists [OF assms, of dir m] show ?case by simp
qed

lemma unusable_read:
  "manifests_unusable E w dir \<Longrightarrow> f \<in> set manifest_names \<Longrightarrow>
     readFileSync w (path_join dir f) = Inr content \<Longrightarrow> unusable_text E content"
  by (auto simp: manifests_unusable_def unusable_file_def list_all_iff split: sum.splits)

lemma read_json_unusable:
  "manifests_unusable E w dir \<Longrightarrow> f \<in> set manifest_names \<Longrightarrow>
     \<exists>e. read_json E w (path_join dir f) = Inl e"
  by (cases "readFileSync w (path_join dir f)")
    (auto simp: read_json_def ebind_def json_parse_def unusable_text_def dest: unusable_read)

lemma manifest_unusable_default:
  assumes "manifests_unusable E w dir"
  shows "manifest_of E w lang dir = default_fields dir"
proof -
  have n: "node_fields E w dir = default_fields dir"
    using read_json_unusable [OF assms, of "''package.json''"]
    by (auto simp: node_fields_def manifest_names_def)
  have p: "php_fields E w dir = default_fields dir"
    using read_json_unusable [OF assms, of "''composer.json''"]
    by (auto simp: php_fields_def manifest_names_def)
  have y: "python_fields E w dir = default_fields dir"
    using unusable_read [OF assms, of "''requirements.txt''"]
    by (cases "readFileSync w (path_join dir ''requirements.txt'')")
      (auto simp: python_fields_def default_fields_def unusable_text_def manifest_names_def)
  have r: "rust_fields E w dir = default_fields dir"
    using unusable_read [OF assms, of "''Cargo.toml''"]
    by (cases "readFileSync w (path_join dir ''Cargo.toml'')")
      (auto simp: rust_fields_def unusable_text_def manifest_names_def)
  have g: "go_fields E w dir = default_fields dir"
    using unusable_read [OF assms, of "''go.mod''"]
    by (cases "readFileSync w (path_join dir ''go.mod'')")
      (auto simp: go_fields_def unusable_text_def manifest_names_def)
  from n p y r g show ?thesis by (simp add: manifest_of_def)
qed

lemma getProjectInfo_fields:
  "getProjectInfo E w dir = Some info \<Longrightarrow>
     name info = m_name (manifest_of E w (ProjectInfo.language info) dir)
     \<and> dependencies info = m_deps (manifest_of E w (ProjectInfo.language info) dir)
     \<and> devDependencies info = m_devDeps (manifest_of E w (ProjectInfo.language info) dir)"
  by (auto simp: getProjectInfo_def Let_def split: option.splits if_splits)


text \<open>
  C6.  \<open>getProjectInfo\<close> returns no record exactly when no ecosystem of the registry has a
  marker file in the directory; otherwise the record's path is the directory and its
  ecosystem is the first one, in registry order, with a marker file present.  Which
  ecosystem is chosen depends on file existence only: two environments and worlds that
  agree on which paths exist classify alike.  A directory with a \<open>package.json\<close> is Node
  whatever else it holds (Node is first in the registry), for instance a \<open>Cargo.toml\<close>.
  When the manifests are malformed or absent the record is still returned, with the
  directory's base name as name and empty dependency maps.
\<close>

theorem getProjectInfo_classification:
  "(getProjectInfo E w dir = None) = (\<not> list_ex (\<lambda>lm. has_marker w dir (snd lm)) LANGUAGE_MARKERS)
   \<and> (getProjectInfo E w dir = Some info \<longrightarrow>
         path info = dir \<and> first_in_order w dir (ProjectInfo.language info))
   \<and> ((\<forall>p. existsSync w p = existsSync w' p) \<longrightarrow>
         map_option ProjectInfo.language (getProjectInfo E w dir)
           = map_option ProjectInfo.language (getProjectInfo E' w' dir))
   \<and> (existsSync w (path_join dir ''package.json'') \<longrightarrow>
         map_option ProjectInfo.language (getProjectInfo E w dir) = Some ''node'')
   \<and> (manifests_unusable E w dir \<and> getProjectInfo E w dir = Some info \<longrightarrow>
         name info = JStr (basename dir) \<and> dependencies info = JObj []
         \<and> devDependencies info = JObj [])"
proof -
  have a: "(getProjectInfo E w dir = None)
      = (\<not> list_ex (\<lambda>lm. has_marker w dir (snd lm)) LANGUAGE_MARKERS)"
    using getProjectInfo_language [of E w dir] first_language_None [of w dir LANGUAGE_MARKERS]
    by (cases "getProjectInfo E w dir") auto
  have b: "getProjectInfo E w dir = Some info \<longrightarrow>
      path info = dir \<and> first_in_order w dir (ProjectInfo.language info)"
  proof
    assume s: "getProjectInfo E w dir = Some info"
    with getProjectInfo_language [of E w dir]
    have "first_language w dir LANGUAGE_MARKERS = Some (ProjectInfo.language info)" by simp
    then have "first_in_order w dir (ProjectInfo.language info)"
      by (simp add: first_language_Some first_in_order_def)
    with getProjectInfo_path [OF s]
    show "path info = dir \<and> first_in_order w dir (ProjectInfo.language info)" by simp
  qed
  have c: "(\<forall>p. existsSync w p = existsSync w' p) \<longrightarrow>
      map_option ProjectInfo.language (getProjectInfo E w dir)
        = map_option ProjectInfo.language (getProjectInfo E' w' dir)"
    using first_language_exists [of w w' dir LANGUAGE_MARKERS]
    by (simp add: getProjectInfo_language)
  have d: "existsSync w (path_join dir ''package.json'') \<longrightarrow>
      map_option ProjectInfo.language (getProjectInfo E w dir) = Some ''node''"
    by (simp add: getProjectInfo_language LANGUAGE_MARKERS_def has_marker_def node_marker_def)
  have e: "manifests_unusable E w dir \<and> getProjectInfo E w dir = Some info \<longrightarrow>
      name info = JStr (basename dir) \<and> dependencies info = JObj []
      \<and> devDependencies info = JObj []"
    using getProjectInfo_fields [of E w dir info]
      manifest_unusable_default [of E w dir "ProjectInfo.language info"]
    by (auto simp: default_fields_def)
  from a b c d e show ?thesis by blast
qed

theorem getProjectInfo_classification_witness:
  "getProjectInfo bare_env empty_world app_dir = None
   \<and> \<not> list_ex (\<lambda>lm. has_marker empty_world app_dir (snd lm)) LANGUAGE_MARKERS
   \<and> existsSync mixed_world (path_join app_dir ''package.json'')
   \<and> existsSync mixed_world (path_join app_dir ''Cargo.toml'')
   \<and> manifests_unusable bare_env mixed_world app_dir
   \<and> getProjectInfo bare_env mixed_world app_dir = Some (node_project ''npm'')
   \<and> first_in_order mixed_world app_dir ''node''
   \<and> name (node_project ''npm'') = JStr (basename app_dir)
   \<and> dependencies (node_project ''npm'') = JObj []
   \<and> (\<forall>p. existsSync mixed_world p = existsSync mixed_world_valid p)
   \<and> map_option ProjectInfo.language (getProjectInfo pnpm_env mixed_world_valid app_dir)
       = Some ''node''"
proof -
  have none: "\<not> list_ex (\<lambda>lm. has_marker empty_world app_dir (snd lm)) LANGUAGE_MARKERS"
    by code_simp
  have ex: "existsSync mixed_world (path_join app_dir ''package.json'')"
    "existsSync mixed_world (path_join app_dir ''Cargo.toml'')"
    by code_simp+
  have mu: "manifests_unusable bare_env mixed_world app_dir"
    by code_simp
  have run: "getProjectInfo bare_env mixed_world app_dir = Some (node_project ''npm'')"
    by code_simp
  note t1 = getProjectInfo_classification [of bare_env empty_world app_dir]
  note t2 = getProjectInfo_classification [of bare_env mixed_world app_dir "node_project ''npm''"]
  from t1 none have c1: "getProjectInfo bare_env empty_world app_dir = None" by blast
  from t2 run have c2: "first_in_order mixed_world app_dir (ProjectInfo.language (node_project ''npm''))"
    by blast
  from t2 run mu have c3: "name (node_project ''npm'') = JStr (basename app_dir)"
    "dependencies (node_project ''npm'') = JObj []"
    by blast+
  from c2 have c2': "first_in_order mixed_world app_dir ''node''"
    by (simp add: node_project_def)
  have same: "\<forall>p. existsSync mixed_world p = existsSync mixed_world_valid p"
    by (simp add: existsSync_def mixed_world_def mixed_world_valid_def)
  note t3 = getProjectInfo_classification [of bare_env mixed_world app_dir "node_project ''npm''"
      mixed_world_valid pnpm_env]
  from t3 same run
  have c4: "map_option ProjectInfo.language (getProjectInfo pnpm_env mixed_world_valid app_dir)
       = Some ''node''"
    by (simp add: node_project_def)
  from c1 none ex mu run c2' c3 same c4 show ?thesis by simp
qed

subsection \<open>Cache store\<close>

lemma writeCache_ok:
  assumes "\<forall>names. fs w (getCachePath E) \<noteq> Some (Dir names)"
  shows "writeCache E entries w = Inr (w\<lparr>fs := (fs w)(getCachePath E \<mapsto>
           File (JSON_stringify E (cache_file E w entries) @ [CHR 0x0A]) (clock w))\<rparr>)"
  using assms by (auto simp: writeCache_def writeFileSync_def split: option.splits node.splits)

lemma readCache_file:
  assumes "fs w (getCachePath E) = Some (File content mtime)"
  shows "readCache E w =
     (if clock w - mtime > CACHE_MAX_AGE_MS then JNull
      else (case JSON_parse E content of None \<Rightarrow> JNull | Some v \<Rightarrow> v))"
  using assms by (simp add: readCache_def existsSync_def json_parse_def Let_def split: option.splits)

text \<open>
  C9.  When the cache path is not a directory, \<open>writeCache\<close> succeeds; reading the cache
  back before anything else touches the file system and within the maximum age of six
  hours gives the cache file that was written, whose \<open>projects\<close> are exactly the entries
  handed to \<open>writeCache\<close>, in the same order, provided \<open>JSON.parse\<close> inverts
  \<open>JSON.stringify\<close> on that cache file (as it does for strings and numbers).  Past
  the maximum age the cache reads as absent.
\<close>

theorem cache_round_trip:
  "(\<forall>names. fs w (getCachePath E) \<noteq> Some (Dir names)) \<longrightarrow>
     (\<exists>w1. writeCache E entries w = Inr w1
        \<and> (\<forall>w2. fs w2 = fs w1 \<and> clock w2 - clock w \<le> CACHE_MAX_AGE_MS
               \<and> JSON_parse E (JSON_stringify E (cache_file E w entries) @ [CHR 0x0A])
                   = Some (cache_file E w entries)
             \<longrightarrow> readCache E w2 = cache_file E w entries
                 \<and> get_prop (readCache E w2) ''projects'' = JArr entries)
        \<and> (\<forall>w2. fs w2 = fs w1 \<and> clock w2 - clock w > CACHE_MAX_AGE_MS
             \<longrightarrow> readCache E w2 = JNull))"
proof
  assume a: "\<forall>names. fs w (getCachePath E) \<noteq> Some (Dir names)"
  let ?text = "JSON_stringify E (cache_file E w entries) @ [CHR 0x0A]"
  let ?w1 = "w\<lparr>fs := (fs w)(getCachePath E \<mapsto> File ?text (clock w))\<rparr>"
  have wr: "writeCache E entries w = Inr ?w1" by (rule writeCache_ok [OF a])
  have rd: "\<And>w2. fs w2 = fs ?w1 \<Longrightarrow> readCache E w2 =
     (if clock w2 - clock w > CACHE_MAX_AGE_MS then JNull
      else (case JSON_parse E ?text of None \<Rightarrow> JNull | Some v \<Rightarrow> v))"
    by (rule readCache_file) simp
  have p: "get_prop (cache_file E w entries) ''projects'' = JArr entries"
    by (simp add: cache_file_def)
  from wr rd p show "\<exists>w1. writeCache E entries w = Inr w1
        \<and> (\<forall>w2. fs w2 = fs w1 \<and> clock w2 - clock w \<le> CACHE_MAX_AGE_MS
               \<and> JSON_parse E (JSON_stringify E (cache_file E w entries) @ [CHR 0x0A])
                   = Some (cache_file E w entries)
             \<longrightarrow> readCache E w2 = cache_file E w entries
                 \<and> get_prop (readCache E w2) ''projects'' = JArr entries)
        \<and> (\<forall>w2. fs w2 = fs w1 \<and> clock w2 - clock w > CACHE_MAX_AGE_MS
             \<longrightarrow> readCache E w2 = JNull)"
    by (intro exI [of _ ?w1]) auto
qed


theorem cache_round_trip_witness:
  "fst (scan_projects pnpm_env [node_project ''pnpm''] [] pnpm_world) = [demo_entry]
   \<and> cache_file pnpm_env pnpm_world [demo_entry] = demo_cache
   \<and> (\<exists>w1. writeCache pnpm_env [demo_entry] pnpm_world = Inr w1
          \<and> readCache pnpm_env (w1\<lparr>clock := 1000\<rparr>) = demo_cache
          \<and> readCache pnpm_env (w1\<lparr>clock := CACHE_MAX_AGE_MS + 1\<rparr>) = JNull)
   \<and> get_prop demo_cache ''projects'' = JArr [demo_entry]"
proof -
  have scan: "fst (scan_projects pnpm_env [node_project ''pnpm''] [] pnpm_world) = [demo_entry]"
    by code_simp
  have cf: "cache_file pnpm_env pnpm_world [demo_entry] = demo_cache"
    by code_simp
  have nodir: "\<forall>names. fs pnpm_world (getCachePath pnpm_env) \<noteq> Some (Dir names)"
    by (simp add: pnpm_world_def)
  have rt: "JSON_parse pnpm_env (JSON_stringify pnpm_env demo_cache @ [CHR 0x0A]) = Some demo_cache"
    by code_simp
  have c0: "clock pnpm_world = 0" by (simp add: pnpm_world_def)
  from cache_round_trip [of pnpm_world pnpm_env "[demo_entry]"] nodir
  obtain w1 where w1: "writeCache pnpm_env [demo_entry] pnpm_world = Inr w1"
    and fresh: "\<And>w2. fs w2 = fs w1 \<Longrightarrow> clock w2 - clock pnpm_world \<le> CACHE_MAX_AGE_MS \<Longrightarrow>
          JSON_parse pnpm_env (JSON_stringify pnpm_env (cache_file pnpm_env pnpm_world [demo_entry])
             @ [CHR 0x0A]) = Some (cache_file pnpm_env pnpm_world [demo_entry]) \<Longrightarrow>
          readCache pnpm_env w2 = cache_file pnpm_env pnpm_world [demo_entry]
          \<and> get_prop (readCache pnpm_env w2) ''projects'' = JArr [demo_entry]"
    and stale: "\<And>w2. fs w2 = fs w1 \<Longrightarrow> clock w2 - clock pnpm_world > CACHE_MAX_AGE_MS \<Longrightarrow>
          readCache pnpm_env w2 = JNull"
    by blast
  from fresh [of "w1\<lparr>clock := 1000\<rparr>"] cf rt c0
  have r1: "readCache pnpm_env (w1\<lparr>clock := 1000\<rparr>) = demo_cache"
    by (simp add: CACHE_MAX_AGE_MS_def)
  have r2: "get_prop demo_cache ''projects'' = JArr [demo_entry]"
    by code_simp
  from stale [of "w1\<lparr>clock := CACHE_MAX_AGE_MS + 1\<rparr>"] c0
  have r3: "readCache pnpm_env (w1\<lparr>clock := CACHE_MAX_AGE_MS + 1\<rparr>) = JNull"
    by simp
  from scan cf w1 r1 r2 r3 show ?thesis by blast
qed

subsection \<open>Background scan\<close>

lemma scan_score_spec: "scan_score a b = spec_score (int a) (int b) True 0"
  by (simp add: scan_score_def spec_score_def Let_def mult.commute)

lemma scan_project_ok:
  assumes "getOutdated E (path info) info w = (out, w1)"
    and "ebind out outdated_counts = Inr (a, b)"
  shows "\<exists>e. fst (scan_project E info w) = Some e
     \<and> get_prop e ''outdatedCount'' = JNum (int a) \<and> get_prop e ''majorCount'' = JNum (int b)
     \<and> get_prop e ''securityIssues'' = JNum 0
     \<and> get_prop e ''score'' = JNum (spec_score (int a) (int b) True 0)"
  unfolding scan_project_def Let_def assms prod.case sum.case fst_conv
  by (simp add: scan_score_spec)

lemma scan_project_err:
  assumes "getOutdated E (path info) info w = (out, w1)"
    and "ebind out outdated_counts = Inl err"
  shows "fst (scan_project E info w) = None"
  unfolding scan_project_def Let_def assms prod.case sum.case fst_conv
  by simp

lemma cached_entry_okI:
  assumes "get_prop e ''outdatedCount'' = JNum (int a)" and "get_prop e ''majorCount'' = JNum (int b)"
    and "get_prop e ''securityIssues'' = JNum 0"
    and "get_prop e ''score'' = JNum (spec_score (int a) (int b) True 0)"
    and "b \<le> a"
  shows "cached_entry_ok e"
  using assms by (simp add: cached_entry_ok_def spec_score_def)

lemma scan_project_entry_ok: "fst (scan_project E info w) = Some e \<Longrightarrow> cached_entry_ok e"
proof -
  assume s: "fst (scan_project E info w) = Some e"
  obtain out w1 where g: "getOutdated E (path info) info w = (out, w1)"
    by (cases "getOutdated E (path info) info w")
  show ?thesis
  proof (cases "ebind out outdated_counts")
    case (Inl err)
    with scan_project_err [OF g] s show ?thesis by simp
  next
    case (Inr c)
    obtain a b where c: "c = (a, b)" by (cases c)
    from Inr c have le: "b \<le> a"
      by (auto simp: ebind_def split: sum.splits dest: outdated_counts_le)
    from scan_project_ok [OF g, of a b] Inr c s le show ?thesis
      by (auto intro: cached_entry_okI)
  qed
qed

lemma scan_projects_ok:
  "list_all cached_entry_ok entries \<Longrightarrow> list_all cached_entry_ok (fst (scan_projects E projects entries w))"
proof (induction projects arbitrary: entries w)
  case Nil
  then show ?case by simp
next
  case (Cons info rest)
  obtain entry w1 where s: "scan_project E info w = (entry, w1)"
    by (cases "scan_project E info w")
  show ?case
  proof (cases entry)
    case None
    with s Cons show ?thesis by simp
  next
    case (Some e)
    with s scan_project_entry_ok [of E info w e] have "cached_entry_ok e" by simp
    with Cons.prems have "list_all cached_entry_ok (entries @ [e])" by simp
    from Cons.IH [OF this] s Some show ?thesis by simp
  qed
qed

lemma spec_score_le:
  "0 \<le> sec \<Longrightarrow> spec_score a b l sec \<le> spec_score a b True 0"
proof -
  assume s: "0 \<le> sec"
  let ?base = "100 - min (3 * a) 40 - 10 * b"
  from s have "?base - (if l then 0 else 15) - min (5 * sec) 30 \<le> ?base"
    by (cases l) simp_all
  then have "max 0 (min 100 (?base - (if l then 0 else 15) - min (5 * sec) 30))
      \<le> max 0 (min 100 ?base)"
    by simp
  then show ?thesis by (simp add: spec_score_def)
qed

text \<open>
  C10.  Every entry the scan loop of the background checker produces records zero
  security issues and the score 100 minus min(3 times the outdated count, 40) minus 10
  times the major count, clamped to the range from 0 to 100: the score of the health
  scorer with the lockfile deduction and the security deduction left out.  For the same
  project in the same world the outdated and major counts agree with the health report's,
  so the cached score is the health score without those two deductions and is at least the
  health score whenever the security count is not negative; it can be strictly larger, as
  for a Node project without a lockfile (cached 100, health report 85).
\<close>

theorem scan_entry_score:
  "list_all cached_entry_ok (fst (scan_projects E projects [] w))
   \<and> (fst (scan_project E info w) = Some e \<and> fst (computeHealthReport E info w) = Inr r \<longrightarrow>
         get_prop e ''securityIssues'' = JNum 0
         \<and> get_prop e ''outdatedCount'' = JNum (outdatedCount r)
         \<and> get_prop e ''majorCount'' = JNum (majorUpdates r)
         \<and> get_prop e ''score'' = JNum (spec_score (outdatedCount r) (majorUpdates r) True 0)
         \<and> (num_le (Num 0) (to_number E (securityIssues r)) \<longrightarrow>
               num_le (score r) (Num (spec_score (outdatedCount r) (majorUpdates r) True 0))))
   \<and> map_option (\<lambda>e. get_prop e ''score'')
        (fst (scan_project bare_env (node_project ''npm'') bare_world)) = Some (JNum 100)
   \<and> map_sum id score
        (fst (computeHealthReport bare_env (node_project ''npm'') bare_world)) = Inr (Num 85)"
proof -
  have first: "list_all cached_entry_ok (fst (scan_projects E projects [] w))"
    by (rule scan_projects_ok) simp
  have second: "fst (scan_project E info w) = Some e \<and> fst (computeHealthReport E info w) = Inr r \<longrightarrow>
         get_prop e ''securityIssues'' = JNum 0
         \<and> get_prop e ''outdatedCount'' = JNum (outdatedCount r)
         \<and> get_prop e ''majorCount'' = JNum (majorUpdates r)
         \<and> get_prop e ''score'' = JNum (spec_score (outdatedCount r) (majorUpdates r) True 0)
         \<and> (num_le (Num 0) (to_number E (securityIssues r)) \<longrightarrow>
               num_le (score r) (Num (spec_score (outdatedCount r) (majorUpdates r) True 0)))"
  proof
    assume h: "fst (scan_project E info w) = Some e \<and> fst (computeHealthReport E info w) = Inr r"
    obtain out w1 where g: "getOutdated E (path info) info w = (out, w1)"
      by (cases "getOutdated E (path info) info w")
    obtain sec w2 where s: "getSecurityIssues E (path info) info w1 = (sec, w2)"
      by (cases "getSecurityIssues E (path info) info w1")
    show "get_prop e ''securityIssues'' = JNum 0
         \<and> get_prop e ''outdatedCount'' = JNum (outdatedCount r)
         \<and> get_prop e ''majorCount'' = JNum (majorUpdates r)
         \<and> get_prop e ''score'' = JNum (spec_score (outdatedCount r) (majorUpdates r) True 0)
         \<and> (num_le (Num 0) (to_number E (securityIssues r)) \<longrightarrow>
               num_le (score r) (Num (spec_score (outdatedCount r) (majorUpdates r) True 0)))"
    proof (cases "ebind out outdated_counts")
      case (Inl err)
      with scan_project_err [OF g] h show ?thesis by simp
    next
      case (Inr c)
      obtain a b where c: "c = (a, b)" by (cases c)
      from scan_project_ok [OF g, of a b] Inr c h
      have e: "get_prop e ''outdatedCount'' = JNum (int a)" "get_prop e ''majorCount'' = JNum (int b)"
        "get_prop e ''securityIssues'' = JNum 0"
        "get_prop e ''score'' = JNum (spec_score (int a) (int b) True 0)"
        by auto
      from computeHealthReport_ok [OF g _ s, of a b] Inr c h
      have r: "outdatedCount r = int a" "majorUpdates r = int b" "securityIssues r = sec"
        "score r = spec_score_num (int a) (int b) (lockfileExists r) (to_number E sec)"
        by auto
      have "num_le (Num 0) (to_number E sec) \<longrightarrow>
          num_le (score r) (Num (spec_score (int a) (int b) True 0))"
      proof (cases "to_number E sec")
        case (Num m)
        with r spec_score_le [of m "int a" "int b" "lockfileExists r"] show ?thesis
          by (simp add: spec_score_num_def num_le_def)
      next
        case NaN
        then show ?thesis by (simp add: num_le_def)
      qed
      with e r show ?thesis by simp
    qed
  qed
  have third: "map_option (\<lambda>e. get_prop e ''score'')
        (fst (scan_project bare_env (node_project ''npm'') bare_world)) = Some (JNum 100)"
    by code_simp
  have fourth: "map_sum id score
        (fst (computeHealthReport bare_env (node_project ''npm'') bare_world)) = Inr (Num 85)"
    by code_simp
  from first second third fourth show ?thesis by blast
qed

theorem scan_entry_score_witness:
  "fst (scan_project pnpm_env (node_project ''pnpm'') pnpm_world) = Some demo_entry
   \<and> fst (computeHealthReport pnpm_env (node_project ''pnpm'') pnpm_world) = Inr pnpm_report
   \<and> get_prop demo_entry ''score'' = JNum 87 \<and> score pnpm_report = Num 87
   \<and> get_prop demo_entry ''securityIssues'' = JNum 0
   \<and> spec_score 1 1 True 0 = 87
   \<and> num_le (Num 0) (to_number pnpm_env (securityIssues pnpm_report))
   \<and> num_le (score pnpm_report) (Num (spec_score 1 1 True 0))"
proof -
  have a: "fst (scan_project pnpm_env (node_project ''pnpm'') pnpm_world) = Some demo_entry"
    by code_simp
  have b: "fst (computeHealthReport pnpm_env (node_project ''pnpm'') pnpm_world) = Inr pnpm_report"
    by code_simp
  have c: "outdatedCount pnpm_report = 1" "majorUpdates pnpm_report = 1"
    "score pnpm_report = Num 87"
    "num_le (Num 0) (to_number pnpm_env (securityIssues pnpm_report))"
    by (simp_all add: pnpm_report_def to_number_def num_le_def)
  from scan_entry_score [of pnpm_env "[]" pnpm_world "node_project ''pnpm''" demo_entry pnpm_report]
    a b c
  have "get_prop demo_entry ''securityIssues'' = JNum 0"
    and "get_prop demo_entry ''score'' = JNum (spec_score 1 1 True 0)"
    and "num_le (score pnpm_report) (Num (spec_score 1 1 True 0))"
    by simp_all
  moreover have "get_prop demo_entry ''score'' = JNum 87" by code_simp
  ultimately show ?thesis using a b c by simp
qed

end
